theory Spec2Isabelle
  imports Main "HOL-Library.Word"
begin

unbundle bit_operations_syntax

section \<open>Machine types\<close>

text \<open>
  \<open>uint8_t\<close>, \<open>uint16_t\<close> and \<open>uint32_t\<close> are words of that width; \<open>target_addr_t\<close>
  is a \<open>uint32_t\<close>. A \<open>size_t\<close> is a \<open>nat\<close>: its width depends on the host, and the
  driver only tests it against zero, masks its low 16 bits and rounds it up to a
  multiple of four, after the 128-byte bound of the transfer buffers has been checked.
\<close>

type_synonym u8 = "8 word"
type_synonym u16 = "16 word"
type_synonym u32 = "32 word"

section \<open>Register map and bit fields\<close>

definition IMXRT_SRC_BASE :: u32 where
  "IMXRT_SRC_BASE = 0x400f8000"

definition IMXRT_SRC_BOOT_MODE1 :: u32 where
  "IMXRT_SRC_BOOT_MODE1 = IMXRT_SRC_BASE + 0x004"

definition IMXRT_SRC_BOOT_MODE2 :: u32 where
  "IMXRT_SRC_BOOT_MODE2 = IMXRT_SRC_BASE + 0x01c"

definition IMXRT_OCRAM1_BASE :: u32 where
  "IMXRT_OCRAM1_BASE = 0x20280000"

definition IMXRT_OCRAM1_SIZE :: u32 where
  "IMXRT_OCRAM1_SIZE = 0x00080000"

definition IMXRT_OCRAM2_BASE :: u32 where
  "IMXRT_OCRAM2_BASE = 0x20200000"

definition IMXRT_OCRAM2_SIZE :: u32 where
  "IMXRT_OCRAM2_SIZE = 0x00080000"

definition IMXRT_FLEXSPI_BASE :: u32 where
  "IMXRT_FLEXSPI_BASE = 0x60000000"

definition IMXRT_FLEXSPI1_BASE :: u32 where
  "IMXRT_FLEXSPI1_BASE = 0x402a8000"

definition IMXRT_FLEXSPI1_MOD_CTRL0 :: u32 where
  "IMXRT_FLEXSPI1_MOD_CTRL0 = IMXRT_FLEXSPI1_BASE + 0x000"

definition IMXRT_FLEXSPI1_INT :: u32 where
  "IMXRT_FLEXSPI1_INT = IMXRT_FLEXSPI1_BASE + 0x014"

definition IMXRT_FLEXSPI1_LUT_KEY :: u32 where
  "IMXRT_FLEXSPI1_LUT_KEY = IMXRT_FLEXSPI1_BASE + 0x018"

definition IMXRT_FLEXSPI1_LUT_CTRL :: u32 where
  "IMXRT_FLEXSPI1_LUT_CTRL = IMXRT_FLEXSPI1_BASE + 0x01c"

definition IMXRT_FLEXSPI1_CTRL1 :: u32 where
  "IMXRT_FLEXSPI1_CTRL1 = IMXRT_FLEXSPI1_BASE + 0x070"

definition IMXRT_FLEXSPI1_PRG_CTRL0 :: u32 where
  "IMXRT_FLEXSPI1_PRG_CTRL0 = IMXRT_FLEXSPI1_BASE + 0x0a0"

definition IMXRT_FLEXSPI1_PRG_CTRL1 :: u32 where
  "IMXRT_FLEXSPI1_PRG_CTRL1 = IMXRT_FLEXSPI1_BASE + 0x0a4"

definition IMXRT_FLEXSPI1_PRG_CMD :: u32 where
  "IMXRT_FLEXSPI1_PRG_CMD = IMXRT_FLEXSPI1_BASE + 0x0b0"

definition IMXRT_FLEXSPI1_PRG_READ_FIFO_CTRL :: u32 where
  "IMXRT_FLEXSPI1_PRG_READ_FIFO_CTRL = IMXRT_FLEXSPI1_BASE + 0x0b8"

definition IMXRT_FLEXSPI1_PRG_WRITE_FIFO_CTRL :: u32 where
  "IMXRT_FLEXSPI1_PRG_WRITE_FIFO_CTRL = IMXRT_FLEXSPI1_BASE + 0x0bc"

definition IMXRT_FLEXSPI1_PRG_READ_FIFO :: u32 where
  "IMXRT_FLEXSPI1_PRG_READ_FIFO = IMXRT_FLEXSPI1_BASE + 0x100"

definition IMXRT_FLEXSPI1_PRG_WRITE_FIFO :: u32 where
  "IMXRT_FLEXSPI1_PRG_WRITE_FIFO = IMXRT_FLEXSPI1_BASE + 0x180"

definition IMXRT_FLEXSPI1_LUT_BASE :: u32 where
  "IMXRT_FLEXSPI1_LUT_BASE = IMXRT_FLEXSPI1_BASE + 0x200"

definition IMXRT_FLEXSPI1_MOD_CTRL0_SUSPEND :: u32 where
  "IMXRT_FLEXSPI1_MOD_CTRL0_SUSPEND = 0x00000002"

definition IMXRT_FLEXSPI1_INT_PRG_CMD_DONE :: u32 where
  "IMXRT_FLEXSPI1_INT_PRG_CMD_DONE = 0x00000001"

definition IMXRT_FLEXSPI1_INT_READ_FIFO_FULL :: u32 where
  "IMXRT_FLEXSPI1_INT_READ_FIFO_FULL = 0x00000020"

definition IMXRT_FLEXSPI1_INT_WRITE_FIFO_EMPTY :: u32 where
  "IMXRT_FLEXSPI1_INT_WRITE_FIFO_EMPTY = 0x00000040"

definition IMXRT_FLEXSPI1_LUT_KEY_VALUE :: u32 where
  "IMXRT_FLEXSPI1_LUT_KEY_VALUE = 0x5af05af0"

definition IMXRT_FLEXSPI1_LUT_CTRL_LOCK :: u32 where
  "IMXRT_FLEXSPI1_LUT_CTRL_LOCK = 0x00000001"

definition IMXRT_FLEXSPI1_LUT_CTRL_UNLOCK :: u32 where
  "IMXRT_FLEXSPI1_LUT_CTRL_UNLOCK = 0x00000002"

definition IMXRT_FLEXSPI1_CTRL1_CAS_MASK :: u32 where
  "IMXRT_FLEXSPI1_CTRL1_CAS_MASK = 0x00007800"

definition IMXRT_FLEXSPI1_CTRL1_CAS_SHIFT :: nat where
  "IMXRT_FLEXSPI1_CTRL1_CAS_SHIFT = 11"

definition IMXRT_FLEXSPI1_PRG_LENGTH :: "u32 \<Rightarrow> u32" where
  "IMXRT_FLEXSPI1_PRG_LENGTH x = x AND 0x0000ffff"

definition IMXRT_FLEXSPI1_PRG_LUT_INDEX_0 :: u32 where
  "IMXRT_FLEXSPI1_PRG_LUT_INDEX_0 = 0"

definition IMXRT_FLEXSPI1_PRG_RUN :: u32 where
  "IMXRT_FLEXSPI1_PRG_RUN = 0x00000001"

definition IMXRT_FLEXSPI1_PRG_FIFO_CTRL_CLR :: u32 where
  "IMXRT_FLEXSPI1_PRG_FIFO_CTRL_CLR = 0x00000001"

definition IMXRT_FLEXSPI1_PRG_FIFO_CTRL_WATERMARK :: "u32 \<Rightarrow> u32" where
  "IMXRT_FLEXSPI1_PRG_FIFO_CTRL_WATERMARK x = push_bit 2 ((drop_bit 3 (x + 7) - 1) AND 0xf)"

definition IMXRT_FLEXSPI_LUT_OPCODE :: "u32 \<Rightarrow> u32" where
  "IMXRT_FLEXSPI_LUT_OPCODE x = push_bit 2 (x AND 0x3f)"

definition IMXRT_FLEXSPI_LUT_MODE_SERIAL :: u32 where
  "IMXRT_FLEXSPI_LUT_MODE_SERIAL = 0x0"

definition IMXRT_FLEXSPI_LUT_OP_STOP :: u32 where
  "IMXRT_FLEXSPI_LUT_OP_STOP = 0x00"

definition IMXRT_FLEXSPI_LUT_OP_COMMAND :: u32 where
  "IMXRT_FLEXSPI_LUT_OP_COMMAND = 0x01"

definition IMXRT_FLEXSPI_LUT_OP_CADDR :: u32 where
  "IMXRT_FLEXSPI_LUT_OP_CADDR = 0x03"

definition IMXRT_FLEXSPI_LUT_OP_RADDR :: u32 where
  "IMXRT_FLEXSPI_LUT_OP_RADDR = 0x02"

definition IMXRT_FLEXSPI_LUT_OP_DUMMY_CYCLES :: u32 where
  "IMXRT_FLEXSPI_LUT_OP_DUMMY_CYCLES = 0x0c"

definition IMXRT_FLEXSPI_LUT_OP_READ :: u32 where
  "IMXRT_FLEXSPI_LUT_OP_READ = 0x09"

definition IMXRT_FLEXSPI_LUT_OP_WRITE :: u32 where
  "IMXRT_FLEXSPI_LUT_OP_WRITE = 0x08"

subsection \<open>The flash command word\<close>

definition IMXRT_SPI_FLASH_OPCODE_MASK :: u32 where
  "IMXRT_SPI_FLASH_OPCODE_MASK = 0x000000ff"

definition IMXRT_SPI_FLASH_OPCODE :: "u32 \<Rightarrow> u32" where
  "IMXRT_SPI_FLASH_OPCODE x = x AND IMXRT_SPI_FLASH_OPCODE_MASK"

definition IMXRT_SPI_FLASH_DUMMY_MASK :: u32 where
  "IMXRT_SPI_FLASH_DUMMY_MASK = 0x0000ff00"

definition IMXRT_SPI_FLASH_DUMMY_SHIFT :: nat where
  "IMXRT_SPI_FLASH_DUMMY_SHIFT = 8"

definition IMXRT_SPI_FLASH_DUMMY_LEN :: "u32 \<Rightarrow> u32" where
  "IMXRT_SPI_FLASH_DUMMY_LEN x = push_bit IMXRT_SPI_FLASH_DUMMY_SHIFT x AND IMXRT_SPI_FLASH_DUMMY_MASK"

definition IMXRT_SPI_FLASH_OPCODE_MODE_MASK :: u32 where
  "IMXRT_SPI_FLASH_OPCODE_MODE_MASK = 0x00010000"

definition IMXRT_SPI_FLASH_OPCODE_ONLY :: u32 where
  "IMXRT_SPI_FLASH_OPCODE_ONLY = push_bit 16 0"

definition IMXRT_SPI_FLASH_OPCODE_3B_ADDR :: u32 where
  "IMXRT_SPI_FLASH_OPCODE_3B_ADDR = push_bit 16 1"

definition IMXRT_SPI_FLASH_DATA_IN :: u32 where
  "IMXRT_SPI_FLASH_DATA_IN = push_bit 17 0"

definition IMXRT_SPI_FLASH_DATA_OUT :: u32 where
  "IMXRT_SPI_FLASH_DATA_OUT = push_bit 17 1"

definition SPI_FLASH_OPCODE_SECTOR_ERASE :: u8 where
  "SPI_FLASH_OPCODE_SECTOR_ERASE = 0x20"

definition SPI_FLASH_CMD_WRITE_ENABLE :: u32 where
  "SPI_FLASH_CMD_WRITE_ENABLE =
     IMXRT_SPI_FLASH_OPCODE_ONLY OR IMXRT_SPI_FLASH_DUMMY_LEN 0 OR IMXRT_SPI_FLASH_OPCODE 0x06"

definition SPI_FLASH_CMD_CHIP_ERASE :: u32 where
  "SPI_FLASH_CMD_CHIP_ERASE =
     IMXRT_SPI_FLASH_OPCODE_ONLY OR IMXRT_SPI_FLASH_DUMMY_LEN 0 OR IMXRT_SPI_FLASH_OPCODE 0x60"

definition SPI_FLASH_CMD_READ_STATUS :: u32 where
  "SPI_FLASH_CMD_READ_STATUS =
     IMXRT_SPI_FLASH_OPCODE_ONLY OR IMXRT_SPI_FLASH_DATA_IN OR IMXRT_SPI_FLASH_DUMMY_LEN 0 OR
     IMXRT_SPI_FLASH_OPCODE 0x05"

definition SPI_FLASH_CMD_READ_JEDEC_ID :: u32 where
  "SPI_FLASH_CMD_READ_JEDEC_ID =
     IMXRT_SPI_FLASH_OPCODE_ONLY OR IMXRT_SPI_FLASH_DATA_IN OR IMXRT_SPI_FLASH_DUMMY_LEN 0 OR
     IMXRT_SPI_FLASH_OPCODE 0x9f"

definition SPI_FLASH_CMD_READ_SFDP :: u32 where
  "SPI_FLASH_CMD_READ_SFDP =
     IMXRT_SPI_FLASH_OPCODE_3B_ADDR OR IMXRT_SPI_FLASH_DATA_IN OR IMXRT_SPI_FLASH_DUMMY_LEN 8 OR
     IMXRT_SPI_FLASH_OPCODE 0x5a"

definition SPI_FLASH_STATUS_BUSY :: u8 where
  "SPI_FLASH_STATUS_BUSY = 0x01"

definition SPI_FLASH_STATUS_WRITE_ENABLED :: u8 where
  "SPI_FLASH_STATUS_WRITE_ENABLED = 0x02"

section \<open>Boot source classification\<close>

text \<open>The enumeration \<open>imxrt_boot_src_e\<close>.\<close>

datatype imxrt_boot_src_e =
    boot_spi_flash_nor
  | boot_sd_card
  | boot_emmc
  | boot_slc_nand
  | boot_parallel_nor
  | boot_spi_flash_nand

text \<open>
  \<open>imxrt_boot_source\<close>: the boot configuration is masked with \<open>0xf0\<close> and stored in a
  \<open>uint8_t\<close>; the tests run in the source's order.
\<close>

definition imxrt_boot_source :: "u32 \<Rightarrow> imxrt_boot_src_e" where
  "imxrt_boot_source boot_cfg =
     (let boot_src = (ucast (boot_cfg AND 0xf0) :: u8) in
      if boot_src = 0x00 then boot_spi_flash_nor
      else if boot_src AND 0xc0 = 0x40 then boot_sd_card
      else if boot_src AND 0xc0 = 0x80 then boot_emmc
      else if boot_src AND 0xe0 = 0x20 then boot_slc_nand
      else if boot_src = 0x10 then boot_parallel_nor
      else boot_spi_flash_nand)"

section \<open>Driver state\<close>

text \<open>
  One slot of the sequence LUT, \<open>imxrt_flexspi_lut_insn_s\<close>: the operand byte \<open>value\<close>
  (here \<open>value_u8\<close>) and the byte holding the opcode above the two mode bits.
\<close>

record imxrt_flexspi_lut_insn_s =
  value_u8 :: u8
  opcode_mode :: u8

text \<open>The driver's private block \<open>imxrt_priv_s\<close>; \<open>flexspi_lut_seq\<close> has 8 slots.\<close>

record imxrt_priv_s =
  boot_source :: imxrt_boot_src_e
  flexspi_module_state :: u32
  flexspi_lut_state :: u32
  flexspi_lut_seq :: "imxrt_flexspi_lut_insn_s list"

text \<open>What \<open>calloc(1, sizeof(imxrt_priv_s))\<close> hands out: all fields zero.\<close>

definition imxrt_priv_zero :: imxrt_priv_s where
  "imxrt_priv_zero =
     \<lparr>boot_source = boot_spi_flash_nor, flexspi_module_state = 0, flexspi_lut_state = 0,
      flexspi_lut_seq = replicate 8 \<lparr>value_u8 = 0, opcode_mode = 0\<rparr>\<rparr>"

text \<open>
  The three bytes of a JEDEC ID answer (\<open>spi_flash_id_s\<close>), the SFDP geometry
  (\<open>spi_parameters_s\<close>) and the fields of \<open>target_flash_s\<close> the driver fills in.
  Modelled from the spec: the three types are declared in headers that are not part of
  the driver file; the spec gives the byte order of the ID (manufacturer, type, capacity
  exponent) and the four fields of the geometry.
\<close>

record spi_flash_id_s =
  manufacturer :: u8
  type_u8 :: u8
  capacity_u8 :: u8

record spi_parameters_s =
  page_size :: nat
  sector_size :: nat
  capacity :: nat
  sector_erase_opcode :: u8

record target_flash_s =
  start :: u32
  length_sz :: nat
  blocksize :: nat
  erased :: u8

text \<open>The driver functions a target's hooks can point to.\<close>

datatype imxrt_hook = Imxrt_spi_mass_erase | Imxrt_enter_flash_mode | Imxrt_exit_flash_mode

text \<open>A transaction on the debug transport, as seen from the driver.\<close>

datatype bus_op =
    Rd32 u32 u32
  | Wr32 u32 u32
  | RdBlk u32 "u8 list"
  | WrBlk u32 "u8 list"

text \<open>
  The target handle \<open>target_s\<close>, with the fields the driver touches. \<open>target_storage\<close>
  is the private block itself: the static functions of the driver run only after
  \<open>imxrt_probe\<close> has allocated it. The RAM and flash lists are what \<open>target_add_ram\<close> and
  \<open>target_add_flash\<close> have registered. \<open>host_heap\<close> counts the allocations the host heap
  can still serve, \<open>dev\<close> is the state of the attached hardware, and \<open>bus_log\<close> records
  every transaction the driver has issued, oldest first.
\<close>

record 'd target_s =
  part_id :: u16
  target_storage :: imxrt_priv_s
  target_options :: u32
  driver :: string
  mass_erase :: "imxrt_hook option"
  enter_flash_mode :: "imxrt_hook option"
  exit_flash_mode :: "imxrt_hook option"
  ram :: "(u32 \<times> u32) list"
  flash :: "target_flash_s list"
  host_heap :: nat
  dev :: 'd
  bus_log :: "bus_op list"

text \<open>The outcomes the C code leaves undefined.\<close>

datatype fault = Buffer_overrun | Index_out_of_bounds | Shift_out_of_range

section \<open>The platform the driver runs on\<close>

text \<open>
  Modelled from the spec: the debug transport's raw memory primitives, the SFDP decoder,
  the region bookkeeping and the Cortex-M option flag are external to the driver file.
  The transport is a state machine over the hardware state \<open>'d\<close>: a 32-bit read or a
  block read returns its data and the next hardware state, a write returns the next
  hardware state. \<open>p_sfdp_read_parameters\<close> is given the read callback and the target,
  and answers the geometry it found, if any; like every call that polls the hardware, it
  may not return (\<open>None\<close>). \<open>p_enable_debug\<close> is the compile-time switch \<open>ENABLE_DEBUG\<close>.
\<close>

record 'd platform =
  p_read32 :: "'d \<Rightarrow> u32 \<Rightarrow> u32 \<times> 'd"
  p_write32 :: "'d \<Rightarrow> u32 \<Rightarrow> u32 \<Rightarrow> 'd"
  p_read :: "'d \<Rightarrow> u32 \<Rightarrow> nat \<Rightarrow> u8 list \<times> 'd"
  p_write :: "'d \<Rightarrow> u32 \<Rightarrow> u8 list \<Rightarrow> 'd"
  p_sfdp_read_parameters ::
    "('d target_s \<Rightarrow> u32 \<Rightarrow> nat \<Rightarrow> (fault + u8 list \<times> 'd target_s) option) \<Rightarrow>
     'd target_s \<Rightarrow> (fault + spi_parameters_s option \<times> 'd target_s) option"
  p_cortexm_topt_inhibit_nrst :: u32
  p_enable_debug :: bool

definition target_mem_read32 :: "'d platform \<Rightarrow> 'd target_s \<Rightarrow> u32 \<Rightarrow> u32 \<times> 'd target_s" where
  "target_mem_read32 P T addr =
     (case p_read32 P (dev T) addr of
        (v, d) \<Rightarrow> (v, T\<lparr>dev := d, bus_log := bus_log T @ [Rd32 addr v]\<rparr>))"

definition target_mem_write32 :: "'d platform \<Rightarrow> 'd target_s \<Rightarrow> u32 \<Rightarrow> u32 \<Rightarrow> 'd target_s" where
  "target_mem_write32 P T addr v =
     T\<lparr>dev := p_write32 P (dev T) addr v, bus_log := bus_log T @ [Wr32 addr v]\<rparr>"

text \<open>
  A block read fills exactly \<open>len\<close> bytes of the destination: a shorter answer of the
  transport is padded with zeros, a longer one is cut.
\<close>

definition target_mem_read :: "'d platform \<Rightarrow> 'd target_s \<Rightarrow> u32 \<Rightarrow> nat \<Rightarrow> u8 list \<times> 'd target_s" where
  "target_mem_read P T addr len =
     (case p_read P (dev T) addr len of
        (bs, d) \<Rightarrow>
          (let data = take len (bs @ replicate len 0)
           in (data, T\<lparr>dev := d, bus_log := bus_log T @ [RdBlk addr data]\<rparr>)))"

definition target_mem_write :: "'d platform \<Rightarrow> 'd target_s \<Rightarrow> u32 \<Rightarrow> u8 list \<Rightarrow> 'd target_s" where
  "target_mem_write P T addr bs =
     T\<lparr>dev := p_write P (dev T) addr bs, bus_log := bus_log T @ [WrBlk addr bs]\<rparr>"

definition target_add_ram :: "'d target_s \<Rightarrow> u32 \<Rightarrow> u32 \<Rightarrow> 'd target_s" where
  "target_add_ram T base len = T\<lparr>ram := ram T @ [(base, len)]\<rparr>"

definition target_add_flash :: "'d target_s \<Rightarrow> target_flash_s \<Rightarrow> 'd target_s" where
  "target_add_flash T f = T\<lparr>flash := flash T @ [f]\<rparr>"

text \<open>\<open>calloc\<close>: \<open>False\<close> stands for the null pointer of an exhausted heap.\<close>

definition calloc :: "'d target_s \<Rightarrow> bool \<times> 'd target_s" where
  "calloc T = (if host_heap T = 0 then (False, T) else (True, T\<lparr>host_heap := host_heap T - 1\<rparr>))"

text \<open>
  Sequencing of calls that may not return (\<open>None\<close>) or may leave defined behaviour
  (\<open>Some (Inl f)\<close>).
\<close>

definition bind_r :: "(fault + 'a) option \<Rightarrow> ('a \<Rightarrow> (fault + 'b) option) \<Rightarrow> (fault + 'b) option" where
  "bind_r m k = (case m of None \<Rightarrow> None | Some (Inl f) \<Rightarrow> Some (Inl f) | Some (Inr v) \<Rightarrow> k v)"

section \<open>Guarded mode\<close>

definition imxrt_enter_flash_mode :: "'d platform \<Rightarrow> 'd target_s \<Rightarrow> bool \<times> 'd target_s" where
  "imxrt_enter_flash_mode P T =
     (case target_mem_read32 P T IMXRT_FLEXSPI1_MOD_CTRL0 of
        (module_state, T1) \<Rightarrow>
          (let T2 = T1\<lparr>target_storage := (target_storage T1)\<lparr>flexspi_module_state := module_state\<rparr>\<rparr>;
               T3 = (if module_state AND IMXRT_FLEXSPI1_MOD_CTRL0_SUSPEND \<noteq> 0
                     then target_mem_write32 P T2 IMXRT_FLEXSPI1_MOD_CTRL0
                            (module_state AND NOT IMXRT_FLEXSPI1_MOD_CTRL0_SUSPEND)
                     else T2)
           in case target_mem_read32 P T3 IMXRT_FLEXSPI1_INT of
                (pending, T4) \<Rightarrow>
                  (let T5 = target_mem_write32 P T4 IMXRT_FLEXSPI1_INT pending;
                       T6 = target_mem_write32 P T5 IMXRT_FLEXSPI1_PRG_READ_FIFO_CTRL
                              (IMXRT_FLEXSPI1_PRG_FIFO_CTRL_WATERMARK 128 OR IMXRT_FLEXSPI1_PRG_FIFO_CTRL_CLR);
                       T7 = target_mem_write32 P T6 IMXRT_FLEXSPI1_PRG_WRITE_FIFO_CTRL
                              (IMXRT_FLEXSPI1_PRG_FIFO_CTRL_WATERMARK 128 OR IMXRT_FLEXSPI1_PRG_FIFO_CTRL_CLR)
                   in case target_mem_read32 P T7 IMXRT_FLEXSPI1_LUT_CTRL of
                        (lut_state, T8) \<Rightarrow>
                          (let T9 = T8\<lparr>target_storage := (target_storage T8)\<lparr>flexspi_lut_state := lut_state\<rparr>\<rparr>
                           in if lut_state \<noteq> IMXRT_FLEXSPI1_LUT_CTRL_UNLOCK
                              then (True,
                                    target_mem_write32 P
                                      (target_mem_write32 P T9 IMXRT_FLEXSPI1_LUT_KEY IMXRT_FLEXSPI1_LUT_KEY_VALUE)
                                      IMXRT_FLEXSPI1_LUT_CTRL IMXRT_FLEXSPI1_LUT_CTRL_UNLOCK)
                              else (True, T9)))))"

definition imxrt_exit_flash_mode :: "'d platform \<Rightarrow> 'd target_s \<Rightarrow> bool \<times> 'd target_s" where
  "imxrt_exit_flash_mode P T =
     (let priv = target_storage T;
          T1 = (if flexspi_lut_state priv \<noteq> IMXRT_FLEXSPI1_LUT_CTRL_UNLOCK
                then target_mem_write32 P
                       (target_mem_write32 P T IMXRT_FLEXSPI1_LUT_KEY IMXRT_FLEXSPI1_LUT_KEY_VALUE)
                       IMXRT_FLEXSPI1_LUT_CTRL (flexspi_lut_state priv)
                else T)
      in (True, target_mem_write32 P T1 IMXRT_FLEXSPI1_MOD_CTRL0 (flexspi_module_state priv)))"

section \<open>The command sequencer\<close>

text \<open>
  The sequence LUT as the transport moves it: each slot is two bytes, \<open>value\<close> first.
\<close>

definition bytes_of_lut :: "imxrt_flexspi_lut_insn_s list \<Rightarrow> u8 list" where
  "bytes_of_lut tbl = concat (map (\<lambda>insn. [value_u8 insn, opcode_mode insn]) tbl)"

fun lut_of_bytes :: "u8 list \<Rightarrow> imxrt_flexspi_lut_insn_s list" where
  "lut_of_bytes (v # m # bs) = \<lparr>value_u8 = v, opcode_mode = m\<rparr> # lut_of_bytes bs"
| "lut_of_bytes _ = []"

text \<open>Sequencing of steps that may leave defined behaviour.\<close>

definition bind_f :: "fault + 'a \<Rightarrow> ('a \<Rightarrow> fault + 'b) \<Rightarrow> fault + 'b" where
  "bind_f m k = (case m of Inl f \<Rightarrow> Inl f | Inr v \<Rightarrow> k v)"

text \<open>A store into the local array \<open>sequence[8]\<close>; an index past the array is a fault.\<close>

definition sequence_store ::
  "imxrt_flexspi_lut_insn_s list \<Rightarrow> nat \<Rightarrow> imxrt_flexspi_lut_insn_s \<Rightarrow> fault + imxrt_flexspi_lut_insn_s list" where
  "sequence_store sequence i insn =
     (if i < length sequence then Inr (sequence[i := insn]) else Inl Index_out_of_bounds)"

text \<open>The column address bit count the driver takes from the value read at \<open>CTRL1\<close>.\<close>

definition column_address_bits :: "u32 \<Rightarrow> u8" where
  "column_address_bits ctrl1 =
     ucast (drop_bit IMXRT_FLEXSPI1_CTRL1_CAS_SHIFT (ctrl1 AND IMXRT_FLEXSPI1_CTRL1_CAS_MASK))"

text \<open>
  The part of \<open>imxrt_spi_configure_sequence\<close> that builds the local array \<open>sequence\<close>
  and counts \<open>offset\<close>. The only access to the hardware in that part is the read of
  \<open>CTRL1\<close> in the addressed case, so the value read is an argument here (it is not
  looked at when the command has no address). The result is the array and the final
  \<open>offset\<close>.
\<close>

definition imxrt_sequence ::
  "u32 \<Rightarrow> u32 \<Rightarrow> nat \<Rightarrow> fault + imxrt_flexspi_lut_insn_s list \<times> nat" where
  "imxrt_sequence command ctrl1 len =
     (let sequence0 = replicate 8 \<lparr>value_u8 = 0, opcode_mode = 0\<rparr> in
      bind_f (sequence_store sequence0 0
                \<lparr>value_u8 = ucast (command AND IMXRT_SPI_FLASH_OPCODE_MASK),
                 opcode_mode = ucast (IMXRT_FLEXSPI_LUT_OPCODE IMXRT_FLEXSPI_LUT_OP_COMMAND OR
                                      IMXRT_FLEXSPI_LUT_MODE_SERIAL)\<rparr>)
        (\<lambda>sequence1.
      let offset1 = 1 in
      bind_f (if command AND IMXRT_SPI_FLASH_OPCODE_MODE_MASK = IMXRT_SPI_FLASH_OPCODE_3B_ADDR
              then bind_f (sequence_store sequence1 offset1
                             \<lparr>value_u8 = ucast (24 - ucast (column_address_bits ctrl1) :: u32),
                              opcode_mode = ucast (IMXRT_FLEXSPI_LUT_OPCODE IMXRT_FLEXSPI_LUT_OP_RADDR OR
                                                   IMXRT_FLEXSPI_LUT_MODE_SERIAL)\<rparr>)
                     (\<lambda>sequence2.
                   let offset2 = offset1 + 1 in
                   if column_address_bits ctrl1 \<noteq> 0
                   then bind_f (sequence_store sequence2 offset2
                                  \<lparr>value_u8 = column_address_bits ctrl1,
                                   opcode_mode = ucast (IMXRT_FLEXSPI_LUT_OPCODE IMXRT_FLEXSPI_LUT_OP_CADDR OR
                                                        IMXRT_FLEXSPI_LUT_MODE_SERIAL)\<rparr>)
                          (\<lambda>sequence3. Inr (sequence3, offset2 + 1))
                   else Inr (sequence2, offset2))
              else Inr (sequence1, offset1))
        (\<lambda>(sequence4, offset4).
      bind_f (sequence_store sequence4 offset4
                \<lparr>value_u8 = ucast (drop_bit IMXRT_SPI_FLASH_DUMMY_SHIFT (command AND IMXRT_SPI_FLASH_DUMMY_MASK)),
                 opcode_mode = ucast (IMXRT_FLEXSPI_LUT_OPCODE IMXRT_FLEXSPI_LUT_OP_DUMMY_CYCLES OR
                                      IMXRT_FLEXSPI_LUT_MODE_SERIAL)\<rparr>)
        (\<lambda>sequence5.
      let offset5 = offset4 + 1 in
      if len \<noteq> 0
      then bind_f (sequence_store sequence5 offset5
                     \<lparr>value_u8 = 0,
                      opcode_mode =
                        (if command AND IMXRT_SPI_FLASH_DATA_OUT \<noteq> 0
                         then ucast (IMXRT_FLEXSPI_LUT_OPCODE IMXRT_FLEXSPI_LUT_OP_WRITE OR
                                     IMXRT_FLEXSPI_LUT_MODE_SERIAL)
                         else ucast (IMXRT_FLEXSPI_LUT_OPCODE IMXRT_FLEXSPI_LUT_OP_READ OR
                                     IMXRT_FLEXSPI_LUT_MODE_SERIAL))\<rparr>)
             (\<lambda>sequence6. Inr (sequence6, offset5 + 1))
      else Inr (sequence5, offset5)))))"

text \<open>
  \<open>imxrt_spi_configure_sequence\<close>: save the LUT into the private block, build the new
  sequence, write it to the LUT, then write the address (if the command has one) and
  the length with the sequence index.
\<close>

definition imxrt_spi_configure_sequence ::
  "'d platform \<Rightarrow> 'd target_s \<Rightarrow> u32 \<Rightarrow> u32 \<Rightarrow> nat \<Rightarrow> fault + 'd target_s" where
  "imxrt_spi_configure_sequence P T command address len =
     (case target_mem_read P T IMXRT_FLEXSPI1_LUT_BASE 16 of
        (saved, T1) \<Rightarrow>
          (let T2 = T1\<lparr>target_storage := (target_storage T1)\<lparr>flexspi_lut_seq := lut_of_bytes saved\<rparr>\<rparr>
           in case (if command AND IMXRT_SPI_FLASH_OPCODE_MODE_MASK = IMXRT_SPI_FLASH_OPCODE_3B_ADDR
                    then target_mem_read32 P T2 IMXRT_FLEXSPI1_CTRL1
                    else (0, T2)) of
                (ctrl1, T3) \<Rightarrow>
                  bind_f (imxrt_sequence command ctrl1 len)
                    (\<lambda>(sequence, offset).
                       let T4 = target_mem_write P T3 IMXRT_FLEXSPI1_LUT_BASE (bytes_of_lut sequence);
                           T5 = (if command AND IMXRT_SPI_FLASH_OPCODE_MODE_MASK = IMXRT_SPI_FLASH_OPCODE_3B_ADDR
                                 then target_mem_write32 P T4 IMXRT_FLEXSPI1_PRG_CTRL0 address
                                 else T4)
                       in Inr (target_mem_write32 P T5 IMXRT_FLEXSPI1_PRG_CTRL1
                                 (IMXRT_FLEXSPI1_PRG_LUT_INDEX_0 OR IMXRT_FLEXSPI1_PRG_LENGTH (of_nat len))))))"

definition imxrt_spi_restore :: "'d platform \<Rightarrow> 'd target_s \<Rightarrow> 'd target_s" where
  "imxrt_spi_restore P T =
     target_mem_write P T IMXRT_FLEXSPI1_LUT_BASE (bytes_of_lut (flexspi_lut_seq (target_storage T)))"

text \<open>
  The poll of \<open>imxrt_spi_wait_complete\<close>: read the interrupt register until the
  command-done flag shows. The loop has no bound; not returning is \<open>None\<close>.
\<close>

partial_function (option) imxrt_spi_wait_done :: "'d platform \<Rightarrow> 'd target_s \<Rightarrow> 'd target_s option" where
  "imxrt_spi_wait_done P T =
     (case target_mem_read32 P T IMXRT_FLEXSPI1_INT of
        (v, T1) \<Rightarrow>
          if v AND IMXRT_FLEXSPI1_INT_PRG_CMD_DONE \<noteq> 0 then Some T1 else imxrt_spi_wait_done P T1)"

declare imxrt_spi_wait_done.simps [code]

definition imxrt_spi_wait_complete :: "'d platform \<Rightarrow> 'd target_s \<Rightarrow> 'd target_s option" where
  "imxrt_spi_wait_complete P T =
     (case imxrt_spi_wait_done P (target_mem_write32 P T IMXRT_FLEXSPI1_PRG_CMD IMXRT_FLEXSPI1_PRG_RUN) of
        None \<Rightarrow> None
      | Some T1 \<Rightarrow> Some (target_mem_write32 P T1 IMXRT_FLEXSPI1_INT IMXRT_FLEXSPI1_INT_PRG_CMD_DONE))"

section \<open>Transfer primitives\<close>

text \<open>
  \<open>imxrt_spi_read\<close>. The scratch array \<open>data\<close> holds 128 bytes; \<open>memcpy\<close> of more than
  that out of it is a fault. The result is the bytes copied to the caller's buffer.
\<close>

definition imxrt_spi_read ::
  "'d platform \<Rightarrow> 'd target_s \<Rightarrow> u32 \<Rightarrow> u32 \<Rightarrow> nat \<Rightarrow> (fault + u8 list \<times> 'd target_s) option" where
  "imxrt_spi_read P T command address len =
     (case imxrt_spi_configure_sequence P T command address len of
        Inl f \<Rightarrow> Some (Inl f)
      | Inr T1 \<Rightarrow>
          (case imxrt_spi_wait_complete P T1 of
             None \<Rightarrow> None
           | Some T2 \<Rightarrow>
               (case target_mem_read P T2 IMXRT_FLEXSPI1_PRG_READ_FIFO 128 of
                  (data, T3) \<Rightarrow>
                    if 128 < len then Some (Inl Buffer_overrun)
                    else (let buffer = take len data;
                              T4 = target_mem_write32 P T3 IMXRT_FLEXSPI1_INT IMXRT_FLEXSPI1_INT_READ_FIFO_FULL
                          in Some (Inr (buffer, imxrt_spi_restore P T4))))))"

text \<open>
  \<open>imxrt_spi_write\<close>. The caller's buffer is the list \<open>buffer\<close>; copying \<open>len\<close> bytes
  out of a shorter buffer, or more than 128 bytes into \<open>data\<close>, is a fault.
  \<open>(length + 3U) & ~3U\<close> clears the two low bits of \<open>len + 3\<close>.
\<close>

definition imxrt_spi_write ::
  "'d platform \<Rightarrow> 'd target_s \<Rightarrow> u32 \<Rightarrow> u32 \<Rightarrow> u8 list \<Rightarrow> nat \<Rightarrow> (fault + 'd target_s) option" where
  "imxrt_spi_write P T command address buffer len =
     (case imxrt_spi_configure_sequence P T command address len of
        Inl f \<Rightarrow> Some (Inl f)
      | Inr T1 \<Rightarrow>
          (case (if len \<noteq> 0
                 then (if 128 < len \<or> length buffer < len then Inl Buffer_overrun
                       else (let data = take len buffer @ replicate (128 - len) 0;
                                 T2 = target_mem_write P T1 IMXRT_FLEXSPI1_PRG_WRITE_FIFO
                                        (take (push_bit 2 (drop_bit 2 (len + 3))) data)
                             in Inr (target_mem_write32 P T2 IMXRT_FLEXSPI1_INT
                                       IMXRT_FLEXSPI1_INT_WRITE_FIFO_EMPTY)))
                 else Inr T1) of
             Inl f \<Rightarrow> Some (Inl f)
           | Inr T3 \<Rightarrow>
               (case imxrt_spi_wait_complete P T3 of
                  None \<Rightarrow> None
                | Some T4 \<Rightarrow> Some (Inr (imxrt_spi_restore P T4)))))"

definition imxrt_spi_read_sfdp ::
  "'d platform \<Rightarrow> 'd target_s \<Rightarrow> u32 \<Rightarrow> nat \<Rightarrow> (fault + u8 list \<times> 'd target_s) option" where
  "imxrt_spi_read_sfdp P T address len = imxrt_spi_read P T SPI_FLASH_CMD_READ_SFDP address len"

text \<open>\<open>status\<close> starts as 0 and receives the one byte copied out.\<close>

definition imxrt_spi_read_status :: "'d platform \<Rightarrow> 'd target_s \<Rightarrow> (fault + u8 \<times> 'd target_s) option" where
  "imxrt_spi_read_status P T =
     bind_r (imxrt_spi_read P T SPI_FLASH_CMD_READ_STATUS 0 1)
       (\<lambda>(buffer, T1). Some (Inr (case buffer of [] \<Rightarrow> 0 | status # _ \<Rightarrow> status, T1)))"

definition imxrt_spi_run_command :: "'d platform \<Rightarrow> 'd target_s \<Rightarrow> u32 \<Rightarrow> (fault + 'd target_s) option" where
  "imxrt_spi_run_command P T command = imxrt_spi_write P T command 0 [] 0"

section \<open>Mass erase\<close>

text \<open>
  The poll of \<open>imxrt_spi_mass_erase\<close>: read the status until the busy bit clears. The
  progress display between two reads is on the host only.
\<close>

partial_function (option) imxrt_spi_erase_poll :: "'d platform \<Rightarrow> 'd target_s \<Rightarrow> (fault + 'd target_s) option" where
  "imxrt_spi_erase_poll P T =
     (case imxrt_spi_read_status P T of
        None \<Rightarrow> None
      | Some (Inl f) \<Rightarrow> Some (Inl f)
      | Some (Inr (status, T1)) \<Rightarrow>
          if status AND SPI_FLASH_STATUS_BUSY \<noteq> 0 then imxrt_spi_erase_poll P T1 else Some (Inr T1))"

declare imxrt_spi_erase_poll.simps [code]

definition imxrt_spi_mass_erase :: "'d platform \<Rightarrow> 'd target_s \<Rightarrow> (fault + bool \<times> 'd target_s) option" where
  "imxrt_spi_mass_erase P T =
     (case imxrt_enter_flash_mode P T of
        (entered, T1) \<Rightarrow>
          bind_r (imxrt_spi_run_command P T1 SPI_FLASH_CMD_WRITE_ENABLE)
            (\<lambda>T2.
          bind_r (imxrt_spi_read_status P T2)
            (\<lambda>(status, T3).
          if status AND SPI_FLASH_STATUS_WRITE_ENABLED = 0
          then (case imxrt_exit_flash_mode P T3 of (left, T4) \<Rightarrow> Some (Inr (False, T4)))
          else bind_r (imxrt_spi_run_command P T3 SPI_FLASH_CMD_CHIP_ERASE)
                 (\<lambda>T5.
               bind_r (imxrt_spi_erase_poll P T5)
                 (\<lambda>T6. Some (Inr (imxrt_exit_flash_mode P T6)))))))"

section \<open>Flash registration and probe\<close>

text \<open>
  The local \<open>spi_parameters\<close> of \<open>imxrt_add_flash\<close> after the SFDP readout: what the
  decoder found, or the assumed geometry when it found nothing.
\<close>

definition imxrt_flash_parameters :: "spi_parameters_s option \<Rightarrow> nat \<Rightarrow> spi_parameters_s" where
  "imxrt_flash_parameters found len =
     (case found of
        Some spi_parameters \<Rightarrow> spi_parameters
      | None \<Rightarrow>
          \<lparr>page_size = 256, sector_size = 4096, capacity = len,
           sector_erase_opcode = SPI_FLASH_OPCODE_SECTOR_ERASE\<rparr>)"

definition imxrt_add_flash :: "'d platform \<Rightarrow> 'd target_s \<Rightarrow> nat \<Rightarrow> (fault + 'd target_s) option" where
  "imxrt_add_flash P T len =
     (case calloc T of
        (False, T0) \<Rightarrow> Some (Inr T0)
      | (True, T0) \<Rightarrow>
          bind_r (p_sfdp_read_parameters P (imxrt_spi_read_sfdp P) T0)
            (\<lambda>(found, T1).
               let spi_parameters = imxrt_flash_parameters found len;
                   new_flash = \<lparr>start = IMXRT_FLEXSPI_BASE, length_sz = capacity spi_parameters,
                                blocksize = sector_size spi_parameters, erased = 0xff\<rparr>
               in Some (Inr (target_add_flash T1 new_flash))))"

text \<open>
  The block of \<open>imxrt_probe\<close> that runs when the part boots from serial flash: read the
  JEDEC ID in guarded mode, install the hooks, and add a flash region when the ID looks
  valid. The three bytes copied out of the read are the fields of \<open>flash_id\<close> in order.
  \<open>1U << flash_id.capacity\<close> is a 32-bit shift: a count of 32 or more is a fault.
\<close>

definition imxrt_probe_flash :: "'d platform \<Rightarrow> 'd target_s \<Rightarrow> (fault + 'd target_s) option" where
  "imxrt_probe_flash P T =
     (case imxrt_enter_flash_mode P T of
        (entered, T1) \<Rightarrow>
          bind_r (imxrt_spi_read P T1 SPI_FLASH_CMD_READ_JEDEC_ID 0 3)
            (\<lambda>(buffer, T2).
               let flash_id = \<lparr>manufacturer = buffer ! 0, type_u8 = buffer ! 1, capacity_u8 = buffer ! 2\<rparr>;
                   T3 = T2\<lparr>mass_erase := Some Imxrt_spi_mass_erase,
                           enter_flash_mode := Some Imxrt_enter_flash_mode,
                           exit_flash_mode := Some Imxrt_exit_flash_mode\<rparr>
               in bind_r (if manufacturer flash_id \<noteq> 0xff \<and> type_u8 flash_id \<noteq> 0xff \<and>
                             capacity_u8 flash_id \<noteq> 0xff
                          then (if 32 \<le> unat (capacity_u8 flash_id) then Some (Inl Shift_out_of_range)
                                else imxrt_add_flash P T3
                                       (unat (push_bit (unat (capacity_u8 flash_id)) 1 :: u32)))
                          else Some (Inr T3))
                    (\<lambda>T4. Some (Inr (snd (imxrt_exit_flash_mode P T4))))))"

text \<open>\<open>imxrt_probe\<close>; the debug output is left out.\<close>

definition imxrt_probe :: "'d platform \<Rightarrow> 'd target_s \<Rightarrow> (fault + bool \<times> 'd target_s) option" where
  "imxrt_probe P T =
     (if part_id T \<noteq> 0x88c then Some (Inr (False, T))
      else case calloc T of
             (False, T0) \<Rightarrow> Some (Inr (False, T0))
           | (True, T0) \<Rightarrow>
               (let T1 = T0\<lparr>target_storage := imxrt_priv_zero,
                            target_options := target_options T0 OR p_cortexm_topt_inhibit_nrst P,
                            driver := ''i.MXRT10xx''\<rparr>;
                    T2 = (if p_enable_debug P then snd (target_mem_read32 P T1 IMXRT_SRC_BOOT_MODE2) else T1)
                in case target_mem_read32 P T2 IMXRT_SRC_BOOT_MODE1 of
                     (boot_cfg, T3) \<Rightarrow>
                       (let T4 = T3\<lparr>target_storage :=
                                      (target_storage T3)\<lparr>boot_source := imxrt_boot_source boot_cfg\<rparr>\<rparr>;
                            T5 = target_add_ram T4 IMXRT_OCRAM1_BASE IMXRT_OCRAM1_SIZE;
                            T6 = target_add_ram T5 IMXRT_OCRAM2_BASE IMXRT_OCRAM2_SIZE
                        in if boot_source (target_storage T6) = boot_spi_flash_nor \<or>
                              boot_source (target_storage T6) = boot_spi_flash_nand
                           then bind_r (imxrt_probe_flash P T6) (\<lambda>T7. Some (Inr (True, T7)))
                           else Some (Inr (True, T6)))))"

section \<open>The sequencer as the specification words it\<close>

text \<open>
  The abstract flash command of the specification, and how the 32-bit command word of
  the driver encodes it: bits 7..0 the opcode, bits 15..8 the dummy cycle count, bit 16
  the addressing mode, bit 17 the data direction.
\<close>

datatype addressing = No_address | Three_byte_address

datatype direction = Data_in | Data_out

record flash_command_descriptor =
  d_opcode :: u8
  d_dummy_cycles :: u8
  d_addressing :: addressing
  d_direction :: direction
  d_transfer_length :: nat

definition descriptor_of :: "u32 \<Rightarrow> nat \<Rightarrow> flash_command_descriptor" where
  "descriptor_of command len =
     \<lparr>d_opcode = ucast (take_bit 8 command),
      d_dummy_cycles = ucast (take_bit 8 (drop_bit 8 command)),
      d_addressing = (if bit command 16 then Three_byte_address else No_address),
      d_direction = (if bit command 17 then Data_out else Data_in),
      d_transfer_length = len\<rparr>"

text \<open>An instruction slot: the operand, and the opcode class above the serial mode tag.\<close>

definition lut_insn :: "u32 \<Rightarrow> u8 \<Rightarrow> imxrt_flexspi_lut_insn_s" where
  "lut_insn op_class operand =
     \<lparr>value_u8 = operand, opcode_mode = ucast (push_bit 2 op_class OR IMXRT_FLEXSPI_LUT_MODE_SERIAL)\<rparr>"

text \<open>
  The instructions the specification lists for a descriptor, in its order: the command,
  the row address and (for a nonzero column bit count) the column address when the
  command is addressed, the dummy cycles, and a read or a write when there is data.
\<close>

definition spec_instructions :: "flash_command_descriptor \<Rightarrow> u8 \<Rightarrow> imxrt_flexspi_lut_insn_s list" where
  "spec_instructions D column_bits =
     [lut_insn IMXRT_FLEXSPI_LUT_OP_COMMAND (d_opcode D)] @
     (if d_addressing D = Three_byte_address
      then [lut_insn IMXRT_FLEXSPI_LUT_OP_RADDR (24 - column_bits)] @
           (if column_bits \<noteq> 0 then [lut_insn IMXRT_FLEXSPI_LUT_OP_CADDR column_bits] else [])
      else []) @
     [lut_insn IMXRT_FLEXSPI_LUT_OP_DUMMY_CYCLES (d_dummy_cycles D)] @
     (if 0 < d_transfer_length D
      then [if d_direction D = Data_in then lut_insn IMXRT_FLEXSPI_LUT_OP_READ 0
            else lut_insn IMXRT_FLEXSPI_LUT_OP_WRITE 0]
      else [])"

text \<open>The 8-slot program: the instructions, then zero slots.\<close>

definition spec_program :: "flash_command_descriptor \<Rightarrow> u8 \<Rightarrow> imxrt_flexspi_lut_insn_s list" where
  "spec_program D column_bits =
     spec_instructions D column_bits @
     replicate (8 - length (spec_instructions D column_bits)) \<lparr>value_u8 = 0, opcode_mode = 0\<rparr>"

section \<open>The JEDEC ID test as the specification words it\<close>

text \<open>
  The specification's test on the three ID bytes: they are "all the sentinel 0xFF".
  The driver's own test, that no byte is 0xFF, is part of \<open>imxrt_probe_flash\<close>.
\<close>

definition jedec_all_ff :: "spi_flash_id_s \<Rightarrow> bool" where
  "jedec_all_ff flash_id \<longleftrightarrow>
     manufacturer flash_id = 0xff \<and> type_u8 flash_id = 0xff \<and> capacity_u8 flash_id = 0xff"

text \<open>The target with the three flash hooks installed, as \<open>imxrt_probe\<close> installs them.\<close>

definition with_hooks :: "'d target_s \<Rightarrow> 'd target_s" where
  "with_hooks T =
     T\<lparr>mass_erase := Some Imxrt_spi_mass_erase,
       enter_flash_mode := Some Imxrt_enter_flash_mode,
       exit_flash_mode := Some Imxrt_exit_flash_mode\<rparr>"

section \<open>Observations on the hardware and the bus log\<close>

text \<open>What a 32-bit read at \<open>a\<close> would return in hardware state \<open>d\<close>.\<close>

definition peek32 :: "'d platform \<Rightarrow> 'd \<Rightarrow> u32 \<Rightarrow> u32" where
  "peek32 P d a = fst (p_read32 P d a)"

text \<open>
  The \<open>n\<close> bytes a block read at \<open>a\<close> would deliver in hardware state \<open>d\<close>, and the
  sequence LUT it would find.
\<close>

definition peek_blk :: "'d platform \<Rightarrow> 'd \<Rightarrow> u32 \<Rightarrow> nat \<Rightarrow> u8 list" where
  "peek_blk P d a n = take n (fst (p_read P d a n) @ replicate n 0)"

definition peek_lut :: "'d platform \<Rightarrow> 'd \<Rightarrow> u8 list" where
  "peek_lut P d = peek_blk P d IMXRT_FLEXSPI1_LUT_BASE 16"

text \<open>
  Register \<open>a\<close> is a plain register of the hardware behind \<open>P\<close>: it holds the last value
  written to it with a 32-bit write, and no other transaction changes it.
\<close>

definition plain_register :: "'d platform \<Rightarrow> u32 \<Rightarrow> bool" where
  "plain_register P a \<longleftrightarrow>
     (\<forall>d b v. peek32 P (p_write32 P d b v) a = (if b = a then v else peek32 P d a)) \<and>
     (\<forall>d b. peek32 P (snd (p_read32 P d b)) a = peek32 P d a) \<and>
     (\<forall>d b n. peek32 P (snd (p_read P d b n)) a = peek32 P d a) \<and>
     (\<forall>d b bs. peek32 P (p_write P d b bs) a = peek32 P d a)"

text \<open>The sequence LUT keeps the 16 bytes of a block write to it.\<close>

definition lut_storage :: "'d platform \<Rightarrow> bool" where
  "lut_storage P \<longleftrightarrow>
     (\<forall>d bs. length bs = 16 \<longrightarrow> peek_lut P (p_write P d IMXRT_FLEXSPI1_LUT_BASE bs) = bs)"

text \<open>The block writes to the sequence LUT in a stretch of the bus log, in order.\<close>

fun lut_writes :: "bus_op list \<Rightarrow> u8 list list" where
  "lut_writes [] = []"
| "lut_writes (WrBlk a bs # ops) =
     (if a = IMXRT_FLEXSPI1_LUT_BASE then bs # lut_writes ops else lut_writes ops)"
| "lut_writes (_ # ops) = lut_writes ops"

text \<open>The transactions a call added to the log: those after the first \<open>n\<close>.\<close>

definition issued :: "'d target_s \<Rightarrow> 'd target_s \<Rightarrow> bus_op list" where
  "issued T T' = drop (length (bus_log T)) (bus_log T')"

text \<open>
  The hardware state after the transactions \<open>ops\<close>, started in state \<open>d\<close>: each
  transaction is handed to the transport again.
\<close>

fun replay :: "'d platform \<Rightarrow> 'd \<Rightarrow> bus_op list \<Rightarrow> 'd" where
  "replay P d [] = d"
| "replay P d (Rd32 a v # ops) = replay P (snd (p_read32 P d a)) ops"
| "replay P d (Wr32 a v # ops) = replay P (p_write32 P d a v) ops"
| "replay P d (RdBlk a bs # ops) = replay P (snd (p_read P d a (length bs))) ops"
| "replay P d (WrBlk a bs # ops) = replay P (p_write P d a bs) ops"

text \<open>
  The target after the driver has issued the transactions \<open>ops\<close> and changed nothing
  else.
\<close>

definition ran_ops :: "'d platform \<Rightarrow> 'd target_s \<Rightarrow> bus_op list \<Rightarrow> 'd target_s" where
  "ran_ops P T ops = T\<lparr>dev := replay P (dev T) ops, bus_log := bus_log T @ ops\<rparr>"

text \<open>The value of the last 32-bit write to \<open>a\<close> among \<open>ops\<close>, if there is one.\<close>

fun last_write32 :: "u32 \<Rightarrow> bus_op list \<Rightarrow> u32 option" where
  "last_write32 a [] = None"
| "last_write32 a (op # ops) =
     (case last_write32 a ops of
        Some v \<Rightarrow> Some v
      | None \<Rightarrow> (case op of Wr32 b v \<Rightarrow> if b = a then Some v else None | _ \<Rightarrow> None))"

text \<open>
  The values a poll of the interrupt register went through: at least one, the last one
  with the command-done flag, none before it with that flag.
\<close>

definition polled :: "u32 list \<Rightarrow> bool" where
  "polled vs \<longleftrightarrow>
     vs \<noteq> [] \<and> last vs AND IMXRT_FLEXSPI1_INT_PRG_CMD_DONE \<noteq> 0 \<and>
     list_all (\<lambda>v. v AND IMXRT_FLEXSPI1_INT_PRG_CMD_DONE = 0) (butlast vs)"

text \<open>The transactions of a run that polled the values \<open>vs\<close>: trigger, poll, acknowledge.\<close>

definition run_ops :: "u32 list \<Rightarrow> bus_op list" where
  "run_ops vs =
     [Wr32 IMXRT_FLEXSPI1_PRG_CMD IMXRT_FLEXSPI1_PRG_RUN] @ map (Rd32 IMXRT_FLEXSPI1_INT) vs @
     [Wr32 IMXRT_FLEXSPI1_INT IMXRT_FLEXSPI1_INT_PRG_CMD_DONE]"

text \<open>
  The transactions of the program step in hardware state \<open>d\<close>: read the LUT, read the
  column address bit count if the command is addressed, write the program, write the
  address if the command is addressed, write the length (16 bits) with sequence index 0.
\<close>

definition configure_ops :: "'d platform \<Rightarrow> 'd \<Rightarrow> u32 \<Rightarrow> u32 \<Rightarrow> nat \<Rightarrow> bus_op list" where
  "configure_ops P d command address len =
     (let saved = peek_lut P d;
          ctrl1 = peek32 P (replay P d [RdBlk IMXRT_FLEXSPI1_LUT_BASE saved]) IMXRT_FLEXSPI1_CTRL1;
          program = spec_program (descriptor_of command len) (column_address_bits ctrl1)
      in [RdBlk IMXRT_FLEXSPI1_LUT_BASE saved] @
         (if bit command 16 then [Rd32 IMXRT_FLEXSPI1_CTRL1 ctrl1] else []) @
         [WrBlk IMXRT_FLEXSPI1_LUT_BASE (bytes_of_lut program)] @
         (if bit command 16 then [Wr32 IMXRT_FLEXSPI1_PRG_CTRL0 address] else []) @
         [Wr32 IMXRT_FLEXSPI1_PRG_CTRL1 (take_bit 16 (of_nat len))])"

text \<open>The target with the LUT found in hardware state \<open>d\<close> saved in the private block.\<close>

definition saved_lut :: "'d platform \<Rightarrow> 'd target_s \<Rightarrow> 'd target_s" where
  "saved_lut P T =
     T\<lparr>target_storage := (target_storage T)\<lparr>flexspi_lut_seq := lut_of_bytes (peek_lut P (dev T))\<rparr>\<rparr>"

text \<open>
  The 128 bytes a read finds in the read FIFO after programming and running (with the
  poll values \<open>vs\<close>), and the transactions of the whole read: program, run, read the
  FIFO window, acknowledge the read-FIFO-full flag, write the saved LUT back.
\<close>

definition read_data :: "'d platform \<Rightarrow> 'd \<Rightarrow> u32 \<Rightarrow> u32 \<Rightarrow> nat \<Rightarrow> u32 list \<Rightarrow> u8 list" where
  "read_data P d command address len vs =
     peek_blk P (replay P d (configure_ops P d command address len @ run_ops vs))
       IMXRT_FLEXSPI1_PRG_READ_FIFO 128"

definition read_ops :: "'d platform \<Rightarrow> 'd \<Rightarrow> u32 \<Rightarrow> u32 \<Rightarrow> nat \<Rightarrow> u32 list \<Rightarrow> bus_op list" where
  "read_ops P d command address len vs =
     configure_ops P d command address len @ run_ops vs @
     [RdBlk IMXRT_FLEXSPI1_PRG_READ_FIFO (read_data P d command address len vs),
      Wr32 IMXRT_FLEXSPI1_INT IMXRT_FLEXSPI1_INT_READ_FIFO_FULL,
      WrBlk IMXRT_FLEXSPI1_LUT_BASE (peek_lut P d)]"

text \<open>
  The transactions of a write: program, fill the write FIFO when there is data (the
  data zero-padded to a multiple of four bytes) and acknowledge the write-FIFO-empty
  flag, run, write the saved LUT back.
\<close>

definition write_ops :: "'d platform \<Rightarrow> 'd \<Rightarrow> u32 \<Rightarrow> u32 \<Rightarrow> u8 list \<Rightarrow> nat \<Rightarrow> u32 list \<Rightarrow> bus_op list" where
  "write_ops P d command address buffer len vs =
     configure_ops P d command address len @
     (if len \<noteq> 0
      then [WrBlk IMXRT_FLEXSPI1_PRG_WRITE_FIFO
              (take (4 * ((len + 3) div 4)) (take len buffer @ replicate (128 - len) 0)),
            Wr32 IMXRT_FLEXSPI1_INT IMXRT_FLEXSPI1_INT_WRITE_FIFO_EMPTY]
      else []) @
     run_ops vs @
     [WrBlk IMXRT_FLEXSPI1_LUT_BASE (peek_lut P d)]"

text \<open>
  A call that took the target from \<open>T\<close> to \<open>T'\<close> borrowed the sequence LUT and gave it
  back: its first transaction read the LUT, the private block holds what was read, the
  call wrote the LUT exactly twice, its last transaction wrote back what was read, and
  on hardware whose LUT keeps what is written the LUT ends as it started.
\<close>

definition lut_bracket :: "'d platform \<Rightarrow> 'd target_s \<Rightarrow> 'd target_s \<Rightarrow> bool" where
  "lut_bracket P T T' \<longleftrightarrow>
     (let saved = peek_lut P (dev T); ops = issued T T' in
      bus_log T' = bus_log T @ ops \<and>
      ops \<noteq> [] \<and>
      hd ops = RdBlk IMXRT_FLEXSPI1_LUT_BASE saved \<and>
      flexspi_lut_seq (target_storage T') = lut_of_bytes saved \<and>
      length (lut_writes ops) = 2 \<and>
      last (lut_writes ops) = saved \<and>
      last ops = WrBlk IMXRT_FLEXSPI1_LUT_BASE saved \<and>
      (lut_storage P \<longrightarrow> peek_lut P (dev T') = saved))"

text \<open>
  The transactions of entering guarded mode in hardware state \<open>d\<close>, and of leaving it
  with the private block \<open>priv\<close>.
\<close>

definition enter_prefix_ops :: "'d platform \<Rightarrow> 'd \<Rightarrow> bus_op list" where
  "enter_prefix_ops P d =
     (let module_state = peek32 P d IMXRT_FLEXSPI1_MOD_CTRL0;
          ops1 = [Rd32 IMXRT_FLEXSPI1_MOD_CTRL0 module_state] @
                 (if module_state AND IMXRT_FLEXSPI1_MOD_CTRL0_SUSPEND \<noteq> 0
                  then [Wr32 IMXRT_FLEXSPI1_MOD_CTRL0
                          (module_state AND NOT IMXRT_FLEXSPI1_MOD_CTRL0_SUSPEND)]
                  else []);
          pending = peek32 P (replay P d ops1) IMXRT_FLEXSPI1_INT
      in ops1 @
         [Rd32 IMXRT_FLEXSPI1_INT pending,
          Wr32 IMXRT_FLEXSPI1_INT pending,
          Wr32 IMXRT_FLEXSPI1_PRG_READ_FIFO_CTRL
            (IMXRT_FLEXSPI1_PRG_FIFO_CTRL_WATERMARK 128 OR IMXRT_FLEXSPI1_PRG_FIFO_CTRL_CLR),
          Wr32 IMXRT_FLEXSPI1_PRG_WRITE_FIFO_CTRL
            (IMXRT_FLEXSPI1_PRG_FIFO_CTRL_WATERMARK 128 OR IMXRT_FLEXSPI1_PRG_FIFO_CTRL_CLR)])"

text \<open>The lock state that entering guarded mode reads and captures.\<close>

definition enter_lut_state :: "'d platform \<Rightarrow> 'd \<Rightarrow> u32" where
  "enter_lut_state P d = peek32 P (replay P d (enter_prefix_ops P d)) IMXRT_FLEXSPI1_LUT_CTRL"

definition enter_ops :: "'d platform \<Rightarrow> 'd \<Rightarrow> bus_op list" where
  "enter_ops P d =
     enter_prefix_ops P d @ [Rd32 IMXRT_FLEXSPI1_LUT_CTRL (enter_lut_state P d)] @
     (if enter_lut_state P d \<noteq> IMXRT_FLEXSPI1_LUT_CTRL_UNLOCK
      then [Wr32 IMXRT_FLEXSPI1_LUT_KEY IMXRT_FLEXSPI1_LUT_KEY_VALUE,
            Wr32 IMXRT_FLEXSPI1_LUT_CTRL IMXRT_FLEXSPI1_LUT_CTRL_UNLOCK]
      else [])"

text \<open>The target after entering guarded mode: the two captured values, the transactions.\<close>

definition entered :: "'d platform \<Rightarrow> 'd target_s \<Rightarrow> 'd target_s" where
  "entered P T =
     ran_ops P
       (T\<lparr>target_storage := (target_storage T)
            \<lparr>flexspi_module_state := peek32 P (dev T) IMXRT_FLEXSPI1_MOD_CTRL0,
             flexspi_lut_state := enter_lut_state P (dev T)\<rparr>\<rparr>)
       (enter_ops P (dev T))"

definition exit_ops :: "imxrt_priv_s \<Rightarrow> bus_op list" where
  "exit_ops priv =
     (if flexspi_lut_state priv \<noteq> IMXRT_FLEXSPI1_LUT_CTRL_UNLOCK
      then [Wr32 IMXRT_FLEXSPI1_LUT_KEY IMXRT_FLEXSPI1_LUT_KEY_VALUE,
            Wr32 IMXRT_FLEXSPI1_LUT_CTRL (flexspi_lut_state priv)]
      else []) @
     [Wr32 IMXRT_FLEXSPI1_MOD_CTRL0 (flexspi_module_state priv)]"

text \<open>
  The hardware in state \<open>d\<close> shows the command-done flag at one of the next \<open>n\<close> reads
  of the interrupt register.
\<close>

fun done_within :: "'d platform \<Rightarrow> 'd \<Rightarrow> nat \<Rightarrow> bool" where
  "done_within P d 0 = False"
| "done_within P d (Suc n) =
     (case p_read32 P d IMXRT_FLEXSPI1_INT of
        (v, d') \<Rightarrow> v AND IMXRT_FLEXSPI1_INT_PRG_CMD_DONE \<noteq> 0 \<or> done_within P d' n)"

text \<open>
  The target as \<open>imxrt_probe\<close> has it when it tests the boot source: the private block
  allocated and zeroed, the option and the driver name set, the boot configuration read
  (after the read of the second boot mode register when debug output is enabled), the
  boot source stored and the two RAM regions added.
\<close>

definition probe_prepared :: "'d platform \<Rightarrow> 'd target_s \<Rightarrow> 'd target_s" where
  "probe_prepared P T =
     (case calloc T of
        (allocated, T0) \<Rightarrow>
          (let T1 = T0\<lparr>target_storage := imxrt_priv_zero,
                       target_options := target_options T0 OR p_cortexm_topt_inhibit_nrst P,
                       driver := ''i.MXRT10xx''\<rparr>;
               T2 = (if p_enable_debug P then snd (target_mem_read32 P T1 IMXRT_SRC_BOOT_MODE2) else T1)
           in case target_mem_read32 P T2 IMXRT_SRC_BOOT_MODE1 of
                (boot_cfg, T3) \<Rightarrow>
                  (let T4 = T3\<lparr>target_storage :=
                                 (target_storage T3)\<lparr>boot_source := imxrt_boot_source boot_cfg\<rparr>\<rparr>;
                       T5 = target_add_ram T4 IMXRT_OCRAM1_BASE IMXRT_OCRAM1_SIZE;
                       T6 = target_add_ram T5 IMXRT_OCRAM2_BASE IMXRT_OCRAM2_SIZE
                   in T6)))"

text \<open>The slots of a sequence that are not the all-zero stop instruction.\<close>

definition populated_slots :: "imxrt_flexspi_lut_insn_s list \<Rightarrow> nat" where
  "populated_slots sequence =
     length (filter (\<lambda>insn. insn \<noteq> \<lparr>value_u8 = 0, opcode_mode = 0\<rparr>) sequence)"

section \<open>A simulated controller\<close>

text \<open>
  A small simulation of the hardware, for running the driver on concrete inputs:
  32-bit registers that keep what is written, the 16 bytes of the sequence LUT, and a
  read FIFO with fixed contents. A write to \<open>PRG_CMD\<close> starts a sequence; its
  command-done flag is raised by the read of the interrupt register that follows
  \<open>sim_latency\<close> earlier ones. A write to the interrupt register clears the flags
  written as 1.
\<close>

record sim_flexspi =
  sim_regs :: "u32 \<Rightarrow> u32"
  sim_lut :: "u8 list"
  sim_read_fifo :: "u8 list"
  sim_latency :: nat
  sim_wait :: nat

definition sim_read32 :: "sim_flexspi \<Rightarrow> u32 \<Rightarrow> u32 \<times> sim_flexspi" where
  "sim_read32 d a =
     (if a = IMXRT_FLEXSPI1_INT \<and> sim_wait d \<noteq> 0
      then (let w = sim_wait d - 1;
                r = (if w = 0 then (sim_regs d)(a := sim_regs d a OR IMXRT_FLEXSPI1_INT_PRG_CMD_DONE)
                     else sim_regs d)
            in (r a, d\<lparr>sim_regs := r, sim_wait := w\<rparr>))
      else (sim_regs d a, d))"

definition sim_write32 :: "sim_flexspi \<Rightarrow> u32 \<Rightarrow> u32 \<Rightarrow> sim_flexspi" where
  "sim_write32 d a v =
     d\<lparr>sim_regs := (if a = IMXRT_FLEXSPI1_INT then (sim_regs d)(a := sim_regs d a AND NOT v)
                    else (sim_regs d)(a := v)),
       sim_wait := (if a = IMXRT_FLEXSPI1_PRG_CMD then Suc (sim_latency d) else sim_wait d)\<rparr>"

definition sim_read :: "sim_flexspi \<Rightarrow> u32 \<Rightarrow> nat \<Rightarrow> u8 list \<times> sim_flexspi" where
  "sim_read d a n =
     (if a = IMXRT_FLEXSPI1_LUT_BASE then (take n (sim_lut d), d)
      else if a = IMXRT_FLEXSPI1_PRG_READ_FIFO then (take n (sim_read_fifo d), d)
      else ([], d))"

definition sim_write :: "sim_flexspi \<Rightarrow> u32 \<Rightarrow> u8 list \<Rightarrow> sim_flexspi" where
  "sim_write d a bs = (if a = IMXRT_FLEXSPI1_LUT_BASE then d\<lparr>sim_lut := bs\<rparr> else d)"

text \<open>The simulated platform: its SFDP decoder reads one header and finds nothing.\<close>

definition sim_platform :: "sim_flexspi platform" where
  "sim_platform =
     \<lparr>p_read32 = sim_read32, p_write32 = sim_write32, p_read = sim_read, p_write = sim_write,
      p_sfdp_read_parameters =
        (\<lambda>read_sfdp T. bind_r (read_sfdp T 0 8) (\<lambda>(header, T1). Some (Inr (None, T1)))),
      p_cortexm_topt_inhibit_nrst = 4,
      p_enable_debug = False\<rparr>"

text \<open>
  A simulated part: module control with the suspend bit set, the LUT locked, a firmware
  sequence in the LUT, boot configuration \<open>boot_cfg\<close>, and \<open>fifo\<close> as the first bytes of
  the read FIFO.
\<close>

definition sim_device :: "u32 \<Rightarrow> u8 list \<Rightarrow> nat \<Rightarrow> sim_flexspi" where
  "sim_device boot_cfg fifo latency =
     \<lparr>sim_regs = (\<lambda>a. 0)(IMXRT_FLEXSPI1_MOD_CTRL0 := 0xffff0002,
                          IMXRT_FLEXSPI1_LUT_CTRL := IMXRT_FLEXSPI1_LUT_CTRL_LOCK,
                          IMXRT_SRC_BOOT_MODE1 := boot_cfg),
      sim_lut = [0xeb, 0x04, 0x18, 0x08, 0x06, 0x30, 0x04, 0x24, 0, 0, 0, 0, 0, 0, 0, 0],
      sim_read_fifo = fifo @ replicate (128 - length fifo) 0,
      sim_latency = latency,
      sim_wait = 0\<rparr>"

definition sim_target :: "sim_flexspi \<Rightarrow> sim_flexspi target_s" where
  "sim_target d =
     \<lparr>part_id = 0x88c, target_storage = imxrt_priv_zero, target_options = 0, driver = [],
      mass_erase = None, enter_flash_mode = None, exit_flash_mode = None,
      ram = [], flash = [], host_heap = 2, dev = d, bus_log = []\<rparr>"

section \<open>Unfolding the constants\<close>

lemmas imxrt_addr_defs =
  IMXRT_SRC_BASE_def IMXRT_SRC_BOOT_MODE1_def IMXRT_SRC_BOOT_MODE2_def
  IMXRT_OCRAM1_BASE_def IMXRT_OCRAM1_SIZE_def IMXRT_OCRAM2_BASE_def IMXRT_OCRAM2_SIZE_def
  IMXRT_FLEXSPI_BASE_def IMXRT_FLEXSPI1_BASE_def IMXRT_FLEXSPI1_MOD_CTRL0_def
  IMXRT_FLEXSPI1_INT_def IMXRT_FLEXSPI1_LUT_KEY_def IMXRT_FLEXSPI1_LUT_CTRL_def
  IMXRT_FLEXSPI1_CTRL1_def IMXRT_FLEXSPI1_PRG_CTRL0_def IMXRT_FLEXSPI1_PRG_CTRL1_def
  IMXRT_FLEXSPI1_PRG_CMD_def IMXRT_FLEXSPI1_PRG_READ_FIFO_CTRL_def
  IMXRT_FLEXSPI1_PRG_WRITE_FIFO_CTRL_def IMXRT_FLEXSPI1_PRG_READ_FIFO_def
  IMXRT_FLEXSPI1_PRG_WRITE_FIFO_def IMXRT_FLEXSPI1_LUT_BASE_def

lemmas imxrt_field_defs =
  IMXRT_FLEXSPI1_MOD_CTRL0_SUSPEND_def IMXRT_FLEXSPI1_INT_PRG_CMD_DONE_def
  IMXRT_FLEXSPI1_INT_READ_FIFO_FULL_def IMXRT_FLEXSPI1_INT_WRITE_FIFO_EMPTY_def
  IMXRT_FLEXSPI1_LUT_KEY_VALUE_def IMXRT_FLEXSPI1_LUT_CTRL_LOCK_def
  IMXRT_FLEXSPI1_LUT_CTRL_UNLOCK_def IMXRT_FLEXSPI1_CTRL1_CAS_MASK_def
  IMXRT_FLEXSPI1_CTRL1_CAS_SHIFT_def IMXRT_FLEXSPI1_PRG_LENGTH_def
  IMXRT_FLEXSPI1_PRG_LUT_INDEX_0_def IMXRT_FLEXSPI1_PRG_RUN_def
  IMXRT_FLEXSPI1_PRG_FIFO_CTRL_CLR_def IMXRT_FLEXSPI1_PRG_FIFO_CTRL_WATERMARK_def
  IMXRT_FLEXSPI_LUT_OPCODE_def IMXRT_FLEXSPI_LUT_MODE_SERIAL_def
  IMXRT_FLEXSPI_LUT_OP_STOP_def IMXRT_FLEXSPI_LUT_OP_COMMAND_def
  IMXRT_FLEXSPI_LUT_OP_CADDR_def IMXRT_FLEXSPI_LUT_OP_RADDR_def
  IMXRT_FLEXSPI_LUT_OP_DUMMY_CYCLES_def IMXRT_FLEXSPI_LUT_OP_READ_def
  IMXRT_FLEXSPI_LUT_OP_WRITE_def

lemmas imxrt_command_defs =
  IMXRT_SPI_FLASH_OPCODE_MASK_def IMXRT_SPI_FLASH_OPCODE_def IMXRT_SPI_FLASH_DUMMY_MASK_def
  IMXRT_SPI_FLASH_DUMMY_SHIFT_def IMXRT_SPI_FLASH_DUMMY_LEN_def
  IMXRT_SPI_FLASH_OPCODE_MODE_MASK_def IMXRT_SPI_FLASH_OPCODE_ONLY_def
  IMXRT_SPI_FLASH_OPCODE_3B_ADDR_def IMXRT_SPI_FLASH_DATA_IN_def IMXRT_SPI_FLASH_DATA_OUT_def
  SPI_FLASH_OPCODE_SECTOR_ERASE_def SPI_FLASH_CMD_WRITE_ENABLE_def SPI_FLASH_CMD_CHIP_ERASE_def
  SPI_FLASH_CMD_READ_STATUS_def SPI_FLASH_CMD_READ_JEDEC_ID_def SPI_FLASH_CMD_READ_SFDP_def
  SPI_FLASH_STATUS_BUSY_def SPI_FLASH_STATUS_WRITE_ENABLED_def

section \<open>Bit fields of the words the driver decodes\<close>

lemma nibble_cases:
  fixes w :: u32
  shows "\<exists>n<16. take_bit 4 w = of_nat n"
proof -
  have "unat (take_bit 4 w) < 16"
    using take_bit_nat_less_exp [of 4 "unat w"] by (simp add: unsigned_take_bit_eq)
  moreover have "take_bit 4 w = of_nat (unat (take_bit 4 w))" by simp
  ultimately show ?thesis by blast
qed

lemma lt16: "n < (16::nat) \<Longrightarrow> n \<in> {0,1,2,3,4,5,6,7,8,9,10,11,12,13,14,15}"
  by simp arith

lemma cas_mask: "(0x7800 :: u32) = push_bit 11 (mask 4)"
  by (simp add: mask_eq_exp_minus_1)

lemma column_address_bits_nibble:
  "column_address_bits ctrl1 = ucast (take_bit 4 (drop_bit 11 ctrl1))"
  unfolding column_address_bits_def IMXRT_FLEXSPI1_CTRL1_CAS_MASK_def IMXRT_FLEXSPI1_CTRL1_CAS_SHIFT_def cas_mask
  by (rule bit_word_eqI) (auto simp add: bit_simps)

lemma column_address_bits_cases:
  "column_address_bits ctrl1 \<in> {0,1,2,3,4,5,6,7,8,9,10,11,12,13,14,15}"
proof -
  obtain n where n: "n < 16" "take_bit 4 (drop_bit 11 ctrl1) = of_nat n"
    using nibble_cases by blast
  from lt16[OF n(1)] show ?thesis
    unfolding column_address_bits_nibble n(2)
    by (elim insertE emptyE) simp_all
qed

lemma raddr_operand: "ucast (24 - ucast (column_address_bits ctrl1) :: u32) = (24 :: u8) - column_address_bits ctrl1"
  using column_address_bits_cases [of ctrl1]
  by (elim insertE emptyE) simp_all

lemma opcode_bits: "(command AND IMXRT_SPI_FLASH_OPCODE_MASK) = take_bit 8 command"
  by (simp add: IMXRT_SPI_FLASH_OPCODE_MASK_def take_bit_eq_mask mask_eq_exp_minus_1)

lemma ff00: "(0xff00 :: u32) = push_bit 8 (mask 8)"
  by (simp add: mask_eq_exp_minus_1)

lemma dummy_bits: "drop_bit IMXRT_SPI_FLASH_DUMMY_SHIFT (command AND IMXRT_SPI_FLASH_DUMMY_MASK) = take_bit 8 (drop_bit 8 command)"
  unfolding IMXRT_SPI_FLASH_DUMMY_SHIFT_def IMXRT_SPI_FLASH_DUMMY_MASK_def ff00
  by (rule bit_word_eqI) (auto simp add: bit_simps)

lemma and_single_bit:
  fixes w :: u32
  shows "w AND 2 ^ n = (if bit w n then 2 ^ n else 0)"
  by (rule bit_word_eqI) (auto simp add: bit_simps)

lemma mode_bit: "(command AND IMXRT_SPI_FLASH_OPCODE_MODE_MASK = IMXRT_SPI_FLASH_OPCODE_3B_ADDR) = bit command 16"
  using and_single_bit [of command 16]
  by (simp add: IMXRT_SPI_FLASH_OPCODE_MODE_MASK_def IMXRT_SPI_FLASH_OPCODE_3B_ADDR_def)

lemma dir_bit: "(command AND IMXRT_SPI_FLASH_DATA_OUT \<noteq> 0) = bit command 17"
  using and_single_bit [of command 17]
  by (simp add: IMXRT_SPI_FLASH_DATA_OUT_def)

lemma replicate8: "replicate 8 x = [x,x,x,x,x,x,x,x]"
  by (simp add: numeral_eq_Suc)


lemma imxrt_sequence_eq:
  "imxrt_sequence command ctrl1 len =
     Inr (spec_program (descriptor_of command len) (column_address_bits ctrl1),
          length (spec_instructions (descriptor_of command len) (column_address_bits ctrl1)))"
  unfolding imxrt_sequence_def mode_bit dir_bit opcode_bits dummy_bits raddr_operand replicate8
  apply (simp add: spec_program_def spec_instructions_def descriptor_of_def lut_insn_def
      bind_f_def sequence_store_def Let_def imxrt_field_defs)
  apply (simp add: numeral_eq_Suc)
  done

section \<open>The boot source table\<close>

lemma f0_mask: "(0xf0 :: u32) = push_bit 4 (mask 4)"
  by (simp add: mask_eq_exp_minus_1)

lemma boot_nibble32: "(c AND 0xf0 :: u32) = push_bit 4 (take_bit 4 (drop_bit 4 c))"
  unfolding f0_mask by (rule bit_word_eqI) (auto simp add: bit_simps)

lemma boot_nibble8:
  "(ucast (c AND (0xf0::u32)) :: u8) = push_bit 4 (ucast (take_bit 4 (drop_bit 4 c)))"
  unfolding f0_mask by (rule bit_word_eqI) (auto simp add: bit_simps)

lemma imxrt_boot_source_chain:
  "imxrt_boot_source boot_cfg =
     (let v = boot_cfg AND 0xf0 in
      if v = 0x00 then boot_spi_flash_nor
      else if v AND 0xc0 = 0x40 then boot_sd_card
      else if v AND 0xc0 = 0x80 then boot_emmc
      else if v AND 0xe0 = 0x20 then boot_slc_nand
      else if v = 0x10 then boot_parallel_nor
      else boot_spi_flash_nand)"
proof -
  obtain n where n: "n < 16" "take_bit 4 (drop_bit 4 boot_cfg) = of_nat n"
    using nibble_cases by blast
  from lt16 [OF n(1)] show ?thesis
    unfolding imxrt_boot_source_def boot_nibble8 boot_nibble32 n(2) Let_def
    by (elim insertE emptyE) simp_all
qed

text \<open>
  Claim C4. The boot source is a function of bits 7..4 of the boot configuration alone,
  decided by the first matching test on the masked value: 0x00 is SPI NOR; 0x40 under
  mask 0xc0 is SD card; 0x80 under mask 0xc0 is eMMC; 0x20 under mask 0xe0 is SLC NAND;
  0x10 is parallel NOR; anything else is SPI NAND. The six sample bytes map as listed.
\<close>

theorem imxrt_boot_source_table:
  "imxrt_boot_source boot_cfg = imxrt_boot_source (boot_cfg AND 0xf0) \<and>
   imxrt_boot_source boot_cfg =
     (let v = boot_cfg AND 0xf0 in
      if v = 0x00 then boot_spi_flash_nor
      else if v AND 0xc0 = 0x40 then boot_sd_card
      else if v AND 0xc0 = 0x80 then boot_emmc
      else if v AND 0xe0 = 0x20 then boot_slc_nand
      else if v = 0x10 then boot_parallel_nor
      else boot_spi_flash_nand) \<and>
   imxrt_boot_source 0x00 = boot_spi_flash_nor \<and>
   imxrt_boot_source 0x40 = boot_sd_card \<and>
   imxrt_boot_source 0x80 = boot_emmc \<and>
   imxrt_boot_source 0x20 = boot_slc_nand \<and>
   imxrt_boot_source 0x10 = boot_parallel_nor \<and>
   imxrt_boot_source 0xc0 = boot_spi_flash_nand"
proof -
  have "imxrt_boot_source boot_cfg = imxrt_boot_source (boot_cfg AND 0xf0)"
    by (simp add: imxrt_boot_source_def and.assoc)
  moreover have "imxrt_boot_source 0x00 = boot_spi_flash_nor" "imxrt_boot_source 0x40 = boot_sd_card"
    "imxrt_boot_source 0x80 = boot_emmc" "imxrt_boot_source 0x20 = boot_slc_nand"
    "imxrt_boot_source 0x10 = boot_parallel_nor" "imxrt_boot_source 0xc0 = boot_spi_flash_nand"
    by (simp_all add: imxrt_boot_source_def)
  ultimately show ?thesis
    using imxrt_boot_source_chain [of boot_cfg] by simp
qed

section \<open>The transport primitives and the sequencer as transactions\<close>

lemma replay_append: "replay P d (xs @ ys) = replay P (replay P d xs) ys"
  by (induction P d xs rule: replay.induct) simp_all

lemma length_peek_blk: "length (peek_blk P d a n) = n"
  by (simp add: peek_blk_def)

lemma target_mem_read32_eq:
  "target_mem_read32 P T a = (peek32 P (dev T) a, ran_ops P T [Rd32 a (peek32 P (dev T) a)])"
  by (simp add: target_mem_read32_def peek32_def ran_ops_def split: prod.splits)

lemma target_mem_write32_eq:
  "target_mem_write32 P T a v = ran_ops P T [Wr32 a v]"
  by (simp add: target_mem_write32_def ran_ops_def)

lemma target_mem_read_eq:
  "target_mem_read P T a n = (peek_blk P (dev T) a n, ran_ops P T [RdBlk a (peek_blk P (dev T) a n)])"
proof -
  have "length (peek_blk P (dev T) a n) = n" by (simp add: peek_blk_def)
  then show ?thesis
    by (simp add: target_mem_read_def Let_def ran_ops_def split: prod.splits) (simp add: peek_blk_def)
qed

lemma target_mem_write_eq:
  "target_mem_write P T a bs = ran_ops P T [WrBlk a bs]"
  by (simp add: target_mem_write_def ran_ops_def)

lemma ran_ops_ran_ops: "ran_ops P (ran_ops P T xs) ys = ran_ops P T (xs @ ys)"
  by (simp add: ran_ops_def replay_append)

lemma wait_done_log:
  assumes "imxrt_spi_wait_done P T = Some T'"
  shows "\<exists>vs. polled vs \<and>
              T' = ran_ops P T (map (Rd32 IMXRT_FLEXSPI1_INT) vs)"
proof -
  let ?Q = "\<lambda>(P, T) T'. \<exists>vs. polled vs \<and>
              T' = ran_ops P T (map (Rd32 IMXRT_FLEXSPI1_INT) vs)"
  have "?Q (P, T) T'"
  proof (rule imxrt_spi_wait_done.raw_induct [OF _ assms])
    fix f and P :: "'a platform" and T T' :: "'a target_s"
    assume IH: "\<And>P T T'. f P T = Some T' \<Longrightarrow> ?Q (P, T) T'"
      and eq: "(case target_mem_read32 P T IMXRT_FLEXSPI1_INT of
                 (v, T1) \<Rightarrow> if v AND IMXRT_FLEXSPI1_INT_PRG_CMD_DONE \<noteq> 0 then Some T1 else f P T1) = Some T'"
    let ?v = "peek32 P (dev T) IMXRT_FLEXSPI1_INT"
    let ?T1 = "ran_ops P T [Rd32 IMXRT_FLEXSPI1_INT ?v]"
    have rd: "target_mem_read32 P T IMXRT_FLEXSPI1_INT = (?v, ?T1)"
      by (simp add: target_mem_read32_eq)
    show "?Q (P, T) T'"
    proof (cases "?v AND IMXRT_FLEXSPI1_INT_PRG_CMD_DONE \<noteq> 0")
      case True
      with eq rd have "T' = ?T1" by simp
      with True show ?thesis
        by (simp only: prod.case) (rule exI [of _ "[?v]"], simp add: polled_def)
    next
      case False
      with eq rd have "f P ?T1 = Some T'" by simp
      from IH [OF this] obtain vs where vs: "polled vs"
        "T' = ran_ops P ?T1 (map (Rd32 IMXRT_FLEXSPI1_INT) vs)"
        by auto
      with False show ?thesis
        by (simp only: prod.case) (rule exI [of _ "?v # vs"], simp add: ran_ops_ran_ops polled_def)
    qed
  qed
  then show ?thesis by simp
qed


lemma wait_complete_log:
  assumes "imxrt_spi_wait_complete P T = Some T'"
  shows "\<exists>vs. polled vs \<and> T' = ran_ops P T (run_ops vs)"
proof -
  let ?T0 = "ran_ops P T [Wr32 IMXRT_FLEXSPI1_PRG_CMD IMXRT_FLEXSPI1_PRG_RUN]"
  have w: "target_mem_write32 P T IMXRT_FLEXSPI1_PRG_CMD IMXRT_FLEXSPI1_PRG_RUN = ?T0"
    by (simp add: target_mem_write32_eq)
  from assms obtain T1 where T1: "imxrt_spi_wait_done P ?T0 = Some T1"
    and T': "T' = target_mem_write32 P T1 IMXRT_FLEXSPI1_INT IMXRT_FLEXSPI1_INT_PRG_CMD_DONE"
    by (auto simp add: imxrt_spi_wait_complete_def w split: option.splits)
  from wait_done_log [OF T1] obtain vs where vs: "polled vs"
    and T1_eq: "T1 = ran_ops P ?T0 (map (Rd32 IMXRT_FLEXSPI1_INT) vs)"
    by blast
  have "T' = ran_ops P T1 [Wr32 IMXRT_FLEXSPI1_INT IMXRT_FLEXSPI1_INT_PRG_CMD_DONE]"
    by (simp add: T' target_mem_write32_eq)
  then have "T' = ran_ops P T (run_ops vs)"
    by (simp add: T1_eq ran_ops_ran_ops run_ops_def)
  with vs show ?thesis by blast
qed

lemma spec_program_no_address:
  "d_addressing D = No_address \<Longrightarrow> spec_program D cb = spec_program D cb'"
  by (simp add: spec_program_def spec_instructions_def)

lemma prg_length: "IMXRT_FLEXSPI1_PRG_LUT_INDEX_0 OR IMXRT_FLEXSPI1_PRG_LENGTH x = take_bit 16 x"
  by (simp add: IMXRT_FLEXSPI1_PRG_LUT_INDEX_0_def IMXRT_FLEXSPI1_PRG_LENGTH_def take_bit_eq_mask mask_eq_exp_minus_1)

lemma ran_ops_fields:
  "target_storage (ran_ops P T ops) = target_storage T"
  "dev (ran_ops P T ops) = replay P (dev T) ops"
  "bus_log (ran_ops P T ops) = bus_log T @ ops"
  "flash (ran_ops P T ops) = flash T"
  "ram (ran_ops P T ops) = ram T"
  "host_heap (ran_ops P T ops) = host_heap T"
  "part_id (ran_ops P T ops) = part_id T"
  by (simp_all add: ran_ops_def)

lemma ran_ops_storage:
  "ran_ops P (T\<lparr>target_storage := X\<rparr>) ops = (ran_ops P T ops)\<lparr>target_storage := X\<rparr>"
  by (simp add: ran_ops_def)

lemma saved_lut_fields:
  "dev (saved_lut P T) = dev T"
  "bus_log (saved_lut P T) = bus_log T"
  "flexspi_lut_seq (target_storage (saved_lut P T)) = lut_of_bytes (peek_lut P (dev T))"
  "flexspi_module_state (target_storage (saved_lut P T)) = flexspi_module_state (target_storage T)"
  "flexspi_lut_state (target_storage (saved_lut P T)) = flexspi_lut_state (target_storage T)"
  "flash (saved_lut P T) = flash T"
  "ram (saved_lut P T) = ram T"
  "host_heap (saved_lut P T) = host_heap T"
  by (simp_all add: saved_lut_def)

lemma saved_lut_ran_ops:
  "(ran_ops P T ops)\<lparr>target_storage :=
      (target_storage T)\<lparr>flexspi_lut_seq := lut_of_bytes (peek_lut P (dev T))\<rparr>\<rparr> =
   ran_ops P (saved_lut P T) ops"
  by (simp add: ran_ops_def saved_lut_def)

lemma configure_sequence_eq:
  "imxrt_spi_configure_sequence P T command address len =
     Inr (ran_ops P (saved_lut P T) (configure_ops P (dev T) command address len))"
proof -
  let ?saved = "peek_lut P (dev T)"
  let ?T1 = "ran_ops P T [RdBlk IMXRT_FLEXSPI1_LUT_BASE ?saved]"
  have rd: "target_mem_read P T IMXRT_FLEXSPI1_LUT_BASE 16 = (?saved, ?T1)"
    by (simp add: target_mem_read_eq peek_lut_def)
  show ?thesis
  proof (cases "bit command 16")
    case True
    then show ?thesis
      unfolding imxrt_spi_configure_sequence_def rd
      by (simp add: Let_def mode_bit imxrt_sequence_eq bind_f_def target_mem_read32_eq
          target_mem_write32_eq target_mem_write_eq ran_ops_fields ran_ops_storage ran_ops_ran_ops
          saved_lut_ran_ops configure_ops_def prg_length)
  next
    case False
    then have na: "d_addressing (descriptor_of command len) = No_address"
      by (simp add: descriptor_of_def)
    from False show ?thesis
      unfolding imxrt_spi_configure_sequence_def rd
      by (simp add: Let_def mode_bit imxrt_sequence_eq bind_f_def target_mem_read32_eq
          target_mem_write32_eq target_mem_write_eq ran_ops_fields ran_ops_storage ran_ops_ran_ops
          saved_lut_ran_ops configure_ops_def prg_length
          spec_program_def spec_instructions_def na)
  qed
qed

lemma bytes_of_lut_of_bytes: "even (length bs) \<Longrightarrow> bytes_of_lut (lut_of_bytes bs) = bs"
  by (induction bs rule: lut_of_bytes.induct) (simp_all add: bytes_of_lut_def)

lemma length_peek_lut: "length (peek_lut P d) = 16"
  by (simp add: peek_lut_def peek_blk_def)

lemma restore_saved: "bytes_of_lut (lut_of_bytes (peek_lut P d)) = peek_lut P d"
  by (rule bytes_of_lut_of_bytes) (simp add: length_peek_lut)

lemma spi_restore_eq:
  "imxrt_spi_restore P T =
     ran_ops P T [WrBlk IMXRT_FLEXSPI1_LUT_BASE (bytes_of_lut (flexspi_lut_seq (target_storage T)))]"
  by (simp add: imxrt_spi_restore_def target_mem_write_eq)

lemma spi_read_eq:
  assumes "imxrt_spi_read P T command address len = Some r"
  shows "\<exists>vs. polled vs \<and>
           r = (if 128 < len then Inl Buffer_overrun
                else Inr (take len (read_data P (dev T) command address len vs),
                          ran_ops P (saved_lut P T) (read_ops P (dev T) command address len vs)))"
proof -
  let ?T1 = "ran_ops P (saved_lut P T) (configure_ops P (dev T) command address len)"
  from assms obtain T2 where T2: "imxrt_spi_wait_complete P ?T1 = Some T2"
    by (auto simp add: imxrt_spi_read_def configure_sequence_eq split: option.splits)
  from wait_complete_log [OF T2] obtain vs where vs: "polled vs"
    and T2_eq: "T2 = ran_ops P ?T1 (run_ops vs)" by blast
  let ?ops1 = "configure_ops P (dev T) command address len @ run_ops vs"
  have T2_eq': "T2 = ran_ops P (saved_lut P T) ?ops1"
    by (simp add: T2_eq ran_ops_ran_ops)
  let ?data = "read_data P (dev T) command address len vs"
  have rd: "target_mem_read P T2 IMXRT_FLEXSPI1_PRG_READ_FIFO 128 =
              (?data, ran_ops P T2 [RdBlk IMXRT_FLEXSPI1_PRG_READ_FIFO ?data])"
    by (simp add: target_mem_read_eq read_data_def T2_eq' ran_ops_fields saved_lut_fields)
  have "r = (if 128 < len then Inl Buffer_overrun
                else Inr (take len ?data,
                          ran_ops P (saved_lut P T) (read_ops P (dev T) command address len vs)))"
    using assms
    unfolding imxrt_spi_read_def configure_sequence_eq sum.case T2 option.case rd prod.case
    by (cases "128 < len")
       (simp_all add: Let_def spi_restore_eq target_mem_write32_eq T2_eq' ran_ops_fields saved_lut_fields
        restore_saved read_ops_def ran_ops_ran_ops)
  with vs show ?thesis by blast
qed

lemma wait_done_total:
  "done_within P (dev T) n \<Longrightarrow>
     \<exists>vs. polled vs \<and> length vs \<le> n \<and>
          imxrt_spi_wait_done P T = Some (ran_ops P T (map (Rd32 IMXRT_FLEXSPI1_INT) vs))"
proof (induction n arbitrary: T)
  case 0
  then show ?case by simp
next
  case (Suc n)
  let ?v = "peek32 P (dev T) IMXRT_FLEXSPI1_INT"
  let ?T1 = "ran_ops P T [Rd32 IMXRT_FLEXSPI1_INT ?v]"
  have rd: "target_mem_read32 P T IMXRT_FLEXSPI1_INT = (?v, ?T1)"
    by (simp add: target_mem_read32_eq)
  show ?case
  proof (cases "?v AND IMXRT_FLEXSPI1_INT_PRG_CMD_DONE \<noteq> 0")
    case True
    have "imxrt_spi_wait_done P T = Some ?T1"
      by (subst imxrt_spi_wait_done.simps) (simp add: rd True)
    moreover have "polled [?v]" using True by (simp add: polled_def)
    ultimately show ?thesis by (intro exI [of _ "[?v]"]) simp
  next
    case False
    from Suc.prems False have "done_within P (snd (p_read32 P (dev T) IMXRT_FLEXSPI1_INT)) n"
      by (simp add: peek32_def split: prod.splits)
    then have "done_within P (dev ?T1) n" by (simp add: ran_ops_fields)
    from Suc.IH [OF this] obtain vs where vs: "polled vs" "length vs \<le> n"
      "imxrt_spi_wait_done P ?T1 = Some (ran_ops P ?T1 (map (Rd32 IMXRT_FLEXSPI1_INT) vs))"
      by blast
    have "imxrt_spi_wait_done P T = imxrt_spi_wait_done P ?T1"
      by (subst imxrt_spi_wait_done.simps) (simp add: rd False)
    with vs(3) have "imxrt_spi_wait_done P T =
        Some (ran_ops P T (map (Rd32 IMXRT_FLEXSPI1_INT) (?v # vs)))"
      by (simp add: ran_ops_ran_ops)
    moreover from vs(1) False have "polled (?v # vs)" by (simp add: polled_def)
    moreover from vs(2) have "length (?v # vs) \<le> Suc n" by simp
    ultimately show ?thesis by blast
  qed
qed

lemma wait_done_needs_done:
  assumes "imxrt_spi_wait_done P T = Some T'"
  shows "\<exists>n. done_within P (dev T) n"
proof -
  let ?Q = "\<lambda>(P, T) (T' :: 'a target_s). \<exists>n. done_within P (dev T) n"
  have "?Q (P, T) T'"
  proof (rule imxrt_spi_wait_done.raw_induct [OF _ assms])
    fix f and P :: "'a platform" and T T' :: "'a target_s"
    assume IH: "\<And>P T T'. f P T = Some T' \<Longrightarrow> ?Q (P, T) T'"
      and eq: "(case target_mem_read32 P T IMXRT_FLEXSPI1_INT of
                 (v, T1) \<Rightarrow> if v AND IMXRT_FLEXSPI1_INT_PRG_CMD_DONE \<noteq> 0 then Some T1 else f P T1) = Some T'"
    let ?v = "peek32 P (dev T) IMXRT_FLEXSPI1_INT"
    let ?T1 = "ran_ops P T [Rd32 IMXRT_FLEXSPI1_INT ?v]"
    have rd: "target_mem_read32 P T IMXRT_FLEXSPI1_INT = (?v, ?T1)"
      by (simp add: target_mem_read32_eq)
    show "?Q (P, T) T'"
    proof (cases "?v AND IMXRT_FLEXSPI1_INT_PRG_CMD_DONE \<noteq> 0")
      case True
      then have "done_within P (dev T) (Suc 0)"
        by (auto simp add: peek32_def split: prod.splits)
      then show ?thesis by (simp only: prod.case) (rule exI)
    next
      case False
      with eq rd have "f P ?T1 = Some T'" by simp
      from IH [OF this] obtain n where "done_within P (dev ?T1) n" by auto
      then have "done_within P (dev T) (Suc n)"
        by (auto simp add: ran_ops_fields split: prod.splits)
      then show ?thesis by (simp only: prod.case) (rule exI)
    qed
  qed
  then show ?thesis by simp
qed

lemma wait_complete_total:
  assumes "done_within P (replay P (dev T) [Wr32 IMXRT_FLEXSPI1_PRG_CMD IMXRT_FLEXSPI1_PRG_RUN]) n"
  shows "\<exists>vs. polled vs \<and> length vs \<le> n \<and>
              imxrt_spi_wait_complete P T = Some (ran_ops P T (run_ops vs))"
proof -
  let ?T0 = "ran_ops P T [Wr32 IMXRT_FLEXSPI1_PRG_CMD IMXRT_FLEXSPI1_PRG_RUN]"
  have w: "target_mem_write32 P T IMXRT_FLEXSPI1_PRG_CMD IMXRT_FLEXSPI1_PRG_RUN = ?T0"
    by (simp add: target_mem_write32_eq)
  from assms have "done_within P (dev ?T0) n" by (simp add: ran_ops_fields)
  from wait_done_total [OF this] obtain vs where vs: "polled vs" "length vs \<le> n"
    and wd: "imxrt_spi_wait_done P ?T0 = Some (ran_ops P ?T0 (map (Rd32 IMXRT_FLEXSPI1_INT) vs))"
    by blast
  have "imxrt_spi_wait_complete P T = Some (ran_ops P T (run_ops vs))"
    unfolding imxrt_spi_wait_complete_def w wd
    by (simp add: target_mem_write32_eq ran_ops_ran_ops run_ops_def)
  with vs show ?thesis by blast
qed

lemma wait_complete_needs_done:
  assumes "imxrt_spi_wait_complete P T = Some T'"
  shows "\<exists>n. done_within P (replay P (dev T) [Wr32 IMXRT_FLEXSPI1_PRG_CMD IMXRT_FLEXSPI1_PRG_RUN]) n"
proof -
  let ?T0 = "ran_ops P T [Wr32 IMXRT_FLEXSPI1_PRG_CMD IMXRT_FLEXSPI1_PRG_RUN]"
  have w: "target_mem_write32 P T IMXRT_FLEXSPI1_PRG_CMD IMXRT_FLEXSPI1_PRG_RUN = ?T0"
    by (simp add: target_mem_write32_eq)
  from assms obtain T1 where "imxrt_spi_wait_done P ?T0 = Some T1"
    by (auto simp add: imxrt_spi_wait_complete_def w split: option.splits)
  from wait_done_needs_done [OF this] show ?thesis by (simp add: ran_ops_fields)
qed

lemma spi_read_run:
  assumes "imxrt_spi_wait_complete P
             (ran_ops P (saved_lut P T) (configure_ops P (dev T) command address len)) =
           Some (ran_ops P (ran_ops P (saved_lut P T) (configure_ops P (dev T) command address len))
                  (run_ops vs))"
  shows "imxrt_spi_read P T command address len =
           Some (if 128 < len then Inl Buffer_overrun
                 else Inr (take len (read_data P (dev T) command address len vs),
                           ran_ops P (saved_lut P T) (read_ops P (dev T) command address len vs)))"
proof -
  let ?T1 = "ran_ops P (saved_lut P T) (configure_ops P (dev T) command address len)"
  let ?T2 = "ran_ops P ?T1 (run_ops vs)"
  let ?ops1 = "configure_ops P (dev T) command address len @ run_ops vs"
  have T2_eq': "?T2 = ran_ops P (saved_lut P T) ?ops1"
    by (simp add: ran_ops_ran_ops)
  let ?data = "read_data P (dev T) command address len vs"
  have rd: "target_mem_read P ?T2 IMXRT_FLEXSPI1_PRG_READ_FIFO 128 =
              (?data, ran_ops P ?T2 [RdBlk IMXRT_FLEXSPI1_PRG_READ_FIFO ?data])"
    by (simp add: target_mem_read_eq read_data_def T2_eq' ran_ops_fields saved_lut_fields)
  show ?thesis
    unfolding imxrt_spi_read_def configure_sequence_eq sum.case assms option.case rd prod.case
    by (cases "128 < len")
       (simp_all add: Let_def spi_restore_eq target_mem_write32_eq ran_ops_fields saved_lut_fields
        restore_saved read_ops_def ran_ops_ran_ops)
qed

lemma spi_read_total:
  assumes "done_within P
             (replay P (dev T)
                (configure_ops P (dev T) command address len @
                 [Wr32 IMXRT_FLEXSPI1_PRG_CMD IMXRT_FLEXSPI1_PRG_RUN])) n"
  shows "\<exists>vs. polled vs \<and> length vs \<le> n \<and>
           imxrt_spi_read P T command address len =
             Some (if 128 < len then Inl Buffer_overrun
                   else Inr (take len (read_data P (dev T) command address len vs),
                             ran_ops P (saved_lut P T) (read_ops P (dev T) command address len vs)))"
proof -
  let ?T1 = "ran_ops P (saved_lut P T) (configure_ops P (dev T) command address len)"
  from assms have "done_within P (replay P (dev ?T1) [Wr32 IMXRT_FLEXSPI1_PRG_CMD IMXRT_FLEXSPI1_PRG_RUN]) n"
    by (simp add: ran_ops_fields saved_lut_fields replay_append)
  from wait_complete_total [OF this] obtain vs where vs: "polled vs" "length vs \<le> n"
    and wc: "imxrt_spi_wait_complete P ?T1 = Some (ran_ops P ?T1 (run_ops vs))"
    by blast
  from spi_read_run [OF wc] vs show ?thesis by blast
qed

lemma spi_read_needs_done:
  assumes "imxrt_spi_read P T command address len = Some r"
  shows "\<exists>n. done_within P
             (replay P (dev T)
                (configure_ops P (dev T) command address len @
                 [Wr32 IMXRT_FLEXSPI1_PRG_CMD IMXRT_FLEXSPI1_PRG_RUN])) n"
proof -
  let ?T1 = "ran_ops P (saved_lut P T) (configure_ops P (dev T) command address len)"
  from assms obtain T2 where T2: "imxrt_spi_wait_complete P ?T1 = Some T2"
    by (auto simp add: imxrt_spi_read_def configure_sequence_eq split: option.splits)
  from wait_complete_needs_done [OF T2] show ?thesis
    by (simp add: ran_ops_fields saved_lut_fields replay_append)
qed

lemma round_up4: "push_bit 2 (drop_bit 2 (n + 3)) = 4 * ((n + 3) div 4)" for n :: nat
  by (simp add: push_bit_eq_mult drop_bit_eq_div)

lemma spi_write_eq:
  assumes "imxrt_spi_write P T command address buffer len = Some r"
  shows "\<exists>vs. polled vs \<and>
           r = (if len \<noteq> 0 \<and> (128 < len \<or> length buffer < len) then Inl Buffer_overrun
                else Inr (ran_ops P (saved_lut P T) (write_ops P (dev T) command address buffer len vs)))"
proof (cases "len \<noteq> 0 \<and> (128 < len \<or> length buffer < len)")
  case True
  with assms have "r = Inl Buffer_overrun"
    by (auto simp add: imxrt_spi_write_def configure_sequence_eq)
  moreover have "polled [IMXRT_FLEXSPI1_INT_PRG_CMD_DONE]"
    by (simp add: polled_def IMXRT_FLEXSPI1_INT_PRG_CMD_DONE_def)
  ultimately show ?thesis using True by auto
next
  case False
  let ?T1 = "ran_ops P (saved_lut P T) (configure_ops P (dev T) command address len)"
  let ?fill = "if len \<noteq> 0
      then [WrBlk IMXRT_FLEXSPI1_PRG_WRITE_FIFO
              (take (4 * ((len + 3) div 4)) (take len buffer @ replicate (128 - len) 0)),
            Wr32 IMXRT_FLEXSPI1_INT IMXRT_FLEXSPI1_INT_WRITE_FIFO_EMPTY]
      else []"
  let ?T3 = "ran_ops P (saved_lut P T) (configure_ops P (dev T) command address len @ ?fill)"
  from assms False obtain T4 where T4: "imxrt_spi_wait_complete P ?T3 = Some T4"
    and r: "r = Inr (imxrt_spi_restore P T4)"
    by (auto simp add: imxrt_spi_write_def configure_sequence_eq Let_def target_mem_write_eq
        target_mem_write32_eq ran_ops_ran_ops round_up4 split: option.splits if_splits)
  from wait_complete_log [OF T4] obtain vs where vs: "polled vs"
    and T4_eq: "T4 = ran_ops P ?T3 (run_ops vs)" by blast
  have "r = Inr (ran_ops P (saved_lut P T) (write_ops P (dev T) command address buffer len vs))"
    unfolding r T4_eq
    by (simp add: spi_restore_eq ran_ops_fields saved_lut_fields restore_saved ran_ops_ran_ops
        write_ops_def)
  with vs False show ?thesis by auto
qed

lemma lut_writes_append: "lut_writes (xs @ ys) = lut_writes xs @ lut_writes ys"
  by (induction xs rule: lut_writes.induct) simp_all

lemma lut_writes_polls: "lut_writes (map (Rd32 a) vs) = []"
  by (induction vs) simp_all

lemma lut_writes_run_ops: "lut_writes (run_ops vs) = []"
  by (simp add: run_ops_def lut_writes_append lut_writes_polls)

lemma lut_writes_configure_ops:
  "lut_writes (configure_ops P d command address len) =
     [bytes_of_lut (spec_program (descriptor_of command len)
        (column_address_bits
           (peek32 P (replay P d [RdBlk IMXRT_FLEXSPI1_LUT_BASE (peek_lut P d)]) IMXRT_FLEXSPI1_CTRL1)))]"
  by (simp add: configure_ops_def Let_def lut_writes_append)

lemma issued_ran_ops: "issued T (ran_ops P (saved_lut P T) ops) = ops"
  by (simp add: issued_def ran_ops_fields saved_lut_fields)

lemma issued_ran_ops': "issued T (ran_ops P T ops) = ops"
  by (simp add: issued_def ran_ops_fields)

lemma lut_insn_nonzero:
  "lut_insn IMXRT_FLEXSPI_LUT_OP_COMMAND x \<noteq> \<lparr>value_u8 = 0, opcode_mode = 0\<rparr>"
  "lut_insn IMXRT_FLEXSPI_LUT_OP_RADDR x \<noteq> \<lparr>value_u8 = 0, opcode_mode = 0\<rparr>"
  "lut_insn IMXRT_FLEXSPI_LUT_OP_CADDR x \<noteq> \<lparr>value_u8 = 0, opcode_mode = 0\<rparr>"
  "lut_insn IMXRT_FLEXSPI_LUT_OP_DUMMY_CYCLES x \<noteq> \<lparr>value_u8 = 0, opcode_mode = 0\<rparr>"
  "lut_insn IMXRT_FLEXSPI_LUT_OP_READ x \<noteq> \<lparr>value_u8 = 0, opcode_mode = 0\<rparr>"
  "lut_insn IMXRT_FLEXSPI_LUT_OP_WRITE x \<noteq> \<lparr>value_u8 = 0, opcode_mode = 0\<rparr>"
  by (simp_all add: lut_insn_def imxrt_field_defs)

lemma populated_spec_program:
  "populated_slots (spec_program D cb) = length (spec_instructions D cb)"
  by (simp add: populated_slots_def spec_program_def spec_instructions_def lut_insn_nonzero)

lemma length_spec_instructions: "length (spec_instructions D cb) \<le> 5"
  by (simp add: spec_instructions_def)

lemma length_spec_program: "length (spec_program D cb) = 8"
  using length_spec_instructions [of D cb] by (simp add: spec_program_def)

section \<open>Sequence synthesis\<close>

text \<open>
  Claim C1. For every command word, every value read from \<open>CTRL1\<close> and every length,
  the program step builds the 8-slot program of the specification, in its order: the
  command with the opcode; for an addressed command the row address with operand 24 minus
  the column bit count, then the column address only when that count is nonzero; the
  dummy cycles, always; a read or a write only when the length is positive; zero slots
  after that. The final \<open>offset\<close> is the number of populated slots: 2 for a command
  without address and data, 4 for an addressed command with column bit count 0 and data.
  This program is the one block that \<open>imxrt_spi_configure_sequence\<close> writes to the LUT.
\<close>

theorem imxrt_sequence_program:
  "let D = descriptor_of command len; cb = column_address_bits ctrl in
     imxrt_sequence command ctrl len = Inr (spec_program D cb, length (spec_instructions D cb)) \<and>
     populated_slots (spec_program D cb) = length (spec_instructions D cb) \<and>
     (d_addressing D = No_address \<and> d_transfer_length D = 0 \<longrightarrow>
        populated_slots (spec_program D cb) = 2) \<and>
     (d_addressing D = Three_byte_address \<and> cb = 0 \<and> 0 < d_transfer_length D \<longrightarrow>
        populated_slots (spec_program D cb) = 4) \<and>
     (\<exists>T'. imxrt_spi_configure_sequence P T command address len = Inr T' \<and>
           lut_writes (issued T T') =
             [bytes_of_lut (spec_program D
                (column_address_bits
                   (peek32 P (replay P (dev T) [RdBlk IMXRT_FLEXSPI1_LUT_BASE (peek_lut P (dev T))])
                      IMXRT_FLEXSPI1_CTRL1)))])"
proof -
  let ?D = "descriptor_of command len" and ?cb = "column_address_bits ctrl"
  have "d_addressing ?D = No_address \<and> d_transfer_length ?D = 0 \<longrightarrow>
        populated_slots (spec_program ?D ?cb) = 2"
    by (simp add: populated_spec_program spec_instructions_def)
  moreover have "d_addressing ?D = Three_byte_address \<and> ?cb = 0 \<and> 0 < d_transfer_length ?D \<longrightarrow>
        populated_slots (spec_program ?D ?cb) = 4"
    by (simp add: populated_spec_program spec_instructions_def)
  ultimately show ?thesis
    by (simp add: Let_def imxrt_sequence_eq populated_spec_program configure_sequence_eq
        issued_ran_ops lut_writes_configure_ops)
qed

theorem imxrt_sequence_program_witness:
  "imxrt_sequence SPI_FLASH_CMD_WRITE_ENABLE 0 0 =
     Inr ([\<lparr>value_u8 = 0x06, opcode_mode = 0x04\<rparr>, \<lparr>value_u8 = 0, opcode_mode = 0x30\<rparr>,
           \<lparr>value_u8 = 0, opcode_mode = 0\<rparr>, \<lparr>value_u8 = 0, opcode_mode = 0\<rparr>,
           \<lparr>value_u8 = 0, opcode_mode = 0\<rparr>, \<lparr>value_u8 = 0, opcode_mode = 0\<rparr>,
           \<lparr>value_u8 = 0, opcode_mode = 0\<rparr>, \<lparr>value_u8 = 0, opcode_mode = 0\<rparr>], 2) \<and>
   populated_slots (spec_program (descriptor_of SPI_FLASH_CMD_WRITE_ENABLE 0) 0) = 2 \<and>
   imxrt_sequence SPI_FLASH_CMD_READ_SFDP 0 8 =
     Inr ([\<lparr>value_u8 = 0x5a, opcode_mode = 0x04\<rparr>, \<lparr>value_u8 = 24, opcode_mode = 0x08\<rparr>,
           \<lparr>value_u8 = 8, opcode_mode = 0x30\<rparr>, \<lparr>value_u8 = 0, opcode_mode = 0x24\<rparr>,
           \<lparr>value_u8 = 0, opcode_mode = 0\<rparr>, \<lparr>value_u8 = 0, opcode_mode = 0\<rparr>,
           \<lparr>value_u8 = 0, opcode_mode = 0\<rparr>, \<lparr>value_u8 = 0, opcode_mode = 0\<rparr>], 4) \<and>
   populated_slots (spec_program (descriptor_of SPI_FLASH_CMD_READ_SFDP 8) 0) = 4"
  using imxrt_sequence_program [where command = SPI_FLASH_CMD_WRITE_ENABLE and len = 0 and ctrl = 0
          and P = sim_platform and T = "sim_target (sim_device 0 [] 0)" and address = 0]
        imxrt_sequence_program [where command = SPI_FLASH_CMD_READ_SFDP and len = 8 and ctrl = 0
          and P = sim_platform and T = "sim_target (sim_device 0 [] 0)" and address = 0]
  by (simp add: Let_def descriptor_of_def spec_program_def spec_instructions_def lut_insn_def
      column_address_bits_def imxrt_command_defs imxrt_field_defs bit_iff_odd_drop_bit)
     (simp add: numeral_eq_Suc)

text \<open>
  Claim C9. For every command word and every length, synthesis stays inside the 8-slot
  array: no store is out of bounds, at most 5 slots are populated, the column bit count
  is at most 15, and the row address operand 24 minus that count does not wrap (it is
  at least 9).
\<close>

theorem imxrt_sequence_capacity:
  "\<exists>sequence offset.
     imxrt_sequence command ctrl len = Inr (sequence, offset) \<and>
     length sequence = 8 \<and> populated_slots sequence = offset \<and> offset \<le> 5 \<and> offset \<le> 8 \<and>
     unat (column_address_bits ctrl) \<le> 15 \<and>
     unat (24 - ucast (column_address_bits ctrl) :: u32) = 24 - unat (column_address_bits ctrl) \<and>
     9 \<le> unat (24 - ucast (column_address_bits ctrl) :: u32)"
proof -
  have cb: "unat (column_address_bits ctrl) \<le> 15 \<and>
     unat (24 - ucast (column_address_bits ctrl) :: u32) = 24 - unat (column_address_bits ctrl) \<and>
     9 \<le> unat (24 - ucast (column_address_bits ctrl) :: u32)"
    using column_address_bits_cases [of ctrl]
    by (elim insertE emptyE) simp_all
  have "length (spec_instructions (descriptor_of command len) (column_address_bits ctrl)) \<le> 8"
    using length_spec_instructions [of "descriptor_of command len" "column_address_bits ctrl"] by simp
  with cb show ?thesis
    by (simp add: imxrt_sequence_eq length_spec_program populated_spec_program length_spec_instructions)
qed

section \<open>Reads and writes through the sequencer\<close>

lemmas sim_defs = sim_platform_def sim_read32_def sim_write32_def sim_read_def sim_write_def
  sim_device_def sim_target_def

lemmas drv_defs = imxrt_spi_read_def imxrt_spi_write_def imxrt_spi_configure_sequence_def
  imxrt_spi_wait_complete_def imxrt_spi_wait_done.simps imxrt_spi_restore_def
  target_mem_read32_def target_mem_write32_def target_mem_read_def target_mem_write_def
  bind_f_def bind_r_def Let_def

lemmas eval_defs = drv_defs imxrt_sequence_eq sim_defs imxrt_addr_defs imxrt_field_defs imxrt_command_defs

lemma hd_configure_ops:
  "hd (configure_ops P d command address len @ ops) = RdBlk IMXRT_FLEXSPI1_LUT_BASE (peek_lut P d)"
  by (simp add: configure_ops_def Let_def)

lemma last_configure_ops:
  "last (configure_ops P d command address len) =
     Wr32 IMXRT_FLEXSPI1_PRG_CTRL1 (IMXRT_FLEXSPI1_PRG_LUT_INDEX_0 OR IMXRT_FLEXSPI1_PRG_LENGTH (of_nat len))"
  by (simp add: configure_ops_def Let_def prg_length)

lemma lut_storage_restored:
  assumes "lut_storage P"
  shows "peek_lut P (replay P d (ops @ [WrBlk IMXRT_FLEXSPI1_LUT_BASE (peek_lut P d0)])) = peek_lut P d0"
  using assms by (simp add: replay_append lut_storage_def length_peek_lut)

lemma lut_bracket_read_ops:
  "lut_bracket P T (ran_ops P (saved_lut P T) (read_ops P (dev T) command address len vs))"
proof -
  have "lut_storage P \<longrightarrow>
     peek_lut P (replay P (dev T) (read_ops P (dev T) command address len vs)) = peek_lut P (dev T)"
    using lut_storage_restored [of P "dev T" "configure_ops P (dev T) command address len @ run_ops vs @
     [RdBlk IMXRT_FLEXSPI1_PRG_READ_FIFO (read_data P (dev T) command address len vs),
      Wr32 IMXRT_FLEXSPI1_INT IMXRT_FLEXSPI1_INT_READ_FIFO_FULL]" "dev T"]
    by (simp add: read_ops_def)
  moreover have "lut_writes (read_ops P (dev T) command address len vs) =
      [hd (lut_writes (configure_ops P (dev T) command address len)), peek_lut P (dev T)]"
    by (simp add: read_ops_def lut_writes_append lut_writes_configure_ops lut_writes_run_ops)
  ultimately show ?thesis
    unfolding lut_bracket_def Let_def issued_ran_ops ran_ops_fields saved_lut_fields
    by (simp add: read_ops_def hd_configure_ops)
qed

lemma lut_bracket_write_ops:
  "lut_bracket P T (ran_ops P (saved_lut P T) (write_ops P (dev T) command address buffer len vs))"
proof -
  let ?fill = "if len \<noteq> 0
      then [WrBlk IMXRT_FLEXSPI1_PRG_WRITE_FIFO
              (take (4 * ((len + 3) div 4)) (take len buffer @ replicate (128 - len) 0)),
            Wr32 IMXRT_FLEXSPI1_INT IMXRT_FLEXSPI1_INT_WRITE_FIFO_EMPTY]
      else []"
  have "lut_storage P \<longrightarrow>
     peek_lut P (replay P (dev T) (write_ops P (dev T) command address buffer len vs)) = peek_lut P (dev T)"
    using lut_storage_restored [of P "dev T" "configure_ops P (dev T) command address len @ ?fill @ run_ops vs" "dev T"]
    by (simp add: write_ops_def)
  moreover have fill: "lut_writes ?fill = []"
    by (simp add: imxrt_addr_defs)
  have "lut_writes (write_ops P (dev T) command address buffer len vs) =
      [hd (lut_writes (configure_ops P (dev T) command address len)), peek_lut P (dev T)]"
    unfolding write_ops_def lut_writes_append fill
    by (simp add: lut_writes_configure_ops lut_writes_run_ops)
  ultimately show ?thesis
    unfolding lut_bracket_def Let_def issued_ran_ops ran_ops_fields saved_lut_fields
    by (simp add: write_ops_def hd_configure_ops)
qed

text \<open>
  Claim C2. Every SPI read and every SPI write that returns has borrowed the sequence
  LUT and given it back: the first transaction of the call reads the 16 bytes of the
  LUT, the private block holds them, the call writes the LUT exactly twice (the new
  program, then what was saved), the write-back is the last transaction of the call
  (after the run and after the data transfer), and on hardware whose LUT keeps what is
  written to it the LUT after the call is the LUT before it.
\<close>

theorem imxrt_spi_lut_restored:
  "(imxrt_spi_read P T command address len = Some (Inr (buffer, T')) \<longrightarrow> lut_bracket P T T') \<and>
   (imxrt_spi_write P T command address bytes len = Some (Inr T'') \<longrightarrow> lut_bracket P T T'')"
proof (intro conjI impI)
  assume "imxrt_spi_read P T command address len = Some (Inr (buffer, T'))"
  from spi_read_eq [OF this] show "lut_bracket P T T'"
    by (auto simp add: lut_bracket_read_ops split: if_splits)
next
  assume "imxrt_spi_write P T command address bytes len = Some (Inr T'')"
  from spi_write_eq [OF this] show "lut_bracket P T T''"
    by (auto simp add: lut_bracket_write_ops split: if_splits)
qed

lemma sim_lut_storage: "lut_storage sim_platform"
  by (simp add: lut_storage_def peek_lut_def peek_blk_def sim_defs)

lemma sim_read_status_returns:
  "\<exists>r. imxrt_spi_read sim_platform (sim_target (sim_device 0 [0x02] 2)) SPI_FLASH_CMD_READ_STATUS 0 1 = Some r"
  by (simp add: eval_defs)

lemma sim_write_enable_returns:
  "\<exists>r. imxrt_spi_write sim_platform (sim_target (sim_device 0 [0x02] 2)) SPI_FLASH_CMD_WRITE_ENABLE 0 [] 0 = Some r"
  by (simp add: eval_defs)

theorem imxrt_spi_lut_restored_witness:
  "\<exists>buffer T' T''.
     imxrt_spi_read sim_platform (sim_target (sim_device 0 [0x02] 2)) SPI_FLASH_CMD_READ_STATUS 0 1 =
       Some (Inr (buffer, T')) \<and>
     lut_bracket sim_platform (sim_target (sim_device 0 [0x02] 2)) T' \<and>
     imxrt_spi_write sim_platform (sim_target (sim_device 0 [0x02] 2)) SPI_FLASH_CMD_WRITE_ENABLE 0 [] 0 =
       Some (Inr T'') \<and>
     lut_bracket sim_platform (sim_target (sim_device 0 [0x02] 2)) T'' \<and>
     lut_storage sim_platform \<and>
     peek_lut sim_platform (dev T') = peek_lut sim_platform (sim_device 0 [0x02] 2) \<and>
     peek_lut sim_platform (dev T'') = peek_lut sim_platform (sim_device 0 [0x02] 2)"
proof -
  let ?T = "sim_target (sim_device 0 [0x02] 2)"
  obtain r where r: "imxrt_spi_read sim_platform ?T SPI_FLASH_CMD_READ_STATUS 0 1 = Some r"
    using sim_read_status_returns by blast
  from spi_read_eq [OF r] obtain buffer T' where "r = Inr (buffer, T')" by auto
  with r have rd: "imxrt_spi_read sim_platform ?T SPI_FLASH_CMD_READ_STATUS 0 1 = Some (Inr (buffer, T'))"
    by simp
  obtain w where w: "imxrt_spi_write sim_platform ?T SPI_FLASH_CMD_WRITE_ENABLE 0 [] 0 = Some w"
    using sim_write_enable_returns by blast
  from spi_write_eq [OF w] obtain T'' where "w = Inr T''" by auto
  with w have wr: "imxrt_spi_write sim_platform ?T SPI_FLASH_CMD_WRITE_ENABLE 0 [] 0 = Some (Inr T'')"
    by simp
  have dev: "dev ?T = sim_device 0 [0x02] 2" by (simp add: sim_target_def)
  from imxrt_spi_lut_restored [of sim_platform ?T SPI_FLASH_CMD_READ_STATUS 0 1 buffer T'
      "[]" T''] rd
  have b1: "lut_bracket sim_platform ?T T'" by simp
  from imxrt_spi_lut_restored [of sim_platform ?T SPI_FLASH_CMD_WRITE_ENABLE 0 0 "[]" ?T
      "[]" T''] wr
  have b2: "lut_bracket sim_platform ?T T''" by simp
  from b1 b2 sim_lut_storage have "peek_lut sim_platform (dev T') = peek_lut sim_platform (sim_device 0 [0x02] 2)"
    "peek_lut sim_platform (dev T'') = peek_lut sim_platform (sim_device 0 [0x02] 2)"
    by (simp_all add: lut_bracket_def Let_def dev)
  with rd wr b1 b2 sim_lut_storage show ?thesis by blast
qed


lemma length_read_data: "length (read_data P d command address len vs) = 128"
  by (simp add: read_data_def length_peek_blk)

text \<open>
  Claim C8. A read returns exactly when the hardware, programmed and triggered, shows
  the command-done flag at some read of the interrupt register. When the flag shows
  within the first \<open>n\<close> of these reads, the read returns after at most \<open>n\<close> polls, and for
  a length of at most 128 it has issued exactly these transactions in this order: the
  program step (ending with the write of the length, masked to 16 bits, with sequence
  index 0), the trigger and the poll up to the command-done flag with its acknowledge,
  the read of the 128-byte FIFO window, the acknowledge of the read-FIFO-full flag, and
  the write-back of the saved LUT; the bytes handed to the caller are the first \<open>len\<close>
  bytes of the window. A longer length overruns the scratch buffer.
\<close>

theorem imxrt_spi_read_steps:
  "((\<exists>r. imxrt_spi_read P T command address len = Some r) \<longleftrightarrow>
    (\<exists>n. done_within P
         (replay P (dev T)
            (configure_ops P (dev T) command address len @
             [Wr32 IMXRT_FLEXSPI1_PRG_CMD IMXRT_FLEXSPI1_PRG_RUN])) n)) \<and>
   (done_within P
         (replay P (dev T)
            (configure_ops P (dev T) command address len @
             [Wr32 IMXRT_FLEXSPI1_PRG_CMD IMXRT_FLEXSPI1_PRG_RUN])) n \<longrightarrow>
    (\<exists>r vs. imxrt_spi_read P T command address len = Some r \<and>
           polled vs \<and> length vs \<le> n \<and>
           (let data = read_data P (dev T) command address len vs in
              if 128 < len then r = Inl Buffer_overrun
              else r = Inr (take len data,
                            ran_ops P (saved_lut P T)
                              (configure_ops P (dev T) command address len @
                               run_ops vs @
                               [RdBlk IMXRT_FLEXSPI1_PRG_READ_FIFO data,
                                Wr32 IMXRT_FLEXSPI1_INT IMXRT_FLEXSPI1_INT_READ_FIFO_FULL,
                                WrBlk IMXRT_FLEXSPI1_LUT_BASE (peek_lut P (dev T))])) \<and>
                   length data = 128 \<and> length (take len data) = len \<and>
                   last (configure_ops P (dev T) command address len) =
                     Wr32 IMXRT_FLEXSPI1_PRG_CTRL1
                       (IMXRT_FLEXSPI1_PRG_LUT_INDEX_0 OR IMXRT_FLEXSPI1_PRG_LENGTH (of_nat len)))))"
proof (intro conjI impI iffI)
  assume "\<exists>r. imxrt_spi_read P T command address len = Some r"
  then obtain r where "imxrt_spi_read P T command address len = Some r" by blast
  from spi_read_needs_done [OF this]
  show "\<exists>n. done_within P
         (replay P (dev T)
            (configure_ops P (dev T) command address len @
             [Wr32 IMXRT_FLEXSPI1_PRG_CMD IMXRT_FLEXSPI1_PRG_RUN])) n" .
next
  assume "\<exists>n. done_within P
         (replay P (dev T)
            (configure_ops P (dev T) command address len @
             [Wr32 IMXRT_FLEXSPI1_PRG_CMD IMXRT_FLEXSPI1_PRG_RUN])) n"
  then obtain k where "done_within P
         (replay P (dev T)
            (configure_ops P (dev T) command address len @
             [Wr32 IMXRT_FLEXSPI1_PRG_CMD IMXRT_FLEXSPI1_PRG_RUN])) k"
    by blast
  from spi_read_total [OF this]
  show "\<exists>r. imxrt_spi_read P T command address len = Some r" by blast
next
  assume dw: "done_within P
         (replay P (dev T)
            (configure_ops P (dev T) command address len @
             [Wr32 IMXRT_FLEXSPI1_PRG_CMD IMXRT_FLEXSPI1_PRG_RUN])) n"
  from spi_read_total [OF dw] obtain vs where vs: "polled vs" "length vs \<le> n"
    and rd: "imxrt_spi_read P T command address len =
             Some (if 128 < len then Inl Buffer_overrun
                   else Inr (take len (read_data P (dev T) command address len vs),
                             ran_ops P (saved_lut P T) (read_ops P (dev T) command address len vs)))"
    by blast
  define r where "r = (if 128 < len then Inl Buffer_overrun
                   else Inr (take len (read_data P (dev T) command address len vs),
                             ran_ops P (saved_lut P T) (read_ops P (dev T) command address len vs)))"
  have "let data = read_data P (dev T) command address len vs in
              if 128 < len then r = Inl Buffer_overrun
              else r = Inr (take len data,
                            ran_ops P (saved_lut P T)
                              (configure_ops P (dev T) command address len @
                               run_ops vs @
                               [RdBlk IMXRT_FLEXSPI1_PRG_READ_FIFO data,
                                Wr32 IMXRT_FLEXSPI1_INT IMXRT_FLEXSPI1_INT_READ_FIFO_FULL,
                                WrBlk IMXRT_FLEXSPI1_LUT_BASE (peek_lut P (dev T))])) \<and>
                   length data = 128 \<and> length (take len data) = len \<and>
                   last (configure_ops P (dev T) command address len) =
                     Wr32 IMXRT_FLEXSPI1_PRG_CTRL1
                       (IMXRT_FLEXSPI1_PRG_LUT_INDEX_0 OR IMXRT_FLEXSPI1_PRG_LENGTH (of_nat len))"
    by (simp add: r_def Let_def read_ops_def length_read_data last_configure_ops)
  moreover from rd have "imxrt_spi_read P T command address len = Some r" by (simp add: r_def)
  ultimately show "\<exists>r vs. imxrt_spi_read P T command address len = Some r \<and>
           polled vs \<and> length vs \<le> n \<and>
           (let data = read_data P (dev T) command address len vs in
              if 128 < len then r = Inl Buffer_overrun
              else r = Inr (take len data,
                            ran_ops P (saved_lut P T)
                              (configure_ops P (dev T) command address len @
                               run_ops vs @
                               [RdBlk IMXRT_FLEXSPI1_PRG_READ_FIFO data,
                                Wr32 IMXRT_FLEXSPI1_INT IMXRT_FLEXSPI1_INT_READ_FIFO_FULL,
                                WrBlk IMXRT_FLEXSPI1_LUT_BASE (peek_lut P (dev T))])) \<and>
                   length data = 128 \<and> length (take len data) = len \<and>
                   last (configure_ops P (dev T) command address len) =
                     Wr32 IMXRT_FLEXSPI1_PRG_CTRL1
                       (IMXRT_FLEXSPI1_PRG_LUT_INDEX_0 OR IMXRT_FLEXSPI1_PRG_LENGTH (of_nat len)))"
    using vs by blast
qed

lemma sim_replay_fifo: "sim_read_fifo (replay sim_platform d ops) = sim_read_fifo d"
  by (induction sim_platform d ops rule: replay.induct) (simp_all add: sim_defs Let_def)

lemma sim_read_data:
  "read_data sim_platform (sim_device boot_cfg [b] n) command address len vs = b # replicate 127 0"
  by (simp add: read_data_def peek_blk_def sim_platform_def sim_read_def sim_replay_fifo
      [unfolded sim_platform_def] imxrt_addr_defs)
     (simp add: sim_device_def)

lemma sim_configure_read_status:
  "configure_ops sim_platform (sim_device 0 [0x02] 2) SPI_FLASH_CMD_READ_STATUS 0 1 =
     [RdBlk IMXRT_FLEXSPI1_LUT_BASE
        [0xeb, 0x04, 0x18, 0x08, 0x06, 0x30, 0x04, 0x24, 0, 0, 0, 0, 0, 0, 0, 0],
      WrBlk IMXRT_FLEXSPI1_LUT_BASE
        [0x05, 0x04, 0x00, 0x30, 0x00, 0x24, 0, 0, 0, 0, 0, 0, 0, 0, 0, 0],
      Wr32 IMXRT_FLEXSPI1_PRG_CTRL1 1]"
  by (simp add: configure_ops_def Let_def peek_lut_def peek_blk_def sim_defs imxrt_command_defs
      imxrt_field_defs spec_program_def spec_instructions_def descriptor_of_def lut_insn_def
      bytes_of_lut_def bit_iff_odd_drop_bit)
     (simp add: numeral_eq_Suc)

lemma or_and_done: "(x OR 1) AND 1 = (1 :: u32)"
  by (rule bit_word_eqI) (auto simp add: bit_simps)

lemma sim_done_within:
  "sim_wait d = Suc k \<Longrightarrow> done_within sim_platform d (Suc k)"
proof (induction k arbitrary: d)
  case 0
  then show ?case
    by (simp add: sim_platform_def sim_read32_def Let_def IMXRT_FLEXSPI1_INT_PRG_CMD_DONE_def or_and_done)
next
  case (Suc k)
  obtain v d' where rd: "p_read32 sim_platform d IMXRT_FLEXSPI1_INT = (v, d')"
    by (cases "p_read32 sim_platform d IMXRT_FLEXSPI1_INT")
  then have "sim_wait d' = Suc k"
    using Suc.prems by (auto simp add: sim_platform_def sim_read32_def Let_def)
  from Suc.IH [OF this] have "done_within sim_platform d' (Suc k)" .
  moreover have "done_within sim_platform d (Suc (Suc k)) =
      (v AND IMXRT_FLEXSPI1_INT_PRG_CMD_DONE \<noteq> 0 \<or> done_within sim_platform d' (Suc k))"
    by (simp only: done_within.simps(2) [of _ d "Suc k"] rd prod.case)
  ultimately show ?case by blast
qed

lemma sim_done_after_trigger:
  "done_within sim_platform
     (replay sim_platform d (ops @ [Wr32 IMXRT_FLEXSPI1_PRG_CMD IMXRT_FLEXSPI1_PRG_RUN]))
     (Suc (sim_latency (replay sim_platform d ops)))"
  by (rule sim_done_within) (simp add: replay_append sim_platform_def sim_write32_def)

lemma sim_replay_latency: "sim_latency (replay sim_platform d ops) = sim_latency d"
  by (induction sim_platform d ops rule: replay.induct) (simp_all add: sim_defs Let_def)

theorem imxrt_spi_read_steps_witness:
  "done_within sim_platform
     (replay sim_platform (dev (sim_target (sim_device 0 [0x02] 2)))
        (configure_ops sim_platform (dev (sim_target (sim_device 0 [0x02] 2)))
           SPI_FLASH_CMD_READ_STATUS 0 1 @
         [Wr32 IMXRT_FLEXSPI1_PRG_CMD IMXRT_FLEXSPI1_PRG_RUN])) 3 \<and>
   (\<exists>r vs.
     imxrt_spi_read sim_platform (sim_target (sim_device 0 [0x02] 2)) SPI_FLASH_CMD_READ_STATUS 0 1 = Some r \<and>
     polled vs \<and> length vs \<le> 3 \<and>
     r = Inr ([0x02],
              ran_ops sim_platform (saved_lut sim_platform (sim_target (sim_device 0 [0x02] 2)))
                ([RdBlk IMXRT_FLEXSPI1_LUT_BASE
                    [0xeb, 0x04, 0x18, 0x08, 0x06, 0x30, 0x04, 0x24, 0, 0, 0, 0, 0, 0, 0, 0],
                  WrBlk IMXRT_FLEXSPI1_LUT_BASE
                    [0x05, 0x04, 0x00, 0x30, 0x00, 0x24, 0, 0, 0, 0, 0, 0, 0, 0, 0, 0],
                  Wr32 IMXRT_FLEXSPI1_PRG_CTRL1 1] @
                 run_ops vs @
                 [RdBlk IMXRT_FLEXSPI1_PRG_READ_FIFO (0x02 # replicate 127 0),
                  Wr32 IMXRT_FLEXSPI1_INT IMXRT_FLEXSPI1_INT_READ_FIFO_FULL,
                  WrBlk IMXRT_FLEXSPI1_LUT_BASE
                    [0xeb, 0x04, 0x18, 0x08, 0x06, 0x30, 0x04, 0x24, 0, 0, 0, 0, 0, 0, 0, 0]])))"
proof -
  let ?T = "sim_target (sim_device 0 [0x02] 2)"
  have dev: "dev ?T = sim_device 0 [0x02] 2" by (simp add: sim_target_def)
  have lat: "sim_latency (sim_device 0 [0x02] 2) = 2" by (simp add: sim_device_def)
  have lut: "peek_lut sim_platform (sim_device 0 [0x02] 2) =
      [0xeb, 0x04, 0x18, 0x08, 0x06, 0x30, 0x04, 0x24, 0, 0, 0, 0, 0, 0, 0, 0]"
    by (simp add: peek_lut_def peek_blk_def sim_defs)
  have dw: "done_within sim_platform
     (replay sim_platform (dev ?T)
        (configure_ops sim_platform (dev ?T) SPI_FLASH_CMD_READ_STATUS 0 1 @
         [Wr32 IMXRT_FLEXSPI1_PRG_CMD IMXRT_FLEXSPI1_PRG_RUN])) 3"
    using sim_done_after_trigger [of "dev ?T" "configure_ops sim_platform (dev ?T) SPI_FLASH_CMD_READ_STATUS 0 1"]
    by (simp add: sim_replay_latency dev lat)
  from imxrt_spi_read_steps [THEN conjunct2, THEN mp, OF dw] obtain r vs where
    r: "imxrt_spi_read sim_platform ?T SPI_FLASH_CMD_READ_STATUS 0 1 = Some r"
    and vs: "polled vs" "length vs \<le> 3"
    and "r = Inr (take 1 (read_data sim_platform (dev ?T) SPI_FLASH_CMD_READ_STATUS 0 1 vs),
                          ran_ops sim_platform (saved_lut sim_platform ?T)
                            (configure_ops sim_platform (dev ?T) SPI_FLASH_CMD_READ_STATUS 0 1 @
                             run_ops vs @
                             [RdBlk IMXRT_FLEXSPI1_PRG_READ_FIFO (read_data sim_platform (dev ?T) SPI_FLASH_CMD_READ_STATUS 0 1 vs),
                              Wr32 IMXRT_FLEXSPI1_INT IMXRT_FLEXSPI1_INT_READ_FIFO_FULL,
                              WrBlk IMXRT_FLEXSPI1_LUT_BASE (peek_lut sim_platform (dev ?T))]))"
    by (auto simp add: Let_def)
  then have "r = Inr ([0x02],
              ran_ops sim_platform (saved_lut sim_platform ?T)
                ([RdBlk IMXRT_FLEXSPI1_LUT_BASE
                    [0xeb, 0x04, 0x18, 0x08, 0x06, 0x30, 0x04, 0x24, 0, 0, 0, 0, 0, 0, 0, 0],
                  WrBlk IMXRT_FLEXSPI1_LUT_BASE
                    [0x05, 0x04, 0x00, 0x30, 0x00, 0x24, 0, 0, 0, 0, 0, 0, 0, 0, 0, 0],
                  Wr32 IMXRT_FLEXSPI1_PRG_CTRL1 1] @
                 run_ops vs @
                 [RdBlk IMXRT_FLEXSPI1_PRG_READ_FIFO (0x02 # replicate 127 0),
                  Wr32 IMXRT_FLEXSPI1_INT IMXRT_FLEXSPI1_INT_READ_FIFO_FULL,
                  WrBlk IMXRT_FLEXSPI1_LUT_BASE
                    [0xeb, 0x04, 0x18, 0x08, 0x06, 0x30, 0x04, 0x24, 0, 0, 0, 0, 0, 0, 0, 0]]))"
    unfolding dev sim_read_data sim_configure_read_status lut by simp
  with r vs dw show ?thesis by blast
qed

section \<open>Guarded mode\<close>

lemma plain_register_step:
  assumes "plain_register P a"
  shows "peek32 P (p_write32 P d b v) a = (if b = a then v else peek32 P d a)"
    and "peek32 P (snd (p_read32 P d b)) a = peek32 P d a"
    and "peek32 P (snd (p_read P d b n)) a = peek32 P d a"
    and "peek32 P (p_write P d b bs) a = peek32 P d a"
  using assms by (simp_all add: plain_register_def)

lemma plain_register_replay:
  assumes "plain_register P a"
  shows "peek32 P (replay P d ops) a = (case last_write32 a ops of None \<Rightarrow> peek32 P d a | Some v \<Rightarrow> v)"
proof (induction ops arbitrary: d)
  case Nil
  show ?case by simp
next
  case (Cons op ops)
  show ?case
    by (cases op) (simp_all add: Cons.IH plain_register_step [OF assms] split: option.splits)
qed

lemma last_write32_append:
  "last_write32 a (xs @ ys) =
     (case last_write32 a ys of Some v \<Rightarrow> Some v | None \<Rightarrow> last_write32 a xs)"
  by (induction xs) (simp_all split: option.splits)

lemma enter_flash_mode_eq: "imxrt_enter_flash_mode P T = (True, entered P T)"
  by (simp add: imxrt_enter_flash_mode_def entered_def enter_ops_def enter_lut_state_def
      enter_prefix_ops_def Let_def target_mem_read32_eq target_mem_write32_eq ran_ops_fields
      ran_ops_storage ran_ops_ran_ops)

lemma exit_flash_mode_eq:
  "imxrt_exit_flash_mode P T = (True, ran_ops P T (exit_ops (target_storage T)))"
  by (simp add: imxrt_exit_flash_mode_def exit_ops_def Let_def target_mem_write32_eq ran_ops_ran_ops)

lemma entered_fields:
  "flexspi_module_state (target_storage (entered P T)) = peek32 P (dev T) IMXRT_FLEXSPI1_MOD_CTRL0"
  "flexspi_lut_state (target_storage (entered P T)) = enter_lut_state P (dev T)"
  "flexspi_lut_seq (target_storage (entered P T)) = flexspi_lut_seq (target_storage T)"
  "dev (entered P T) = replay P (dev T) (enter_ops P (dev T))"
  "bus_log (entered P T) = bus_log T @ enter_ops P (dev T)"
  "flash (entered P T) = flash T"
  "ram (entered P T) = ram T"
  "host_heap (entered P T) = host_heap T"
  by (simp_all add: entered_def ran_ops_def)

lemma enter_lut_state_plain:
  assumes "plain_register P IMXRT_FLEXSPI1_LUT_CTRL"
  shows "enter_lut_state P d = peek32 P d IMXRT_FLEXSPI1_LUT_CTRL"
  unfolding enter_lut_state_def plain_register_replay [OF assms]
  by (simp add: enter_prefix_ops_def Let_def imxrt_addr_defs)


lemma last_write32_exit_ops:
  "last_write32 IMXRT_FLEXSPI1_MOD_CTRL0 (exit_ops priv) = Some (flexspi_module_state priv)"
  "last_write32 IMXRT_FLEXSPI1_LUT_CTRL (exit_ops priv) =
     (if flexspi_lut_state priv \<noteq> IMXRT_FLEXSPI1_LUT_CTRL_UNLOCK then Some (flexspi_lut_state priv) else None)"
  by (simp_all add: exit_ops_def imxrt_addr_defs)

lemma last_write32_enter_ops:
  "enter_lut_state P d = IMXRT_FLEXSPI1_LUT_CTRL_UNLOCK \<Longrightarrow>
     last_write32 IMXRT_FLEXSPI1_LUT_CTRL (enter_ops P d) = None"
  by (simp add: enter_ops_def enter_prefix_ops_def Let_def imxrt_addr_defs last_write32_append)

lemma guard_restores:
  assumes m: "plain_register P IMXRT_FLEXSPI1_MOD_CTRL0"
    and l: "plain_register P IMXRT_FLEXSPI1_LUT_CTRL"
    and priv: "flexspi_module_state priv = peek32 P d IMXRT_FLEXSPI1_MOD_CTRL0"
      "flexspi_lut_state priv = peek32 P d IMXRT_FLEXSPI1_LUT_CTRL"
    and mid: "last_write32 IMXRT_FLEXSPI1_LUT_CTRL ops = None \<or>
              peek32 P d IMXRT_FLEXSPI1_LUT_CTRL \<noteq> IMXRT_FLEXSPI1_LUT_CTRL_UNLOCK"
  shows "peek32 P (replay P d (ops @ exit_ops priv)) IMXRT_FLEXSPI1_MOD_CTRL0 =
           peek32 P d IMXRT_FLEXSPI1_MOD_CTRL0"
    and "peek32 P (replay P d (ops @ exit_ops priv)) IMXRT_FLEXSPI1_LUT_CTRL =
           peek32 P d IMXRT_FLEXSPI1_LUT_CTRL"
  using mid
  by (auto simp add: plain_register_replay [OF m] plain_register_replay [OF l] last_write32_append
      last_write32_exit_ops priv)

text \<open>
  Claim C3. Entering guarded mode and leaving it right away, on hardware where module
  control 0 and LUT control are plain registers (nobody else changes them), leaves both
  registers with the values they had before: leaving writes the unlock key and the
  captured lock value exactly when that value was not "unlocked", then writes the
  captured module control value back as it was read (suspend bit included). Entering
  and leaving both return true.
\<close>

theorem imxrt_flash_mode_round_trip:
  assumes "plain_register P IMXRT_FLEXSPI1_MOD_CTRL0"
    and "plain_register P IMXRT_FLEXSPI1_LUT_CTRL"
    and "imxrt_enter_flash_mode P T = (ok_enter, T1)"
    and "imxrt_exit_flash_mode P T1 = (ok_exit, T2)"
  shows "ok_enter \<and> ok_exit \<and>
         peek32 P (dev T2) IMXRT_FLEXSPI1_MOD_CTRL0 = peek32 P (dev T) IMXRT_FLEXSPI1_MOD_CTRL0 \<and>
         peek32 P (dev T2) IMXRT_FLEXSPI1_LUT_CTRL = peek32 P (dev T) IMXRT_FLEXSPI1_LUT_CTRL \<and>
         bus_log T2 = bus_log T1 @ issued T1 T2 \<and>
         issued T1 T2 =
           (if peek32 P (dev T) IMXRT_FLEXSPI1_LUT_CTRL \<noteq> IMXRT_FLEXSPI1_LUT_CTRL_UNLOCK
            then [Wr32 IMXRT_FLEXSPI1_LUT_KEY IMXRT_FLEXSPI1_LUT_KEY_VALUE,
                  Wr32 IMXRT_FLEXSPI1_LUT_CTRL (peek32 P (dev T) IMXRT_FLEXSPI1_LUT_CTRL)]
            else []) @
           [Wr32 IMXRT_FLEXSPI1_MOD_CTRL0 (peek32 P (dev T) IMXRT_FLEXSPI1_MOD_CTRL0)]"
proof -
  from assms(3) have T1: "T1 = entered P T" and ok1: ok_enter
    by (simp_all add: enter_flash_mode_eq)
  from assms(4) have T2: "T2 = ran_ops P T1 (exit_ops (target_storage T1))" and ok2: ok_exit
    by (simp_all add: exit_flash_mode_eq)
  let ?priv = "target_storage (entered P T)"
  have ls: "enter_lut_state P (dev T) = peek32 P (dev T) IMXRT_FLEXSPI1_LUT_CTRL"
    by (rule enter_lut_state_plain [OF assms(2)])
  have priv: "flexspi_module_state ?priv = peek32 P (dev T) IMXRT_FLEXSPI1_MOD_CTRL0"
    "flexspi_lut_state ?priv = peek32 P (dev T) IMXRT_FLEXSPI1_LUT_CTRL"
    by (simp_all add: entered_fields ls)
  have mid: "last_write32 IMXRT_FLEXSPI1_LUT_CTRL (enter_ops P (dev T)) = None \<or>
              peek32 P (dev T) IMXRT_FLEXSPI1_LUT_CTRL \<noteq> IMXRT_FLEXSPI1_LUT_CTRL_UNLOCK"
    using last_write32_enter_ops [of P "dev T"] ls by auto
  have dev2: "dev T2 = replay P (dev T) (enter_ops P (dev T) @ exit_ops ?priv)"
    by (simp add: T2 T1 ran_ops_fields entered_fields replay_append)
  have "issued T1 T2 = exit_ops ?priv"
    by (simp add: T2 T1 issued_ran_ops')
  moreover have "bus_log T2 = bus_log T1 @ exit_ops ?priv"
    by (simp add: T2 T1 ran_ops_fields)
  ultimately show ?thesis
    using ok1 ok2 guard_restores [OF assms(1) assms(2) priv mid]
    by (simp add: dev2 exit_ops_def priv)
qed

lemma sim_plain_register:
  "a \<noteq> IMXRT_FLEXSPI1_INT \<Longrightarrow> plain_register sim_platform a"
  by (auto simp add: plain_register_def peek32_def sim_defs Let_def)

theorem imxrt_flash_mode_round_trip_witness:
  "\<exists>ok_enter T1 ok_exit T2.
     imxrt_enter_flash_mode sim_platform (sim_target (sim_device 0 [] 0)) = (ok_enter, T1) \<and>
     imxrt_exit_flash_mode sim_platform T1 = (ok_exit, T2) \<and>
     plain_register sim_platform IMXRT_FLEXSPI1_MOD_CTRL0 \<and>
     plain_register sim_platform IMXRT_FLEXSPI1_LUT_CTRL \<and>
     ok_enter \<and> ok_exit \<and>
     peek32 sim_platform (dev T2) IMXRT_FLEXSPI1_MOD_CTRL0 = 0xffff0002 \<and>
     peek32 sim_platform (dev T2) IMXRT_FLEXSPI1_LUT_CTRL = IMXRT_FLEXSPI1_LUT_CTRL_LOCK \<and>
     issued T1 T2 =
       [Wr32 IMXRT_FLEXSPI1_LUT_KEY IMXRT_FLEXSPI1_LUT_KEY_VALUE,
        Wr32 IMXRT_FLEXSPI1_LUT_CTRL IMXRT_FLEXSPI1_LUT_CTRL_LOCK,
        Wr32 IMXRT_FLEXSPI1_MOD_CTRL0 0xffff0002]"
proof -
  let ?T = "sim_target (sim_device 0 [] 0)"
  obtain ok_enter T1 where e: "imxrt_enter_flash_mode sim_platform ?T = (ok_enter, T1)"
    by (cases "imxrt_enter_flash_mode sim_platform ?T")
  obtain ok_exit T2 where x: "imxrt_exit_flash_mode sim_platform T1 = (ok_exit, T2)"
    by (cases "imxrt_exit_flash_mode sim_platform T1")
  have m: "plain_register sim_platform IMXRT_FLEXSPI1_MOD_CTRL0"
    by (rule sim_plain_register) (simp add: imxrt_addr_defs)
  have l: "plain_register sim_platform IMXRT_FLEXSPI1_LUT_CTRL"
    by (rule sim_plain_register) (simp add: imxrt_addr_defs)
  have v: "peek32 sim_platform (dev ?T) IMXRT_FLEXSPI1_MOD_CTRL0 = 0xffff0002"
    "peek32 sim_platform (dev ?T) IMXRT_FLEXSPI1_LUT_CTRL = IMXRT_FLEXSPI1_LUT_CTRL_LOCK"
    by (simp_all add: peek32_def sim_defs imxrt_addr_defs imxrt_field_defs)
  from imxrt_flash_mode_round_trip [OF m l e x]
  have "ok_enter" "ok_exit"
    "peek32 sim_platform (dev T2) IMXRT_FLEXSPI1_MOD_CTRL0 = 0xffff0002"
    "peek32 sim_platform (dev T2) IMXRT_FLEXSPI1_LUT_CTRL = IMXRT_FLEXSPI1_LUT_CTRL_LOCK"
    "issued T1 T2 =
       [Wr32 IMXRT_FLEXSPI1_LUT_KEY IMXRT_FLEXSPI1_LUT_KEY_VALUE,
        Wr32 IMXRT_FLEXSPI1_LUT_CTRL IMXRT_FLEXSPI1_LUT_CTRL_LOCK,
        Wr32 IMXRT_FLEXSPI1_MOD_CTRL0 0xffff0002]"
    unfolding v by (simp_all add: imxrt_field_defs)
  with e x m l show ?thesis by blast
qed

section \<open>Mass erase\<close>

lemma last_write32_polls: "last_write32 a (map (Rd32 b) vs) = None"
  by (induction vs) simp_all

lemma last_write32_run_ops:
  "a \<noteq> IMXRT_FLEXSPI1_PRG_CMD \<Longrightarrow> a \<noteq> IMXRT_FLEXSPI1_INT \<Longrightarrow> last_write32 a (run_ops vs) = None"
  by (simp add: run_ops_def last_write32_append last_write32_polls)

lemma last_write32_configure_ops:
  "a \<noteq> IMXRT_FLEXSPI1_PRG_CTRL0 \<Longrightarrow> a \<noteq> IMXRT_FLEXSPI1_PRG_CTRL1 \<Longrightarrow>
     last_write32 a (configure_ops P d command address len) = None"
  by (simp add: configure_ops_def Let_def last_write32_append)

lemma last_write32_read_ops:
  "a \<noteq> IMXRT_FLEXSPI1_PRG_CTRL0 \<Longrightarrow> a \<noteq> IMXRT_FLEXSPI1_PRG_CTRL1 \<Longrightarrow>
   a \<noteq> IMXRT_FLEXSPI1_PRG_CMD \<Longrightarrow> a \<noteq> IMXRT_FLEXSPI1_INT \<Longrightarrow>
     last_write32 a (read_ops P d command address len vs) = None"
  by (simp add: read_ops_def last_write32_append last_write32_configure_ops last_write32_run_ops)

lemma last_write32_write_ops:
  "a \<noteq> IMXRT_FLEXSPI1_PRG_CTRL0 \<Longrightarrow> a \<noteq> IMXRT_FLEXSPI1_PRG_CTRL1 \<Longrightarrow>
   a \<noteq> IMXRT_FLEXSPI1_PRG_CMD \<Longrightarrow> a \<noteq> IMXRT_FLEXSPI1_INT \<Longrightarrow>
     last_write32 a (write_ops P d command address buffer len vs) = None"
  by (simp add: write_ops_def last_write32_append last_write32_configure_ops last_write32_run_ops)

lemma read_status_eq:
  assumes "imxrt_spi_read_status P T = Some r"
  shows "\<exists>vs. polled vs \<and>
           r = Inr (hd (read_data P (dev T) SPI_FLASH_CMD_READ_STATUS 0 1 vs),
                    ran_ops P (saved_lut P T) (read_ops P (dev T) SPI_FLASH_CMD_READ_STATUS 0 1 vs))"
proof -
  from assms obtain r0 where r0: "imxrt_spi_read P T SPI_FLASH_CMD_READ_STATUS 0 1 = Some r0"
    by (auto simp add: imxrt_spi_read_status_def bind_r_def split: option.splits)
  from spi_read_eq [OF r0] obtain vs where vs: "polled vs"
    and r0_eq: "r0 = Inr (take 1 (read_data P (dev T) SPI_FLASH_CMD_READ_STATUS 0 1 vs),
                          ran_ops P (saved_lut P T) (read_ops P (dev T) SPI_FLASH_CMD_READ_STATUS 0 1 vs))"
    by auto
  obtain b bs where data: "read_data P (dev T) SPI_FLASH_CMD_READ_STATUS 0 1 vs = b # bs"
    using length_read_data [of P "dev T" SPI_FLASH_CMD_READ_STATUS 0 1 vs]
    by (cases "read_data P (dev T) SPI_FLASH_CMD_READ_STATUS 0 1 vs") auto
  from assms have "r = Inr (hd (read_data P (dev T) SPI_FLASH_CMD_READ_STATUS 0 1 vs),
                    ran_ops P (saved_lut P T) (read_ops P (dev T) SPI_FLASH_CMD_READ_STATUS 0 1 vs))"
    unfolding imxrt_spi_read_status_def bind_r_def r0 r0_eq data
    by auto
  with vs show ?thesis by blast
qed

lemma run_command_eq:
  assumes "imxrt_spi_run_command P T command = Some r"
  shows "\<exists>vs. polled vs \<and>
           r = Inr (ran_ops P (saved_lut P T) (write_ops P (dev T) command 0 [] 0 vs))"
  using spi_write_eq [of P T command 0 "[]" 0 r] assms
  by (simp add: imxrt_spi_run_command_def)

lemma erase_poll_no_fault:
  assumes "imxrt_spi_erase_poll P T = Some r"
  shows "\<exists>T'. r = Inr T'"
proof -
  let ?Q = "\<lambda>(P :: 'a platform, T :: 'a target_s) r. \<exists>T' :: 'a target_s. r = Inr T'"
  have "?Q (P, T) r"
  proof (rule imxrt_spi_erase_poll.raw_induct [OF _ assms])
    fix f and P :: "'a platform" and T :: "'a target_s" and r
    assume IH: "\<And>P T r. f P T = Some r \<Longrightarrow> ?Q (P, T) r"
      and eq: "(case imxrt_spi_read_status P T of None \<Rightarrow> None
                | Some (Inl f) \<Rightarrow> Some (Inl f)
                | Some (Inr (status, T1)) \<Rightarrow>
                    if status AND SPI_FLASH_STATUS_BUSY \<noteq> 0 then f P T1 else Some (Inr T1)) = Some r"
    from eq obtain s where s: "imxrt_spi_read_status P T = Some s"
      by (auto split: option.splits)
    from read_status_eq [OF s] obtain status T1 where s_eq: "s = Inr (status, T1)" by blast
    show "?Q (P, T) r"
    proof (cases "status AND SPI_FLASH_STATUS_BUSY \<noteq> 0")
      case True
      with eq s s_eq have "f P T1 = Some r" by simp
      from IH [OF this] show ?thesis by simp
    next
      case False
      with eq s s_eq show ?thesis by auto
    qed
  qed
  then show ?thesis by simp
qed


lemma mass_erase_unfold:
  assumes "imxrt_spi_run_command P (snd (imxrt_enter_flash_mode P T)) SPI_FLASH_CMD_WRITE_ENABLE = Some (Inr T2)"
    and "imxrt_spi_read_status P T2 = Some (Inr (status, T3))"
  shows "imxrt_spi_mass_erase P T =
           (if status AND SPI_FLASH_STATUS_WRITE_ENABLED = 0
            then Some (Inr (False, snd (imxrt_exit_flash_mode P T3)))
            else bind_r (imxrt_spi_run_command P T3 SPI_FLASH_CMD_CHIP_ERASE)
                   (\<lambda>T5. bind_r (imxrt_spi_erase_poll P T5)
                            (\<lambda>T6. Some (Inr (imxrt_exit_flash_mode P T6)))))"
  using assms
  by (simp add: imxrt_spi_mass_erase_def enter_flash_mode_eq exit_flash_mode_eq bind_r_def)

lemma mass_erase_steps:
  assumes "imxrt_spi_mass_erase P T = Some r"
  shows "\<exists>T2 status T3.
           imxrt_spi_run_command P (snd (imxrt_enter_flash_mode P T)) SPI_FLASH_CMD_WRITE_ENABLE = Some (Inr T2) \<and>
           imxrt_spi_read_status P T2 = Some (Inr (status, T3)) \<and>
           (if status AND SPI_FLASH_STATUS_WRITE_ENABLED = 0
            then r = Inr (False, snd (imxrt_exit_flash_mode P T3))
            else \<exists>T5 T6. imxrt_spi_run_command P T3 SPI_FLASH_CMD_CHIP_ERASE = Some (Inr T5) \<and>
                          imxrt_spi_erase_poll P T5 = Some (Inr T6) \<and>
                          r = Inr (True, snd (imxrt_exit_flash_mode P T6)))"
proof -
  let ?T1 = "snd (imxrt_enter_flash_mode P T)"
  have T1: "imxrt_enter_flash_mode P T = (True, entered P T)" and T1': "?T1 = entered P T"
    by (simp_all add: enter_flash_mode_eq)
  from assms obtain w where w: "imxrt_spi_run_command P ?T1 SPI_FLASH_CMD_WRITE_ENABLE = Some w"
    unfolding imxrt_spi_mass_erase_def T1 T1' prod.case bind_r_def
    by (auto split: option.splits)
  from run_command_eq [OF w] obtain T2 where w_eq: "w = Inr T2" by blast
  from assms obtain s where s: "imxrt_spi_read_status P T2 = Some s"
    unfolding imxrt_spi_mass_erase_def T1 prod.case bind_r_def w [unfolded T1' w_eq]
    by (auto split: option.splits)
  from read_status_eq [OF s] obtain status T3 where s_eq: "s = Inr (status, T3)" by blast
  note unfold = mass_erase_unfold [OF w [unfolded w_eq] s [unfolded s_eq]]
  show ?thesis
  proof (cases "status AND SPI_FLASH_STATUS_WRITE_ENABLED = 0")
    case True
    with assms unfold have "r = Inr (False, snd (imxrt_exit_flash_mode P T3))" by simp
    with True w w_eq s s_eq show ?thesis by auto
  next
    case False
    with assms unfold have r: "bind_r (imxrt_spi_run_command P T3 SPI_FLASH_CMD_CHIP_ERASE)
                   (\<lambda>T5. bind_r (imxrt_spi_erase_poll P T5)
                            (\<lambda>T6. Some (Inr (imxrt_exit_flash_mode P T6)))) = Some r" by simp
    then obtain c where c: "imxrt_spi_run_command P T3 SPI_FLASH_CMD_CHIP_ERASE = Some c"
      by (auto simp add: bind_r_def split: option.splits)
    from run_command_eq [OF c] obtain T5 where c_eq: "c = Inr T5" by blast
    from r obtain e where e: "imxrt_spi_erase_poll P T5 = Some e"
      by (auto simp add: bind_r_def c c_eq split: option.splits)
    from erase_poll_no_fault [OF e] obtain T6 where e_eq: "e = Inr T6" by blast
    from r have "r = Inr (True, snd (imxrt_exit_flash_mode P T6))"
      by (simp add: bind_r_def c c_eq e e_eq exit_flash_mode_eq)
    with False w w_eq s s_eq c c_eq e e_eq show ?thesis by auto
  qed
qed

text \<open>
  Claim C10. A mass erase that returns (every poll came to an end) returns no fault, and
  returns true exactly when the status byte read after Write Enable has bit 1 set. On
  that path the chip erase was issued, the busy poll returned, and the result is what
  leaving guarded mode returned, which is always true: the busy poll cannot make the
  erase fail.
\<close>

theorem imxrt_spi_mass_erase_result:
  assumes "imxrt_spi_mass_erase P T = Some r"
  shows "\<exists>ok T' T2 status T3.
           r = Inr (ok, T') \<and>
           imxrt_spi_run_command P (snd (imxrt_enter_flash_mode P T)) SPI_FLASH_CMD_WRITE_ENABLE = Some (Inr T2) \<and>
           imxrt_spi_read_status P T2 = Some (Inr (status, T3)) \<and>
           (ok \<longleftrightarrow> status AND SPI_FLASH_STATUS_WRITE_ENABLED \<noteq> 0) \<and>
           (ok \<longrightarrow> (\<exists>T5 T6. imxrt_spi_run_command P T3 SPI_FLASH_CMD_CHIP_ERASE = Some (Inr T5) \<and>
                            imxrt_spi_erase_poll P T5 = Some (Inr T6) \<and>
                            (ok, T') = imxrt_exit_flash_mode P T6))"
proof -
  from mass_erase_steps [OF assms] obtain T2 status T3 where
    w: "imxrt_spi_run_command P (snd (imxrt_enter_flash_mode P T)) SPI_FLASH_CMD_WRITE_ENABLE = Some (Inr T2)"
    and s: "imxrt_spi_read_status P T2 = Some (Inr (status, T3))"
    and r: "if status AND SPI_FLASH_STATUS_WRITE_ENABLED = 0
            then r = Inr (False, snd (imxrt_exit_flash_mode P T3))
            else \<exists>T5 T6. imxrt_spi_run_command P T3 SPI_FLASH_CMD_CHIP_ERASE = Some (Inr T5) \<and>
                          imxrt_spi_erase_poll P T5 = Some (Inr T6) \<and>
                          r = Inr (True, snd (imxrt_exit_flash_mode P T6))"
    by blast
  show ?thesis
  proof (cases "status AND SPI_FLASH_STATUS_WRITE_ENABLED = 0")
    case True
    with r w s show ?thesis by auto
  next
    case False
    with r obtain T5 T6 where "imxrt_spi_run_command P T3 SPI_FLASH_CMD_CHIP_ERASE = Some (Inr T5)"
      "imxrt_spi_erase_poll P T5 = Some (Inr T6)" "r = Inr (True, snd (imxrt_exit_flash_mode P T6))"
      by auto
    moreover have "(True, snd (imxrt_exit_flash_mode P T6)) = imxrt_exit_flash_mode P T6"
      by (simp add: exit_flash_mode_eq)
    ultimately show ?thesis using False w s by blast
  qed
qed

subsection \<open>The simulated controller answers every call\<close>

lemma sim_wait_done_returns:
  "sim_wait (dev T) = Suc k \<Longrightarrow> \<exists>T'. imxrt_spi_wait_done sim_platform T = Some T'"
proof (induction k arbitrary: T)
  case 0
  then show ?case
    by (subst imxrt_spi_wait_done.simps)
       (simp add: target_mem_read32_def sim_platform_def sim_read32_def Let_def
          IMXRT_FLEXSPI1_INT_PRG_CMD_DONE_def or_and_done)
next
  case (Suc k)
  let ?v = "sim_regs (dev T) IMXRT_FLEXSPI1_INT"
  let ?T1 = "T\<lparr>dev := (dev T)\<lparr>sim_regs := sim_regs (dev T), sim_wait := Suc k\<rparr>,
                 bus_log := bus_log T @ [Rd32 IMXRT_FLEXSPI1_INT ?v]\<rparr>"
  have rd: "target_mem_read32 sim_platform T IMXRT_FLEXSPI1_INT = (?v, ?T1)"
    using Suc.prems
    by (simp add: target_mem_read32_def sim_platform_def sim_read32_def Let_def)
  have "sim_wait (dev ?T1) = Suc k" by simp
  from Suc.IH [OF this] obtain T' where "imxrt_spi_wait_done sim_platform ?T1 = Some T'" by blast
  then show ?case
    by (subst imxrt_spi_wait_done.simps) (simp add: rd)
qed


lemma sim_wait_complete_returns: "\<exists>T'. imxrt_spi_wait_complete sim_platform T = Some T'"
proof -
  let ?T0 = "target_mem_write32 sim_platform T IMXRT_FLEXSPI1_PRG_CMD IMXRT_FLEXSPI1_PRG_RUN"
  have "sim_wait (dev ?T0) = Suc (sim_latency (dev T))"
    by (simp add: target_mem_write32_def sim_platform_def sim_write32_def)
  from sim_wait_done_returns [OF this] show ?thesis
    by (auto simp add: imxrt_spi_wait_complete_def)
qed

lemma sim_read_returns: "\<exists>r. imxrt_spi_read sim_platform T command address len = Some r"
proof -
  obtain T2 where "imxrt_spi_wait_complete sim_platform
      (ran_ops sim_platform (saved_lut sim_platform T)
         (configure_ops sim_platform (dev T) command address len)) = Some T2"
    using sim_wait_complete_returns by blast
  then show ?thesis
    by (simp add: imxrt_spi_read_def configure_sequence_eq split: prod.splits)
qed

lemma sim_write_returns: "\<exists>r. imxrt_spi_write sim_platform T command address buffer len = Some r"
proof (cases "len \<noteq> 0 \<and> (128 < len \<or> length buffer < len)")
  case True
  then show ?thesis by (auto simp add: imxrt_spi_write_def configure_sequence_eq)
next
  case False
  let ?T1 = "ran_ops sim_platform (saved_lut sim_platform T)
         (configure_ops sim_platform (dev T) command address len)"
  let ?T3 = "if len \<noteq> 0
      then target_mem_write32 sim_platform
             (target_mem_write sim_platform ?T1 IMXRT_FLEXSPI1_PRG_WRITE_FIFO
                (take (push_bit 2 (drop_bit 2 (len + 3))) (take len buffer @ replicate (128 - len) 0)))
             IMXRT_FLEXSPI1_INT IMXRT_FLEXSPI1_INT_WRITE_FIFO_EMPTY
      else ?T1"
  obtain T4 where "imxrt_spi_wait_complete sim_platform ?T3 = Some T4"
    using sim_wait_complete_returns by blast
  with False show ?thesis
    by (auto simp add: imxrt_spi_write_def configure_sequence_eq Let_def)
qed

lemma sim_read_data_fifo:
  "read_data sim_platform d command address len vs = take 128 (sim_read_fifo d @ replicate 128 0)"
  by (simp add: read_data_def peek_blk_def sim_platform_def sim_read_def sim_replay_fifo
      [unfolded sim_platform_def] imxrt_addr_defs)

lemma sim_fifo_entered: "sim_read_fifo (dev (entered sim_platform T)) = sim_read_fifo (dev T)"
  by (simp add: entered_fields sim_replay_fifo)

lemma sim_fifo_ran_ops:
  "sim_read_fifo (dev (ran_ops sim_platform (saved_lut sim_platform T) ops)) = sim_read_fifo (dev T)"
  by (simp add: ran_ops_fields saved_lut_fields sim_replay_fifo)

lemma sim_fifo_run_command:
  assumes "imxrt_spi_run_command sim_platform T command = Some (Inr T')"
  shows "sim_read_fifo (dev T') = sim_read_fifo (dev T)"
  using run_command_eq [OF assms] by (auto simp add: sim_fifo_ran_ops)

lemma sim_read_status:
  assumes "imxrt_spi_read_status sim_platform T = Some (Inr (status, T'))"
  shows "status = hd (take 128 (sim_read_fifo (dev T) @ replicate 128 0))"
    and "sim_read_fifo (dev T') = sim_read_fifo (dev T)"
  using read_status_eq [OF assms] by (auto simp add: sim_fifo_ran_ops sim_read_data_fifo)

lemma sim_run_command_returns:
  "\<exists>T'. imxrt_spi_run_command sim_platform T command = Some (Inr T')"
proof -
  obtain r where r: "imxrt_spi_run_command sim_platform T command = Some r"
    using sim_write_returns [of T command 0 "[]" 0] by (auto simp add: imxrt_spi_run_command_def)
  from run_command_eq [OF r] r show ?thesis by auto
qed

lemma sim_read_status_returns':
  "\<exists>status T'. imxrt_spi_read_status sim_platform T = Some (Inr (status, T'))"
proof -
  obtain r0 where r0: "imxrt_spi_read sim_platform T SPI_FLASH_CMD_READ_STATUS 0 1 = Some r0"
    using sim_read_returns by blast
  from spi_read_eq [OF r0] obtain b T' where "r0 = Inr (b, T')" by auto
  with r0 show ?thesis
    by (simp add: imxrt_spi_read_status_def bind_r_def)
qed

lemma sim_erase_poll_returns:
  assumes "hd (take 128 (sim_read_fifo (dev T) @ replicate 128 0)) AND SPI_FLASH_STATUS_BUSY = 0"
  shows "\<exists>T'. imxrt_spi_erase_poll sim_platform T = Some (Inr T')"
proof -
  obtain status T1 where s: "imxrt_spi_read_status sim_platform T = Some (Inr (status, T1))"
    using sim_read_status_returns' by blast
  from sim_read_status(1) [OF s] assms have "status AND SPI_FLASH_STATUS_BUSY = 0" by simp
  with s show ?thesis
    by (subst imxrt_spi_erase_poll.simps) simp
qed

lemma sim_mass_erase_returns:
  assumes "hd (take 128 (sim_read_fifo (dev T) @ replicate 128 0)) AND SPI_FLASH_STATUS_BUSY = 0"
  shows "\<exists>r. imxrt_spi_mass_erase sim_platform T = Some r"
proof -
  let ?T1 = "snd (imxrt_enter_flash_mode sim_platform T)"
  have T1: "?T1 = entered sim_platform T" by (simp add: enter_flash_mode_eq)
  obtain T2 where w: "imxrt_spi_run_command sim_platform ?T1 SPI_FLASH_CMD_WRITE_ENABLE = Some (Inr T2)"
    using sim_run_command_returns by blast
  obtain status T3 where s: "imxrt_spi_read_status sim_platform T2 = Some (Inr (status, T3))"
    using sim_read_status_returns' by blast
  have f3: "sim_read_fifo (dev T3) = sim_read_fifo (dev T)"
    using sim_read_status(2) [OF s] sim_fifo_run_command [OF w] by (simp add: T1 sim_fifo_entered)
  obtain T5 where c: "imxrt_spi_run_command sim_platform T3 SPI_FLASH_CMD_CHIP_ERASE = Some (Inr T5)"
    using sim_run_command_returns by blast
  have "sim_read_fifo (dev T5) = sim_read_fifo (dev T)"
    using sim_fifo_run_command [OF c] f3 by simp
  with assms obtain T6 where "imxrt_spi_erase_poll sim_platform T5 = Some (Inr T6)"
    using sim_erase_poll_returns [of T5] by auto
  with c show ?thesis
    by (simp add: mass_erase_unfold [OF w s] bind_r_def)
qed

theorem imxrt_spi_mass_erase_result_witness:
  "\<exists>r ok T' T2 status T3.
     imxrt_spi_mass_erase sim_platform (sim_target (sim_device 0 [0x02] 2)) = Some r \<and>
     r = Inr (ok, T') \<and>
     imxrt_spi_run_command sim_platform
       (snd (imxrt_enter_flash_mode sim_platform (sim_target (sim_device 0 [0x02] 2))))
       SPI_FLASH_CMD_WRITE_ENABLE = Some (Inr T2) \<and>
     imxrt_spi_read_status sim_platform T2 = Some (Inr (status, T3)) \<and>
     status = 0x02 \<and> ok"
proof -
  let ?T = "sim_target (sim_device 0 [0x02] 2)"
  have fifo: "sim_read_fifo (dev ?T) = 0x02 # replicate 127 0"
    by (simp add: sim_target_def sim_device_def)
  have "hd (take 128 (sim_read_fifo (dev ?T) @ replicate 128 0)) AND SPI_FLASH_STATUS_BUSY = 0"
    unfolding fifo by (simp add: SPI_FLASH_STATUS_BUSY_def)
  from sim_mass_erase_returns [OF this] obtain r where r: "imxrt_spi_mass_erase sim_platform ?T = Some r"
    by blast
  from imxrt_spi_mass_erase_result [OF r] obtain ok T' T2 status T3 where
    res: "r = Inr (ok, T')"
    and w: "imxrt_spi_run_command sim_platform (snd (imxrt_enter_flash_mode sim_platform ?T))
              SPI_FLASH_CMD_WRITE_ENABLE = Some (Inr T2)"
    and s: "imxrt_spi_read_status sim_platform T2 = Some (Inr (status, T3))"
    and ok: "ok \<longleftrightarrow> status AND SPI_FLASH_STATUS_WRITE_ENABLED \<noteq> 0"
    by blast
  have "sim_read_fifo (dev T2) = 0x02 # replicate 127 0"
    using sim_fifo_run_command [OF w] by (simp add: enter_flash_mode_eq sim_fifo_entered fifo)
  then have st: "status = 0x02"
    unfolding sim_read_status(1) [OF s] by simp
  with ok have ok by (simp add: SPI_FLASH_STATUS_WRITE_ENABLED_def)
  with r res w s st show ?thesis by blast
qed

lemma lut_writes_no_block:
  "lut_writes (enter_ops P d) = []" "lut_writes (exit_ops priv) = []"
  by (simp_all add: enter_ops_def enter_prefix_ops_def exit_ops_def Let_def lut_writes_append)

lemma lut_writes_write_ops:
  "\<not> bit command 16 \<Longrightarrow>
   lut_writes (write_ops P d command address [] 0 vs) =
     [bytes_of_lut (spec_program (descriptor_of command 0) 0), peek_lut P d]"
  by (simp add: write_ops_def lut_writes_append lut_writes_configure_ops lut_writes_run_ops
      spec_program_def spec_instructions_def descriptor_of_def)

lemma lut_writes_read_ops:
  "\<not> bit command 16 \<Longrightarrow>
   lut_writes (read_ops P d command address len vs) =
     [bytes_of_lut (spec_program (descriptor_of command len) 0), peek_lut P d]"
  by (simp add: read_ops_def lut_writes_append lut_writes_configure_ops lut_writes_run_ops
      spec_program_def spec_instructions_def descriptor_of_def)

lemma command_not_addressed:
  "\<not> bit SPI_FLASH_CMD_WRITE_ENABLE 16" "\<not> bit SPI_FLASH_CMD_READ_STATUS 16"
  "\<not> bit SPI_FLASH_CMD_CHIP_ERASE 16" "\<not> bit SPI_FLASH_CMD_READ_JEDEC_ID 16"
  by (simp_all add: imxrt_command_defs bit_iff_odd_drop_bit)

text \<open>
  Claim C6. Given that Write Enable was issued and the status read after it returned:
  if bit 1 of the status is clear, mass erase returns false with the target that leaving
  guarded mode yields right after that status read, module control 0 and LUT control
  (as plain registers) hold their values from before the call, and the only programs
  written to the LUT were one Write Enable and one Read Status (no second Write Enable,
  no Chip Erase). If bit 1 is set there is no early return: the call goes on with the
  chip erase, the busy poll, and the result of leaving guarded mode.
\<close>

theorem imxrt_spi_mass_erase_abort:
  assumes "plain_register P IMXRT_FLEXSPI1_MOD_CTRL0"
    and "plain_register P IMXRT_FLEXSPI1_LUT_CTRL"
    and "imxrt_spi_run_command P (snd (imxrt_enter_flash_mode P T)) SPI_FLASH_CMD_WRITE_ENABLE = Some (Inr T2)"
    and "imxrt_spi_read_status P T2 = Some (Inr (status, T3))"
  shows "(status AND SPI_FLASH_STATUS_WRITE_ENABLED = 0 \<longrightarrow>
            (\<exists>T'. imxrt_spi_mass_erase P T = Some (Inr (False, T')) \<and>
                   imxrt_exit_flash_mode P T3 = (True, T') \<and>
                   peek32 P (dev T') IMXRT_FLEXSPI1_MOD_CTRL0 = peek32 P (dev T) IMXRT_FLEXSPI1_MOD_CTRL0 \<and>
                   peek32 P (dev T') IMXRT_FLEXSPI1_LUT_CTRL = peek32 P (dev T) IMXRT_FLEXSPI1_LUT_CTRL \<and>
                   lut_writes (issued T T') =
                     [bytes_of_lut (spec_program (descriptor_of SPI_FLASH_CMD_WRITE_ENABLE 0) 0),
                      peek_lut P (dev (snd (imxrt_enter_flash_mode P T))),
                      bytes_of_lut (spec_program (descriptor_of SPI_FLASH_CMD_READ_STATUS 1) 0),
                      peek_lut P (dev T2)])) \<and>
         (status AND SPI_FLASH_STATUS_WRITE_ENABLED \<noteq> 0 \<longrightarrow>
            imxrt_spi_mass_erase P T =
              bind_r (imxrt_spi_run_command P T3 SPI_FLASH_CMD_CHIP_ERASE)
                (\<lambda>T5. bind_r (imxrt_spi_erase_poll P T5)
                         (\<lambda>T6. Some (Inr (imxrt_exit_flash_mode P T6)))))"
proof -
  let ?T1 = "entered P T"
  have T1: "snd (imxrt_enter_flash_mode P T) = ?T1" by (simp add: enter_flash_mode_eq)
  note unfold = mass_erase_unfold [OF assms(3) assms(4)]
  from run_command_eq [OF assms(3)] obtain vs1 where
    T2: "T2 = ran_ops P (saved_lut P ?T1) (write_ops P (dev ?T1) SPI_FLASH_CMD_WRITE_ENABLE 0 [] 0 vs1)"
    by (auto simp add: T1)
  from read_status_eq [OF assms(4)] obtain vs2 where
    T3: "T3 = ran_ops P (saved_lut P T2) (read_ops P (dev T2) SPI_FLASH_CMD_READ_STATUS 0 1 vs2)"
    by auto
  let ?w = "write_ops P (dev ?T1) SPI_FLASH_CMD_WRITE_ENABLE 0 [] 0 vs1"
  let ?r = "read_ops P (dev T2) SPI_FLASH_CMD_READ_STATUS 0 1 vs2"
  let ?T' = "ran_ops P T3 (exit_ops (target_storage T3))"
  have x: "imxrt_exit_flash_mode P T3 = (True, ?T')" by (simp add: exit_flash_mode_eq)
  have ls: "enter_lut_state P (dev T) = peek32 P (dev T) IMXRT_FLEXSPI1_LUT_CTRL"
    by (rule enter_lut_state_plain [OF assms(2)])
  have priv: "flexspi_module_state (target_storage T3) = peek32 P (dev T) IMXRT_FLEXSPI1_MOD_CTRL0"
    "flexspi_lut_state (target_storage T3) = peek32 P (dev T) IMXRT_FLEXSPI1_LUT_CTRL"
    by (simp_all add: T3 T2 ran_ops_fields saved_lut_fields entered_fields ls)
  have devT': "dev ?T' = replay P (dev T) ((enter_ops P (dev T) @ ?w @ ?r) @ exit_ops (target_storage T3))"
    by (simp add: T3 T2 ran_ops_fields saved_lut_fields entered_fields replay_append)
  have mid: "last_write32 IMXRT_FLEXSPI1_LUT_CTRL (enter_ops P (dev T) @ ?w @ ?r) = None \<or>
              peek32 P (dev T) IMXRT_FLEXSPI1_LUT_CTRL \<noteq> IMXRT_FLEXSPI1_LUT_CTRL_UNLOCK"
    using last_write32_enter_ops [of P "dev T"] ls
    by (auto simp add: last_write32_append last_write32_write_ops last_write32_read_ops imxrt_addr_defs)
  have log: "bus_log ?T' = bus_log T @ enter_ops P (dev T) @ ?w @ ?r @ exit_ops (target_storage T3)"
    by (simp add: T3 T2 ran_ops_fields saved_lut_fields entered_fields)
  have "issued T ?T' = enter_ops P (dev T) @ ?w @ ?r @ exit_ops (target_storage T3)"
    unfolding issued_def log by simp
  then have lw: "lut_writes (issued T ?T') =
                     [bytes_of_lut (spec_program (descriptor_of SPI_FLASH_CMD_WRITE_ENABLE 0) 0),
                      peek_lut P (dev ?T1),
                      bytes_of_lut (spec_program (descriptor_of SPI_FLASH_CMD_READ_STATUS 1) 0),
                      peek_lut P (dev T2)]"
    by (simp add: lut_writes_append lut_writes_no_block lut_writes_write_ops lut_writes_read_ops
        command_not_addressed)
  show ?thesis
    using unfold x lw guard_restores [OF assms(1) assms(2) priv mid]
    by (simp add: devT' T1)
qed


theorem imxrt_spi_mass_erase_abort_witness:
  "\<exists>T2 status T3 T'.
     plain_register sim_platform IMXRT_FLEXSPI1_MOD_CTRL0 \<and>
     plain_register sim_platform IMXRT_FLEXSPI1_LUT_CTRL \<and>
     imxrt_spi_run_command sim_platform
       (snd (imxrt_enter_flash_mode sim_platform (sim_target (sim_device 0 [0x00] 2))))
       SPI_FLASH_CMD_WRITE_ENABLE = Some (Inr T2) \<and>
     imxrt_spi_read_status sim_platform T2 = Some (Inr (status, T3)) \<and>
     status AND SPI_FLASH_STATUS_WRITE_ENABLED = 0 \<and>
     imxrt_spi_mass_erase sim_platform (sim_target (sim_device 0 [0x00] 2)) = Some (Inr (False, T')) \<and>
     imxrt_exit_flash_mode sim_platform T3 = (True, T') \<and>
     peek32 sim_platform (dev T') IMXRT_FLEXSPI1_MOD_CTRL0 = 0xffff0002 \<and>
     peek32 sim_platform (dev T') IMXRT_FLEXSPI1_LUT_CTRL = IMXRT_FLEXSPI1_LUT_CTRL_LOCK \<and>
     length (lut_writes (issued (sim_target (sim_device 0 [0x00] 2)) T')) = 4"
proof -
  let ?T = "sim_target (sim_device 0 [0x00] 2)"
  have m: "plain_register sim_platform IMXRT_FLEXSPI1_MOD_CTRL0"
    by (rule sim_plain_register) (simp add: imxrt_addr_defs)
  have l: "plain_register sim_platform IMXRT_FLEXSPI1_LUT_CTRL"
    by (rule sim_plain_register) (simp add: imxrt_addr_defs)
  obtain T2 where w: "imxrt_spi_run_command sim_platform (snd (imxrt_enter_flash_mode sim_platform ?T))
              SPI_FLASH_CMD_WRITE_ENABLE = Some (Inr T2)"
    using sim_run_command_returns by blast
  obtain status T3 where s: "imxrt_spi_read_status sim_platform T2 = Some (Inr (status, T3))"
    using sim_read_status_returns' by blast
  have fifo: "sim_read_fifo (dev ?T) = 0x00 # replicate 127 0"
    by (simp add: sim_target_def sim_device_def)
  have "sim_read_fifo (dev T2) = 0x00 # replicate 127 0"
    using sim_fifo_run_command [OF w] by (simp add: enter_flash_mode_eq sim_fifo_entered fifo)
  then have "status = 0x00"
    unfolding sim_read_status(1) [OF s] by simp
  then have st: "status AND SPI_FLASH_STATUS_WRITE_ENABLED = 0" by simp
  have v: "peek32 sim_platform (dev ?T) IMXRT_FLEXSPI1_MOD_CTRL0 = 0xffff0002"
    "peek32 sim_platform (dev ?T) IMXRT_FLEXSPI1_LUT_CTRL = IMXRT_FLEXSPI1_LUT_CTRL_LOCK"
    by (simp_all add: peek32_def sim_defs imxrt_addr_defs imxrt_field_defs)
  from imxrt_spi_mass_erase_abort [OF m l w s] st obtain T' where
    "imxrt_spi_mass_erase sim_platform ?T = Some (Inr (False, T'))"
    "imxrt_exit_flash_mode sim_platform T3 = (True, T')"
    "peek32 sim_platform (dev T') IMXRT_FLEXSPI1_MOD_CTRL0 = 0xffff0002"
    "peek32 sim_platform (dev T') IMXRT_FLEXSPI1_LUT_CTRL = IMXRT_FLEXSPI1_LUT_CTRL_LOCK"
    "length (lut_writes (issued ?T T')) = 4"
    unfolding v by auto
  with m l w s st show ?thesis by blast
qed

section \<open>Flash registration and probe\<close>

text \<open>
  Claim C7. When the SFDP readout finds nothing, \<open>imxrt_add_flash\<close> assumes page size
  256, sector size 4096, the capacity it was called with and sector erase opcode 0x20;
  for a call with 8388608 that is page 256, sector 4096, capacity 8388608, opcode 0x20.
  The region it then registers has that capacity as length and 4096 as block size.
\<close>

theorem imxrt_add_flash_fallback:
  "imxrt_flash_parameters None len =
     \<lparr>page_size = 256, sector_size = 4096, capacity = len, sector_erase_opcode = 0x20\<rparr> \<and>
   imxrt_flash_parameters None 8388608 =
     \<lparr>page_size = 256, sector_size = 4096, capacity = 8388608, sector_erase_opcode = 0x20\<rparr> \<and>
   SPI_FLASH_OPCODE_SECTOR_ERASE = 0x20 \<and>
   (calloc T = (True, T0) \<and>
    p_sfdp_read_parameters P (imxrt_spi_read_sfdp P) T0 = Some (Inr (None, T1)) \<longrightarrow>
      imxrt_add_flash P T len =
        Some (Inr (target_add_flash T1
                     \<lparr>start = IMXRT_FLEXSPI_BASE, length_sz = len, blocksize = 4096, erased = 0xff\<rparr>)))"
  by (simp add: imxrt_flash_parameters_def SPI_FLASH_OPCODE_SECTOR_ERASE_def imxrt_add_flash_def
      bind_r_def Let_def)

lemma sim_sfdp:
  "\<exists>T1. p_sfdp_read_parameters sim_platform (imxrt_spi_read_sfdp sim_platform) T0 = Some (Inr (None, T1)) \<and>
        flash T1 = flash T0 \<and> host_heap T1 = host_heap T0"
proof -
  obtain r where r: "imxrt_spi_read sim_platform T0 SPI_FLASH_CMD_READ_SFDP 0 8 = Some r"
    using sim_read_returns by blast
  from spi_read_eq [OF r] obtain b T1 where r_eq: "r = Inr (b, T1)"
    and "flash T1 = flash T0" "host_heap T1 = host_heap T0"
    by (auto simp add: ran_ops_fields saved_lut_fields)
  with r show ?thesis
    by (simp add: sim_platform_def imxrt_spi_read_sfdp_def bind_r_def)
qed

theorem imxrt_add_flash_fallback_witness:
  "\<exists>T0 T1.
     calloc (sim_target (sim_device 0 [] 2)) = (True, T0) \<and>
     p_sfdp_read_parameters sim_platform (imxrt_spi_read_sfdp sim_platform) T0 = Some (Inr (None, T1)) \<and>
     imxrt_add_flash sim_platform (sim_target (sim_device 0 [] 2)) 8388608 =
       Some (Inr (target_add_flash T1
                    \<lparr>start = 0x60000000, length_sz = 8388608, blocksize = 4096, erased = 0xff\<rparr>))"
proof -
  let ?T = "sim_target (sim_device 0 [] 2)"
  obtain T0 where c: "calloc ?T = (True, T0)" by (simp add: calloc_def sim_target_def)
  obtain T1 where s: "p_sfdp_read_parameters sim_platform (imxrt_spi_read_sfdp sim_platform) T0 = Some (Inr (None, T1))"
    using sim_sfdp by blast
  from imxrt_add_flash_fallback [of 8388608 ?T T0 sim_platform T1] c s
  have "imxrt_add_flash sim_platform ?T 8388608 =
       Some (Inr (target_add_flash T1
                    \<lparr>start = 0x60000000, length_sz = 8388608, blocksize = 4096, erased = 0xff\<rparr>))"
    by (simp add: IMXRT_FLEXSPI_BASE_def)
  with c s show ?thesis by blast
qed

lemma unat_pow2: "n < 32 \<Longrightarrow> unat (2 ^ n :: u32) = 2 ^ n"
proof -
  assume n: "n < 32"
  have "(2 ^ n :: u32) = of_nat (2 ^ n)" by simp
  then have "unat (2 ^ n :: u32) = take_bit 32 (2 ^ n :: nat)"
    by (simp only: unsigned_of_nat) simp
  also have "\<dots> = 2 ^ n"
    using n by (simp add: take_bit_nat_eq_self_iff)
  finally show ?thesis .
qed

lemma with_hooks_fields:
  "flash (with_hooks T) = flash T" "host_heap (with_hooks T) = host_heap T"
  "target_storage (with_hooks T) = target_storage T" "dev (with_hooks T) = dev T"
  "bus_log (with_hooks T) = bus_log T"
  by (simp_all add: with_hooks_def)

lemma exit_fields:
  "flash (snd (imxrt_exit_flash_mode P T)) = flash T"
  "host_heap (snd (imxrt_exit_flash_mode P T)) = host_heap T"
  by (simp_all add: exit_flash_mode_eq ran_ops_fields)

lemma probe_flash_unfold:
  assumes "imxrt_spi_read P (snd (imxrt_enter_flash_mode P T)) SPI_FLASH_CMD_READ_JEDEC_ID 0 3 =
             Some (Inr (buffer, T2))"
  shows "\<exists>m t c.
     buffer = [m, t, c] \<and>
     imxrt_probe_flash P T =
       bind_r (if m \<noteq> 0xff \<and> t \<noteq> 0xff \<and> c \<noteq> 0xff
               then (if 32 \<le> unat c then Some (Inl Shift_out_of_range)
                     else imxrt_add_flash P (with_hooks T2) (2 ^ unat c))
               else Some (Inr (with_hooks T2)))
         (\<lambda>T4. Some (Inr (snd (imxrt_exit_flash_mode P T4)))) \<and>
     flash T2 = flash T \<and> host_heap T2 = host_heap T"
proof -
  have e: "imxrt_enter_flash_mode P T = (True, entered P T)" by (rule enter_flash_mode_eq)
  from assms have rd: "imxrt_spi_read P (entered P T) SPI_FLASH_CMD_READ_JEDEC_ID 0 3 = Some (Inr (buffer, T2))"
    by (simp add: e)
  from spi_read_eq [OF rd] obtain vs where
    b: "buffer = take 3 (read_data P (dev (entered P T)) SPI_FLASH_CMD_READ_JEDEC_ID 0 3 vs)"
    and T2: "T2 = ran_ops P (saved_lut P (entered P T))
                   (read_ops P (dev (entered P T)) SPI_FLASH_CMD_READ_JEDEC_ID 0 3 vs)"
    by auto
  have "length buffer = 3" unfolding b by (simp add: length_read_data)
  then obtain m t c where mtc: "buffer = [m, t, c]"
    by (cases buffer rule: list.exhaust; simp; cases "tl buffer"; simp; cases "tl (tl buffer)"; auto)
  have fr: "flash T2 = flash T" "host_heap T2 = host_heap T"
    by (simp_all add: T2 ran_ops_fields saved_lut_fields entered_fields)
  have sh: "32 \<le> unat c \<or> unat (push_bit (unat c) 1 :: u32) = 2 ^ unat c"
  proof (cases "32 \<le> unat c")
    case True
    then show ?thesis by simp
  next
    case False
    then have "unat c < 32" by simp
    from unat_pow2 [OF this] show ?thesis by (simp add: push_bit_eq_mult)
  qed
  have "imxrt_probe_flash P T =
       bind_r (if m \<noteq> 0xff \<and> t \<noteq> 0xff \<and> c \<noteq> 0xff
               then (if 32 \<le> unat c then Some (Inl Shift_out_of_range)
                     else imxrt_add_flash P (with_hooks T2) (2 ^ unat c))
               else Some (Inr (with_hooks T2)))
         (\<lambda>T4. Some (Inr (snd (imxrt_exit_flash_mode P T4))))"
    using sh unfolding imxrt_probe_flash_def e prod.case rd
    by (auto simp add: bind_r_def mtc Let_def with_hooks_def)
  with mtc fr show ?thesis by blast
qed


lemma probe_unfold:
  assumes "part_id T = 0x88c" and "host_heap T \<noteq> 0"
  shows "\<exists>T6 ops.
           dev T6 = replay P (dev T) ops \<and> flash T6 = flash T \<and> host_heap T6 = host_heap T - 1 \<and>
           boot_source (target_storage T6) =
             imxrt_boot_source
               (peek32 P (if p_enable_debug P then snd (p_read32 P (dev T) IMXRT_SRC_BOOT_MODE2) else dev T)
                  IMXRT_SRC_BOOT_MODE1) \<and>
           imxrt_probe P T =
             (if boot_source (target_storage T6) = boot_spi_flash_nor \<or>
                 boot_source (target_storage T6) = boot_spi_flash_nand
              then bind_r (imxrt_probe_flash P T6) (\<lambda>T7. Some (Inr (True, T7)))
              else Some (Inr (True, T6)))"
proof -
  let ?ops1 = "if p_enable_debug P
               then [Rd32 IMXRT_SRC_BOOT_MODE2 (peek32 P (dev T) IMXRT_SRC_BOOT_MODE2)] else []"
  let ?cfg = "peek32 P (replay P (dev T) ?ops1) IMXRT_SRC_BOOT_MODE1"
  let ?ops = "?ops1 @ [Rd32 IMXRT_SRC_BOOT_MODE1 ?cfg]"
  let ?T6 = "T\<lparr>host_heap := host_heap T - 1,
               target_options := target_options T OR p_cortexm_topt_inhibit_nrst P,
               driver := ''i.MXRT10xx'',
               dev := replay P (dev T) ?ops,
               bus_log := bus_log T @ ?ops,
               target_storage := imxrt_priv_zero\<lparr>boot_source := imxrt_boot_source ?cfg\<rparr>,
               ram := ram T @ [(IMXRT_OCRAM1_BASE, IMXRT_OCRAM1_SIZE), (IMXRT_OCRAM2_BASE, IMXRT_OCRAM2_SIZE)]\<rparr>"
  have "dev ?T6 = replay P (dev T) ?ops" "flash ?T6 = flash T" "host_heap ?T6 = host_heap T - 1"
    "boot_source (target_storage ?T6) = imxrt_boot_source ?cfg"
    by simp_all
  moreover have "?cfg = peek32 P (if p_enable_debug P then snd (p_read32 P (dev T) IMXRT_SRC_BOOT_MODE2) else dev T)
                  IMXRT_SRC_BOOT_MODE1"
    by simp
  moreover have "imxrt_probe P T =
             (if boot_source (target_storage ?T6) = boot_spi_flash_nor \<or>
                 boot_source (target_storage ?T6) = boot_spi_flash_nand
              then bind_r (imxrt_probe_flash P ?T6) (\<lambda>T7. Some (Inr (True, T7)))
              else Some (Inr (True, ?T6)))"
    using assms
    by (simp add: imxrt_probe_def calloc_def Let_def target_mem_read32_eq ran_ops_def
        target_add_ram_def)
  ultimately show ?thesis by metis
qed

lemma probe_prepared_fields:
  "flash (probe_prepared P T) = flash T"
  "host_heap (probe_prepared P T) = host_heap T - 1"
  "boot_source (target_storage (probe_prepared P T)) =
     imxrt_boot_source
       (peek32 P (if p_enable_debug P then snd (p_read32 P (dev T) IMXRT_SRC_BOOT_MODE2) else dev T)
          IMXRT_SRC_BOOT_MODE1)"
  "dev (probe_prepared P T) =
     replay P (dev T)
       ((if p_enable_debug P then [Rd32 IMXRT_SRC_BOOT_MODE2 (peek32 P (dev T) IMXRT_SRC_BOOT_MODE2)]
         else []) @
        [Rd32 IMXRT_SRC_BOOT_MODE1
           (peek32 P (if p_enable_debug P then snd (p_read32 P (dev T) IMXRT_SRC_BOOT_MODE2) else dev T)
              IMXRT_SRC_BOOT_MODE1)])"
  by (simp_all add: probe_prepared_def calloc_def Let_def target_mem_read32_eq ran_ops_def
      target_add_ram_def)

lemma probe_prepared_eq:
  assumes "part_id T = 0x88c" and "host_heap T \<noteq> 0"
  shows "imxrt_probe P T =
           (if boot_source (target_storage (probe_prepared P T)) = boot_spi_flash_nor \<or>
               boot_source (target_storage (probe_prepared P T)) = boot_spi_flash_nand
            then bind_r (imxrt_probe_flash P (probe_prepared P T)) (\<lambda>T7. Some (Inr (True, T7)))
            else Some (Inr (True, probe_prepared P T)))"
  using assms
  by (simp add: imxrt_probe_def probe_prepared_def calloc_def Let_def split: prod.splits)

lemma bind_r_assoc:
  "bind_r (bind_r x f) g = bind_r x (\<lambda>a. bind_r (f a) g)"
  by (simp add: bind_r_def split: option.splits sum.splits)

lemma bind_r_return: "bind_r (Some (Inr a)) f = f a"
  by (simp add: bind_r_def)

text \<open>
  Claim C5, amended. In the serial-flash block of probe, after the JEDEC ID was read:
  when none of the three ID bytes is 0xFF (and the capacity exponent is below 32),
  \<open>imxrt_add_flash\<close> is called with 2 to the power of the capacity exponent, and the
  block ends by leaving guarded mode; when any of the three bytes is 0xFF no region is
  requested: the flash list and the heap are as before and the block still ends
  normally. And in probe itself, for a matching part whose private block was allocated
  and whose boot configuration classifies as serial NOR or serial NAND: probe runs that
  block on the prepared target; with the ID read there and none of its bytes 0xFF (and
  the exponent below 32) probe is the call of \<open>imxrt_add_flash\<close> with that capacity,
  followed by leaving guarded mode and returning true; with any byte 0xFF probe returns
  true with the flash list as it was and the heap one block lower, the private block.
\<close>

theorem imxrt_probe_flash_region:
  "(imxrt_spi_read P (snd (imxrt_enter_flash_mode P T)) SPI_FLASH_CMD_READ_JEDEC_ID 0 3 =
      Some (Inr (buffer, T2)) \<longrightarrow>
      (\<exists>m t c.
         buffer = [m, t, c] \<and>
         (m \<noteq> 0xff \<and> t \<noteq> 0xff \<and> c \<noteq> 0xff \<and> unat c < 32 \<longrightarrow>
            imxrt_probe_flash P T =
              bind_r (imxrt_add_flash P (with_hooks T2) (2 ^ unat c))
                (\<lambda>T4. Some (Inr (snd (imxrt_exit_flash_mode P T4))))) \<and>
         (m = 0xff \<or> t = 0xff \<or> c = 0xff \<longrightarrow>
            (\<exists>T'. imxrt_probe_flash P T = Some (Inr T') \<and>
                   flash T' = flash T \<and> host_heap T' = host_heap T)))) \<and>
   (part_id Tp = 0x88c \<and> host_heap Tp \<noteq> 0 \<and>
    (imxrt_boot_source
       (peek32 P (if p_enable_debug P then snd (p_read32 P (dev Tp) IMXRT_SRC_BOOT_MODE2) else dev Tp)
          IMXRT_SRC_BOOT_MODE1) = boot_spi_flash_nor \<or>
     imxrt_boot_source
       (peek32 P (if p_enable_debug P then snd (p_read32 P (dev Tp) IMXRT_SRC_BOOT_MODE2) else dev Tp)
          IMXRT_SRC_BOOT_MODE1) = boot_spi_flash_nand) \<and>
    imxrt_spi_read P (snd (imxrt_enter_flash_mode P (probe_prepared P Tp)))
      SPI_FLASH_CMD_READ_JEDEC_ID 0 3 = Some (Inr (id_bytes, Tr)) \<longrightarrow>
      imxrt_probe P Tp =
        bind_r (imxrt_probe_flash P (probe_prepared P Tp)) (\<lambda>T7. Some (Inr (True, T7))) \<and>
      flash Tr = flash Tp \<and> host_heap Tr = host_heap Tp - 1 \<and>
      (\<exists>m t c.
         id_bytes = [m, t, c] \<and>
         (m \<noteq> 0xff \<and> t \<noteq> 0xff \<and> c \<noteq> 0xff \<and> unat c < 32 \<longrightarrow>
            imxrt_probe P Tp =
              bind_r (imxrt_add_flash P (with_hooks Tr) (2 ^ unat c))
                (\<lambda>T4. Some (Inr (True, snd (imxrt_exit_flash_mode P T4))))) \<and>
         (m = 0xff \<or> t = 0xff \<or> c = 0xff \<longrightarrow>
            (\<exists>T'. imxrt_probe P Tp = Some (Inr (True, T')) \<and>
                   flash T' = flash Tp \<and> host_heap T' = host_heap Tp - 1))))"
proof (intro conjI impI)
  assume rd: "imxrt_spi_read P (snd (imxrt_enter_flash_mode P T)) SPI_FLASH_CMD_READ_JEDEC_ID 0 3 =
      Some (Inr (buffer, T2))"
  from probe_flash_unfold [OF rd] obtain m t c where mtc: "buffer = [m, t, c]"
    and pf: "imxrt_probe_flash P T =
       bind_r (if m \<noteq> 0xff \<and> t \<noteq> 0xff \<and> c \<noteq> 0xff
               then (if 32 \<le> unat c then Some (Inl Shift_out_of_range)
                     else imxrt_add_flash P (with_hooks T2) (2 ^ unat c))
               else Some (Inr (with_hooks T2)))
         (\<lambda>T4. Some (Inr (snd (imxrt_exit_flash_mode P T4))))"
    and fr: "flash T2 = flash T" "host_heap T2 = host_heap T"
    by blast
  have valid: "m \<noteq> 0xff \<and> t \<noteq> 0xff \<and> c \<noteq> 0xff \<and> unat c < 32 \<longrightarrow>
            imxrt_probe_flash P T =
              bind_r (imxrt_add_flash P (with_hooks T2) (2 ^ unat c))
                (\<lambda>T4. Some (Inr (snd (imxrt_exit_flash_mode P T4))))"
    by (simp add: pf)
  have invalid: "m = 0xff \<or> t = 0xff \<or> c = 0xff \<longrightarrow>
            (\<exists>T'. imxrt_probe_flash P T = Some (Inr T') \<and>
                   flash T' = flash T \<and> host_heap T' = host_heap T)"
    by (auto simp add: pf bind_r_def exit_fields with_hooks_fields fr)
  from mtc valid invalid show "\<exists>m t c.
         buffer = [m, t, c] \<and>
         (m \<noteq> 0xff \<and> t \<noteq> 0xff \<and> c \<noteq> 0xff \<and> unat c < 32 \<longrightarrow>
            imxrt_probe_flash P T =
              bind_r (imxrt_add_flash P (with_hooks T2) (2 ^ unat c))
                (\<lambda>T4. Some (Inr (snd (imxrt_exit_flash_mode P T4))))) \<and>
         (m = 0xff \<or> t = 0xff \<or> c = 0xff \<longrightarrow>
            (\<exists>T'. imxrt_probe_flash P T = Some (Inr T') \<and>
                   flash T' = flash T \<and> host_heap T' = host_heap T))"
    by blast
next
  let ?T6 = "probe_prepared P Tp"
  assume a: "part_id Tp = 0x88c \<and> host_heap Tp \<noteq> 0 \<and>
    (imxrt_boot_source
       (peek32 P (if p_enable_debug P then snd (p_read32 P (dev Tp) IMXRT_SRC_BOOT_MODE2) else dev Tp)
          IMXRT_SRC_BOOT_MODE1) = boot_spi_flash_nor \<or>
     imxrt_boot_source
       (peek32 P (if p_enable_debug P then snd (p_read32 P (dev Tp) IMXRT_SRC_BOOT_MODE2) else dev Tp)
          IMXRT_SRC_BOOT_MODE1) = boot_spi_flash_nand) \<and>
    imxrt_spi_read P (snd (imxrt_enter_flash_mode P (probe_prepared P Tp)))
      SPI_FLASH_CMD_READ_JEDEC_ID 0 3 = Some (Inr (id_bytes, Tr))"
  then have part: "part_id Tp = 0x88c" and heap: "host_heap Tp \<noteq> 0"
    and serial: "boot_source (target_storage ?T6) = boot_spi_flash_nor \<or>
                 boot_source (target_storage ?T6) = boot_spi_flash_nand"
    and rd: "imxrt_spi_read P (snd (imxrt_enter_flash_mode P ?T6))
               SPI_FLASH_CMD_READ_JEDEC_ID 0 3 = Some (Inr (id_bytes, Tr))"
    by (simp_all add: probe_prepared_fields(3))
  from probe_prepared_eq [OF part heap, of P] serial
  show pr: "imxrt_probe P Tp = bind_r (imxrt_probe_flash P ?T6) (\<lambda>T7. Some (Inr (True, T7)))"
    by simp
  from probe_flash_unfold [OF rd] obtain m t c where mtc: "id_bytes = [m, t, c]"
    and pf: "imxrt_probe_flash P ?T6 =
       bind_r (if m \<noteq> 0xff \<and> t \<noteq> 0xff \<and> c \<noteq> 0xff
               then (if 32 \<le> unat c then Some (Inl Shift_out_of_range)
                     else imxrt_add_flash P (with_hooks Tr) (2 ^ unat c))
               else Some (Inr (with_hooks Tr)))
         (\<lambda>T4. Some (Inr (snd (imxrt_exit_flash_mode P T4))))"
    and fr: "flash Tr = flash ?T6" "host_heap Tr = host_heap ?T6"
    by blast
  from fr show fr': "flash Tr = flash Tp" "host_heap Tr = host_heap Tp - 1"
    by (simp_all add: probe_prepared_fields)
  have valid: "m \<noteq> 0xff \<and> t \<noteq> 0xff \<and> c \<noteq> 0xff \<and> unat c < 32 \<longrightarrow>
            imxrt_probe P Tp =
              bind_r (imxrt_add_flash P (with_hooks Tr) (2 ^ unat c))
                (\<lambda>T4. Some (Inr (True, snd (imxrt_exit_flash_mode P T4))))"
    by (simp add: pr pf bind_r_assoc bind_r_return)
  have invalid: "m = 0xff \<or> t = 0xff \<or> c = 0xff \<longrightarrow>
            (\<exists>T'. imxrt_probe P Tp = Some (Inr (True, T')) \<and>
                   flash T' = flash Tp \<and> host_heap T' = host_heap Tp - 1)"
    by (auto simp add: pr pf bind_r_return exit_fields with_hooks_fields fr')
  from mtc valid invalid show "\<exists>m t c.
         id_bytes = [m, t, c] \<and>
         (m \<noteq> 0xff \<and> t \<noteq> 0xff \<and> c \<noteq> 0xff \<and> unat c < 32 \<longrightarrow>
            imxrt_probe P Tp =
              bind_r (imxrt_add_flash P (with_hooks Tr) (2 ^ unat c))
                (\<lambda>T4. Some (Inr (True, snd (imxrt_exit_flash_mode P T4))))) \<and>
         (m = 0xff \<or> t = 0xff \<or> c = 0xff \<longrightarrow>
            (\<exists>T'. imxrt_probe P Tp = Some (Inr (True, T')) \<and>
                   flash T' = flash Tp \<and> host_heap T' = host_heap Tp - 1))"
    by blast
qed


lemma sim_jedec_read:
  assumes "sim_read_fifo (dev T) = m # t # c # rest"
  shows "\<exists>T2. imxrt_spi_read sim_platform (snd (imxrt_enter_flash_mode sim_platform T))
                 SPI_FLASH_CMD_READ_JEDEC_ID 0 3 = Some (Inr ([m, t, c], T2))"
proof -
  let ?T1 = "snd (imxrt_enter_flash_mode sim_platform T)"
  have f1: "sim_read_fifo (dev ?T1) = m # t # c # rest"
    by (simp add: enter_flash_mode_eq sim_fifo_entered assms)
  obtain r where r: "imxrt_spi_read sim_platform ?T1 SPI_FLASH_CMD_READ_JEDEC_ID 0 3 = Some r"
    using sim_read_returns by blast
  from spi_read_eq [OF r] obtain T2 where "r = Inr ([m, t, c], T2)"
    by (auto simp add: sim_read_data_fifo f1)
  with r show ?thesis by blast
qed

lemma sim_boot_cfg:
  "peek32 sim_platform
     (if p_enable_debug sim_platform
      then snd (p_read32 sim_platform (dev (sim_target (sim_device boot_cfg fifo n))) IMXRT_SRC_BOOT_MODE2)
      else dev (sim_target (sim_device boot_cfg fifo n)))
     IMXRT_SRC_BOOT_MODE1 = boot_cfg"
  by (simp add: peek32_def sim_defs imxrt_addr_defs)

lemma sim_probe_prepared:
  assumes "imxrt_boot_source boot_cfg = boot_spi_flash_nor"
  shows "\<exists>T6. sim_read_fifo (dev T6) = sim_read_fifo (sim_device boot_cfg fifo n) \<and>
              flash T6 = [] \<and> host_heap T6 = 1 \<and>
              imxrt_probe sim_platform (sim_target (sim_device boot_cfg fifo n)) =
                bind_r (imxrt_probe_flash sim_platform T6) (\<lambda>T7. Some (Inr (True, T7)))"
proof -
  let ?T = "sim_target (sim_device boot_cfg fifo n)"
  have "part_id ?T = 0x88c" "host_heap ?T \<noteq> 0" by (simp_all add: sim_target_def)
  from probe_unfold [OF this, of sim_platform] obtain T6 ops where
    "dev T6 = replay sim_platform (dev ?T) ops" "flash T6 = flash ?T" "host_heap T6 = host_heap ?T - 1"
    "boot_source (target_storage T6) = imxrt_boot_source boot_cfg"
    "imxrt_probe sim_platform ?T =
             (if boot_source (target_storage T6) = boot_spi_flash_nor \<or>
                 boot_source (target_storage T6) = boot_spi_flash_nand
              then bind_r (imxrt_probe_flash sim_platform T6) (\<lambda>T7. Some (Inr (True, T7)))
              else Some (Inr (True, T6)))"
    unfolding sim_boot_cfg by blast
  with assms have "sim_read_fifo (dev T6) = sim_read_fifo (sim_device boot_cfg fifo n) \<and>
              flash T6 = [] \<and> host_heap T6 = 1 \<and>
              imxrt_probe sim_platform ?T =
                bind_r (imxrt_probe_flash sim_platform T6) (\<lambda>T7. Some (Inr (True, T7)))"
    by (simp add: sim_replay_fifo) (simp add: sim_target_def)
  then show ?thesis by blast
qed

lemma sim_probe_flash_invalid:
  assumes "sim_read_fifo (dev T) = m # 0xff # c # rest"
  shows "\<exists>T'. imxrt_probe_flash sim_platform T = Some (Inr T') \<and>
              flash T' = flash T \<and> host_heap T' = host_heap T"
proof -
  obtain T2 where rd: "imxrt_spi_read sim_platform (snd (imxrt_enter_flash_mode sim_platform T))
                 SPI_FLASH_CMD_READ_JEDEC_ID 0 3 = Some (Inr ([m, 0xff, c], T2))"
    using sim_jedec_read [OF assms] by blast
  from probe_flash_unfold [OF rd] show ?thesis
    by (auto simp add: bind_r_def exit_fields with_hooks_fields)
qed

text \<open>
  Claim C5 as stated fails. The claim requests a region whenever the three bytes are
  not all 0xFF. On the simulated part the ID read in probe is EF FF 16, which is not
  all 0xFF; the block and the whole probe end normally, probe returns true, and no
  region was requested: the flash list is empty and the heap served the private block
  only.
\<close>

theorem imxrt_probe_flash_region_counterexample:
  "(case imxrt_spi_read sim_platform
           (snd (imxrt_enter_flash_mode sim_platform (sim_target (sim_device 0 [0xef, 0xff, 0x16] 2))))
           SPI_FLASH_CMD_READ_JEDEC_ID 0 3 of
      Some (Inr (buffer, T2)) \<Rightarrow> buffer = [0xef, 0xff, 0x16]
    | _ \<Rightarrow> False) \<and>
   \<not> jedec_all_ff \<lparr>manufacturer = 0xef, type_u8 = 0xff, capacity_u8 = 0x16\<rparr> \<and>
   (case imxrt_probe_flash sim_platform (sim_target (sim_device 0 [0xef, 0xff, 0x16] 2)) of
      Some (Inr T') \<Rightarrow> flash T' = [] \<and> host_heap T' = 2
    | _ \<Rightarrow> False) \<and>
   (case imxrt_probe sim_platform (sim_target (sim_device 0 [0xef, 0xff, 0x16] 2)) of
      Some (Inr (ok, T')) \<Rightarrow> ok \<and> flash T' = [] \<and> host_heap T' = 1
    | _ \<Rightarrow> False)"
proof -
  let ?d = "sim_device 0 [0xef, 0xff, 0x16] 2"
  let ?T = "sim_target ?d"
  have fifo: "sim_read_fifo ?d = 0xef # 0xff # 0x16 # replicate 125 0"
    by (simp add: sim_device_def)
  have fifoT: "sim_read_fifo (dev ?T) = 0xef # 0xff # 0x16 # replicate 125 0"
    by (simp add: sim_target_def fifo)
  have fl: "flash ?T = []" "host_heap ?T = 2" by (simp_all add: sim_target_def)
  have 1: "case imxrt_spi_read sim_platform (snd (imxrt_enter_flash_mode sim_platform ?T))
           SPI_FLASH_CMD_READ_JEDEC_ID 0 3 of
      Some (Inr (buffer, T2)) \<Rightarrow> buffer = [0xef, 0xff, 0x16]
    | _ \<Rightarrow> False"
    using sim_jedec_read [OF fifoT] by auto
  have 2: "\<not> jedec_all_ff \<lparr>manufacturer = 0xef, type_u8 = 0xff, capacity_u8 = 0x16\<rparr>"
    by (simp add: jedec_all_ff_def)
  have 3: "case imxrt_probe_flash sim_platform ?T of
      Some (Inr T') \<Rightarrow> flash T' = [] \<and> host_heap T' = 2
    | _ \<Rightarrow> False"
    using sim_probe_flash_invalid [OF fifoT] by (auto simp add: fl)
  have nor: "imxrt_boot_source 0 = boot_spi_flash_nor" by (simp add: imxrt_boot_source_def)
  from sim_probe_prepared [OF nor, of "[0xef, 0xff, 0x16]" 2] obtain T6 where
    T6: "sim_read_fifo (dev T6) = 0xef # 0xff # 0x16 # replicate 125 0" "flash T6 = []" "host_heap T6 = 1"
    and pr: "imxrt_probe sim_platform ?T = bind_r (imxrt_probe_flash sim_platform T6) (\<lambda>T7. Some (Inr (True, T7)))"
    unfolding fifo by blast
  have 4: "case imxrt_probe sim_platform ?T of
      Some (Inr (ok, T')) \<Rightarrow> ok \<and> flash T' = [] \<and> host_heap T' = 1
    | _ \<Rightarrow> False"
    using sim_probe_flash_invalid [OF T6(1)] by (auto simp add: pr bind_r_def T6)
  from 1 2 3 4 show ?thesis by blast
qed


lemma sim_add_flash:
  assumes "host_heap T \<noteq> 0"
  shows "\<exists>T'. imxrt_add_flash sim_platform T len = Some (Inr T') \<and>
              flash T' = flash T @ [\<lparr>start = IMXRT_FLEXSPI_BASE, length_sz = len, blocksize = 4096,
                                     erased = 0xff\<rparr>] \<and>
              host_heap T' = host_heap T - 1"
proof -
  let ?T0 = "T\<lparr>host_heap := host_heap T - 1\<rparr>"
  have c: "calloc T = (True, ?T0)" using assms by (simp add: calloc_def)
  obtain T1 where s: "p_sfdp_read_parameters sim_platform (imxrt_spi_read_sfdp sim_platform) ?T0 =
                        Some (Inr (None, T1))"
    and fr: "flash T1 = flash ?T0" "host_heap T1 = host_heap ?T0"
    using sim_sfdp by blast
  show ?thesis
    unfolding imxrt_add_flash_def c prod.case bool.case s
    by (simp add: bind_r_def Let_def imxrt_flash_parameters_def target_add_flash_def fr)
qed

lemma sim_probe_flash_valid:
  assumes "sim_read_fifo (dev T) = 0xef # 0x40 # 0x16 # rest" and "host_heap T \<noteq> 0"
  shows "\<exists>T'. imxrt_probe_flash sim_platform T = Some (Inr T') \<and>
              flash T' = flash T @ [\<lparr>start = IMXRT_FLEXSPI_BASE, length_sz = 4194304, blocksize = 4096,
                                     erased = 0xff\<rparr>]"
proof -
  obtain T2 where rd: "imxrt_spi_read sim_platform (snd (imxrt_enter_flash_mode sim_platform T))
                 SPI_FLASH_CMD_READ_JEDEC_ID 0 3 = Some (Inr ([0xef, 0x40, 0x16], T2))"
    using sim_jedec_read [OF assms(1)] by blast
  from probe_flash_unfold [OF rd] have pf: "imxrt_probe_flash sim_platform T =
       bind_r (imxrt_add_flash sim_platform (with_hooks T2) 4194304)
         (\<lambda>T4. Some (Inr (snd (imxrt_exit_flash_mode sim_platform T4))))"
    and fr: "flash T2 = flash T" "host_heap T2 = host_heap T"
    by simp_all
  from assms(2) fr have "host_heap (with_hooks T2) \<noteq> 0" by (simp add: with_hooks_fields)
  from sim_add_flash [OF this, of 4194304] obtain T4 where
    "imxrt_add_flash sim_platform (with_hooks T2) 4194304 = Some (Inr T4)"
    "flash T4 = flash T @ [\<lparr>start = IMXRT_FLEXSPI_BASE, length_sz = 4194304, blocksize = 4096,
                                     erased = 0xff\<rparr>]"
    by (auto simp add: with_hooks_fields fr)
  then show ?thesis
    by (simp add: pf bind_r_def exit_fields)
qed

lemma sim_fifo_prepared:
  "sim_read_fifo (dev (probe_prepared sim_platform T)) = sim_read_fifo (dev T)"
  by (simp only: probe_prepared_fields(4) sim_replay_fifo)

theorem imxrt_probe_flash_region_witness:
  "\<exists>T2 Tr T' Ti.
     imxrt_spi_read sim_platform
       (snd (imxrt_enter_flash_mode sim_platform (sim_target (sim_device 0 [0xef, 0x40, 0x16] 2))))
       SPI_FLASH_CMD_READ_JEDEC_ID 0 3 = Some (Inr ([0xef, 0x40, 0x16], T2)) \<and>
     imxrt_probe_flash sim_platform (sim_target (sim_device 0 [0xef, 0x40, 0x16] 2)) =
       bind_r (imxrt_add_flash sim_platform (with_hooks T2) 4194304)
         (\<lambda>T4. Some (Inr (snd (imxrt_exit_flash_mode sim_platform T4)))) \<and>
     part_id (sim_target (sim_device 0 [0xef, 0x40, 0x16] 2)) = 0x88c \<and>
     host_heap (sim_target (sim_device 0 [0xef, 0x40, 0x16] 2)) \<noteq> 0 \<and>
     imxrt_boot_source
       (peek32 sim_platform
          (if p_enable_debug sim_platform
           then snd (p_read32 sim_platform (dev (sim_target (sim_device 0 [0xef, 0x40, 0x16] 2)))
                       IMXRT_SRC_BOOT_MODE2)
           else dev (sim_target (sim_device 0 [0xef, 0x40, 0x16] 2)))
          IMXRT_SRC_BOOT_MODE1) = boot_spi_flash_nor \<and>
     imxrt_spi_read sim_platform
       (snd (imxrt_enter_flash_mode sim_platform
               (probe_prepared sim_platform (sim_target (sim_device 0 [0xef, 0x40, 0x16] 2)))))
       SPI_FLASH_CMD_READ_JEDEC_ID 0 3 = Some (Inr ([0xef, 0x40, 0x16], Tr)) \<and>
     imxrt_probe sim_platform (sim_target (sim_device 0 [0xef, 0x40, 0x16] 2)) =
       bind_r (imxrt_add_flash sim_platform (with_hooks Tr) 4194304)
         (\<lambda>T4. Some (Inr (True, snd (imxrt_exit_flash_mode sim_platform T4)))) \<and>
     imxrt_probe sim_platform (sim_target (sim_device 0 [0xef, 0x40, 0x16] 2)) = Some (Inr (True, T')) \<and>
     flash T' = [\<lparr>start = 0x60000000, length_sz = 4194304, blocksize = 4096, erased = 0xff\<rparr>] \<and>
     imxrt_probe sim_platform (sim_target (sim_device 0 [0xef, 0xff, 0x16] 2)) = Some (Inr (True, Ti)) \<and>
     flash Ti = [] \<and> host_heap Ti = 1"
proof -
  let ?d = "sim_device 0 [0xef, 0x40, 0x16] 2"
  let ?T = "sim_target ?d"
  let ?di = "sim_device 0 [0xef, 0xff, 0x16] 2"
  let ?Ti = "sim_target ?di"
  have fifoT: "sim_read_fifo (dev ?T) = 0xef # 0x40 # 0x16 # replicate 125 0"
    by (simp add: sim_target_def sim_device_def)
  have fifoTi: "sim_read_fifo (dev ?Ti) = 0xef # 0xff # 0x16 # replicate 125 0"
    by (simp add: sim_target_def sim_device_def)
  have fl: "flash ?T = []" "host_heap ?T \<noteq> 0" "part_id ?T = 0x88c" "host_heap ?T = 2"
    by (simp_all add: sim_target_def)
  have fli: "flash ?Ti = []" "host_heap ?Ti \<noteq> 0" "part_id ?Ti = 0x88c" "host_heap ?Ti = 2"
    by (simp_all add: sim_target_def)
  have nor: "imxrt_boot_source 0 = boot_spi_flash_nor" by (simp add: imxrt_boot_source_def)
  have boot: "imxrt_boot_source
       (peek32 sim_platform
          (if p_enable_debug sim_platform
           then snd (p_read32 sim_platform (dev ?T) IMXRT_SRC_BOOT_MODE2)
           else dev ?T)
          IMXRT_SRC_BOOT_MODE1) = boot_spi_flash_nor"
    unfolding sim_boot_cfg by (rule nor)
  have booti: "imxrt_boot_source
       (peek32 sim_platform
          (if p_enable_debug sim_platform
           then snd (p_read32 sim_platform (dev ?Ti) IMXRT_SRC_BOOT_MODE2)
           else dev ?Ti)
          IMXRT_SRC_BOOT_MODE1) = boot_spi_flash_nor"
    unfolding sim_boot_cfg by (rule nor)
  obtain T2 where rd: "imxrt_spi_read sim_platform (snd (imxrt_enter_flash_mode sim_platform ?T))
                 SPI_FLASH_CMD_READ_JEDEC_ID 0 3 = Some (Inr ([0xef, 0x40, 0x16], T2))"
    using sim_jedec_read [OF fifoT] by blast
  have "sim_read_fifo (dev (probe_prepared sim_platform ?T)) = 0xef # 0x40 # 0x16 # replicate 125 0"
    by (simp only: sim_fifo_prepared fifoT)
  from sim_jedec_read [OF this] obtain Tr where
    rdp: "imxrt_spi_read sim_platform
            (snd (imxrt_enter_flash_mode sim_platform (probe_prepared sim_platform ?T)))
            SPI_FLASH_CMD_READ_JEDEC_ID 0 3 = Some (Inr ([0xef, 0x40, 0x16], Tr))"
    by blast
  have "sim_read_fifo (dev (probe_prepared sim_platform ?Ti)) = 0xef # 0xff # 0x16 # replicate 125 0"
    by (simp only: sim_fifo_prepared fifoTi)
  from sim_jedec_read [OF this] obtain Tri where
    rdi: "imxrt_spi_read sim_platform
            (snd (imxrt_enter_flash_mode sim_platform (probe_prepared sim_platform ?Ti)))
            SPI_FLASH_CMD_READ_JEDEC_ID 0 3 = Some (Inr ([0xef, 0xff, 0x16], Tri))"
    by blast
  note inst = imxrt_probe_flash_region
    [of sim_platform ?T "[0xef, 0x40, 0x16]" T2 ?T "[0xef, 0x40, 0x16]" Tr]
  note insti = imxrt_probe_flash_region
    [of sim_platform ?T "[0xef, 0x40, 0x16]" T2 ?Ti "[0xef, 0xff, 0x16]" Tri]
  from inst rd have pf: "imxrt_probe_flash sim_platform ?T =
       bind_r (imxrt_add_flash sim_platform (with_hooks T2) 4194304)
         (\<lambda>T4. Some (Inr (snd (imxrt_exit_flash_mode sim_platform T4))))"
    by simp
  from fl(2,3) boot rdp have hyp: "part_id ?T = 0x88c \<and> host_heap ?T \<noteq> 0 \<and>
    (imxrt_boot_source
       (peek32 sim_platform
          (if p_enable_debug sim_platform
           then snd (p_read32 sim_platform (dev ?T) IMXRT_SRC_BOOT_MODE2)
           else dev ?T)
          IMXRT_SRC_BOOT_MODE1) = boot_spi_flash_nor \<or>
     imxrt_boot_source
       (peek32 sim_platform
          (if p_enable_debug sim_platform
           then snd (p_read32 sim_platform (dev ?T) IMXRT_SRC_BOOT_MODE2)
           else dev ?T)
          IMXRT_SRC_BOOT_MODE1) = boot_spi_flash_nand) \<and>
    imxrt_spi_read sim_platform
      (snd (imxrt_enter_flash_mode sim_platform (probe_prepared sim_platform ?T)))
      SPI_FLASH_CMD_READ_JEDEC_ID 0 3 = Some (Inr ([0xef, 0x40, 0x16], Tr))"
    by (intro conjI disjI1)
  note q = inst [THEN conjunct2, THEN mp, OF hyp]
  note fr = q [THEN conjunct2, THEN conjunct1] q [THEN conjunct2, THEN conjunct2, THEN conjunct1]
  from q [THEN conjunct2, THEN conjunct2, THEN conjunct2] obtain m t c :: u8 where
    mtc: "[0xef, 0x40, 0x16] = [m, t, c]"
    and v: "m \<noteq> 0xff \<and> t \<noteq> 0xff \<and> c \<noteq> 0xff \<and> unat c < 32 \<longrightarrow>
            imxrt_probe sim_platform ?T =
              bind_r (imxrt_add_flash sim_platform (with_hooks Tr) (2 ^ unat c))
                (\<lambda>T4. Some (Inr (True, snd (imxrt_exit_flash_mode sim_platform T4))))"
    by blast
  from mtc have "m = 0xef" "t = 0x40" "c = 0x16" by simp_all
  with v have pr: "imxrt_probe sim_platform ?T =
       bind_r (imxrt_add_flash sim_platform (with_hooks Tr) 4194304)
         (\<lambda>T4. Some (Inr (True, snd (imxrt_exit_flash_mode sim_platform T4))))"
    by simp
  from fr fl have "host_heap (with_hooks Tr) \<noteq> 0" by (simp add: with_hooks_fields)
  from sim_add_flash [OF this, of 4194304] obtain T4 where
    T4: "imxrt_add_flash sim_platform (with_hooks Tr) 4194304 = Some (Inr T4)"
    "flash T4 = [\<lparr>start = 0x60000000, length_sz = 4194304, blocksize = 4096, erased = 0xff\<rparr>]"
    by (auto simp add: with_hooks_fields fr fl IMXRT_FLEXSPI_BASE_def)
  have p: "imxrt_probe sim_platform ?T = Some (Inr (True, snd (imxrt_exit_flash_mode sim_platform T4)))"
    "flash (snd (imxrt_exit_flash_mode sim_platform T4)) =
       [\<lparr>start = 0x60000000, length_sz = 4194304, blocksize = 4096, erased = 0xff\<rparr>]"
    by (simp_all add: pr T4 bind_r_def exit_fields)
  from fli(2,3) booti rdi have hypi: "part_id ?Ti = 0x88c \<and> host_heap ?Ti \<noteq> 0 \<and>
    (imxrt_boot_source
       (peek32 sim_platform
          (if p_enable_debug sim_platform
           then snd (p_read32 sim_platform (dev ?Ti) IMXRT_SRC_BOOT_MODE2)
           else dev ?Ti)
          IMXRT_SRC_BOOT_MODE1) = boot_spi_flash_nor \<or>
     imxrt_boot_source
       (peek32 sim_platform
          (if p_enable_debug sim_platform
           then snd (p_read32 sim_platform (dev ?Ti) IMXRT_SRC_BOOT_MODE2)
           else dev ?Ti)
          IMXRT_SRC_BOOT_MODE1) = boot_spi_flash_nand) \<and>
    imxrt_spi_read sim_platform
      (snd (imxrt_enter_flash_mode sim_platform (probe_prepared sim_platform ?Ti)))
      SPI_FLASH_CMD_READ_JEDEC_ID 0 3 = Some (Inr ([0xef, 0xff, 0x16], Tri))"
    by (intro conjI disjI1)
  note qi = insti [THEN conjunct2, THEN mp, OF hypi]
  from qi [THEN conjunct2, THEN conjunct2, THEN conjunct2] obtain mi ti ci :: u8 where
    mtci: "[0xef, 0xff, 0x16] = [mi, ti, ci]"
    and iv: "mi = 0xff \<or> ti = 0xff \<or> ci = 0xff \<longrightarrow>
            (\<exists>T'. imxrt_probe sim_platform ?Ti = Some (Inr (True, T')) \<and>
                   flash T' = flash ?Ti \<and> host_heap T' = host_heap ?Ti - 1)"
    by blast
  from mtci have "ti = 0xff" by simp
  with iv obtain Ti where
    pi: "imxrt_probe sim_platform ?Ti = Some (Inr (True, Ti))" "flash Ti = flash ?Ti"
      "host_heap Ti = host_heap ?Ti - 1"
    by blast
  from pi fli have pi': "flash Ti = []" "host_heap Ti = 1" by simp_all
  from rd pf fl(2,3) boot rdp pr p pi(1) pi' show ?thesis by blast
qed

end
